theory Spec2Isabelle
  imports Main
begin

section \<open>Decoded documents\<close>

text \<open>
  The YAML decoder hands the handlers values of Go's empty interface. Decoding into an
  empty interface produces scalars, slices and maps with interface keys; a map key is a
  hashable value, so a scalar. Floats and timestamps are further non-string scalars and
  take the same branches as \<open>SInt\<close> everywhere below (they only reach \<open>default\<close> cases).
  A Go map holds each key once and is iterated in no fixed order; it is written here as
  an association list, \<open>length\<close> being Go's \<open>len\<close> and \<open>map_of\<close> the lookup.
\<close>

datatype scalar = SNil | SBool bool | SInt int | SStr string

datatype yaml =
    Scalar scalar
  | Slice "yaml list"
  | MapII "(scalar \<times> yaml) list"

text \<open>What \<open>recurseMapStringKeys\<close> returns: the same tree with \<open>map[string]interface{}\<close> nodes.\<close>

datatype jsonv =
    JScalar scalar
  | JSlice "jsonv list"
  | MapSI "(string \<times> jsonv) list"

text \<open>
  The functions of \<open>encoding/json\<close> the handlers call are outside the repository and
  are parameters: the encoder of one Go string (quotes included), \<open>json.Valid\<close>, and
  \<open>json.Marshal\<close> on a converted tree (which can fail, for instance on a NaN).
\<close>

record jsonlib =
  json_String :: "string \<Rightarrow> string"
  json_Valid :: "string \<Rightarrow> bool"
  json_Marshal :: "jsonv \<Rightarrow> string + string"

section \<open>validateCredValue\<close>

datatype aws_reason = WrongSize | MissingFields | NonStringFields | FailedToReserialize | ExpectedAMap

text \<open>One constructor for each \<open>fmt.Errorf\<close> of \<open>validateCredValue\<close>, with its arguments.\<close>

datatype cred_error =
    AwsValueError string string aws_reason
  | GcpNotValidJson string string
  | GcpNotJsonString string string
  | UnsupportedCredType string

text \<open>\<open>json.Marshal\<close> of the struct \<open>AWSCredentialValue\<close>: two string fields, in field order.\<close>

definition marshalAWSCredentialValue :: "jsonlib \<Rightarrow> string \<Rightarrow> string \<Rightarrow> string + string" where
  \<open>marshalAWSCredentialValue L keystr valstr =
     Inr (''{"AWS_ACCESS_KEY_ID":'' @ json_String L keystr @
          '',"AWS_SECRET_ACCESS_KEY":'' @ json_String L valstr @ ''}'')\<close>

definition validateCredValue :: "jsonlib \<Rightarrow> string \<Rightarrow> string \<Rightarrow> yaml \<Rightarrow> cred_error + string" where
  "validateCredValue L credName credType credValue =
    (if credType = ''aws-key'' then
       (case credValue of
          MapII v \<Rightarrow>
            if length v \<noteq> 2 then Inl (AwsValueError credType credName WrongSize)
            else
              (case (map_of v (SStr ''AWS_ACCESS_KEY_ID''), map_of v (SStr ''AWS_SECRET_ACCESS_KEY'')) of
                 (Some key, Some val) \<Rightarrow>
                   (case (key, val) of
                      (Scalar (SStr keystr), Scalar (SStr valstr)) \<Rightarrow>
                        (case marshalAWSCredentialValue L keystr valstr of
                           Inl err \<Rightarrow> Inl (AwsValueError credType credName FailedToReserialize)
                         | Inr json \<Rightarrow> Inr json)
                    | _ \<Rightarrow> Inl (AwsValueError credType credName NonStringFields))
               | _ \<Rightarrow> Inl (AwsValueError credType credName MissingFields))
        | _ \<Rightarrow> Inl (AwsValueError credType credName ExpectedAMap))
     else if credType = ''gcp-service-account'' then
       (case credValue of
          Scalar (SStr v) \<Rightarrow>
            if \<not> json_Valid L v then Inl (GcpNotValidJson credType credName)
            else Inr v
        | _ \<Rightarrow> Inl (GcpNotJsonString credType credName))
     else Inl (UnsupportedCredType credType))"

section \<open>recurseMapStringKeys\<close>

text \<open>
  The only error of \<open>recurseMapStringKeys\<close> is \<open>errors.New("map is invalid (keys must be
  strings)")\<close>. The two \<open>range\<close> loops are \<open>recurseMap\<close> and \<open>recurseSlice\<close>; each stops at
  the first error. The slice loop writes the converted entries back into the slice it
  returns; the map loop fills a new map.
\<close>

datatype conv_error = KeysMustBeStrings

fun recurseMapStringKeys :: "yaml \<Rightarrow> conv_error + jsonv"
  and recurseMap :: "(scalar \<times> yaml) list \<Rightarrow> (string \<times> jsonv) list \<Rightarrow> conv_error + (string \<times> jsonv) list"
  and recurseSlice :: "yaml list \<Rightarrow> jsonv list \<Rightarrow> conv_error + jsonv list" where
  "recurseMapStringKeys (MapII inType) =
     (case recurseMap inType [] of Inl err \<Rightarrow> Inl err | Inr strMap \<Rightarrow> Inr (MapSI strMap))"
| "recurseMapStringKeys (Slice inType) =
     (case recurseSlice inType [] of Inl err \<Rightarrow> Inl err | Inr done \<Rightarrow> Inr (JSlice done))"
| "recurseMapStringKeys (Scalar s) = Inr (JScalar s)"
| "recurseMap [] strMap = Inr strMap"
| "recurseMap ((k, v) # rest) strMap =
     (case k of
        SStr kType \<Rightarrow>
          (case recurseMapStringKeys v of
             Inl err \<Rightarrow> Inl err
           | Inr conv \<Rightarrow> recurseMap rest (strMap @ [(kType, conv)]))
      | _ \<Rightarrow> Inl KeysMustBeStrings)"
| "recurseSlice [] done = Inr done"
| "recurseSlice (v # rest) done =
     (case recurseMapStringKeys v of
        Inl err \<Rightarrow> Inl err
      | Inr conv \<Rightarrow> recurseSlice rest (done @ [conv]))"

section \<open>Requests, responses and the store\<close>

record request =
  req_Header :: "string \<rightharpoonup> string list"
  req_URL :: string

text \<open>
  One constructor for each message the handlers below pass to \<open>http.Error\<close>, carrying
  the arguments of its format string. Errors of the store and of the decoder are Go
  \<open>error\<close> values, kept as their text.
\<close>

datatype message =
    MissingTenantID string
  | InvalidTenantID string
  | ListingCredentialsFailed string string
  | DecodingCredentialFailed nat string
  | CredentialFormatInvalid cred_error
  | CredentialTypeChange string string string
  | MissingCredentialData
  | CreatingCredentialsFailed nat string
  | UpdatingCredentialFailed string string
  | GettingCredentialFailed string
  | CredentialNotFound string
  | ListingExportersFailed string string
  | DecodingExporterFailed nat string
  | ExporterConfigNotEncodable string "conv_error + string"
  | ExporterConfigInvalid string
  | ExporterTypeChange string string string
  | MissingExporterData
  | CreatingExportersFailed nat string
  | UpdatingExporterFailed string string

text \<open>A handler either calls \<open>http.Error\<close> with a status, or leaves status 200 with the bytes written.\<close>

datatype response = HttpError nat message | HttpOK string

text \<open>
  \<open>getTenant\<close> reads the header \<open>X-Scope-Orgid\<close>. Its test \<open>len(tenants) != 1 ||
  len(tenants[0]) == 0\<close> is a case on the list: only a list of one value has a first
  value to look at.
\<close>

definition getTenant :: "request \<Rightarrow> message + string" where
  "getTenant r =
    (case req_Header r ''X-Scope-Orgid'' of
       None \<Rightarrow> Inl (MissingTenantID (req_URL r))
     | Some tenants \<Rightarrow>
         (case tenants of
            [t] \<Rightarrow> if length t = 0 then Inl (InvalidTenantID (req_URL r)) else Inr t
          | _ \<Rightarrow> Inl (InvalidTenantID (req_URL r))))"

text \<open>Entries of a POST body, as the strict YAML decoder fills them.\<close>

record Credential =
  c_Name :: string
  c_Type :: string
  c_Value :: yaml

record Exporter =
  e_Name :: string
  e_Type :: string
  e_Credential :: string
  e_Config :: yaml

text \<open>
  The request body as the decoder delivers it: each \<open>Decode\<close> gives an entry or an
  error, and the end of the list is \<open>io.EOF\<close>.
\<close>

datatype 'a decoded = Decoded 'a | DecodeError string

text \<open>
  Modelled from the spec: the row and input types of package \<open>graphql\<close>, which is not
  among the sources. A row has the fields of the data model (the secret value included);
  the inputs have the fields the handlers set, a pointer field being an option.
\<close>

record CredentialRow =
  cr_Name :: string
  cr_Type :: string
  cr_Value :: string
  cr_CreatedAt :: string
  cr_UpdatedAt :: string

record ExporterRow =
  er_Name :: string
  er_Type :: string
  er_Credential :: string
  er_Config :: string
  er_CreatedAt :: string
  er_UpdatedAt :: string

record CredentialInsertInput =
  ci_Name :: "string option"
  ci_Type :: "string option"
  ci_Value :: "string option"
  ci_CreatedAt :: "string option"
  ci_UpdatedAt :: "string option"

record UpdateCredentialVariables =
  cu_Name :: string
  cu_Value :: string
  cu_UpdatedAt :: string

record ExporterInsertInput =
  ei_Name :: "string option"
  ei_Type :: "string option"
  ei_Credential :: "string option"
  ei_Config :: "string option"
  ei_CreatedAt :: "string option"
  ei_UpdatedAt :: "string option"

record UpdateExporterVariables =
  eu_Name :: string
  eu_Credential :: "string option"
  eu_Config :: string
  eu_UpdatedAt :: string

text \<open>
  The store is an external collaborator with a state of its own: each operation of the
  access objects takes the state and returns its answer and the next state. \<open>Get\<close>
  answers with an error, with nothing, or with a row.
\<close>

record 's CredentialAccess =
  cred_List :: "string \<Rightarrow> 's \<Rightarrow> (string + CredentialRow list) \<times> 's"
  cred_Get :: "string \<Rightarrow> string \<Rightarrow> 's \<Rightarrow> (string + CredentialRow option) \<times> 's"
  cred_Insert :: "string \<Rightarrow> CredentialInsertInput list \<Rightarrow> 's \<Rightarrow> string option \<times> 's"
  cred_Update :: "string \<Rightarrow> UpdateCredentialVariables \<Rightarrow> 's \<Rightarrow> string option \<times> 's"

record 's ExporterAccess =
  exp_List :: "string \<Rightarrow> 's \<Rightarrow> (string + ExporterRow list) \<times> 's"
  exp_Insert :: "string \<Rightarrow> ExporterInsertInput list \<Rightarrow> 's \<Rightarrow> string option \<times> 's"
  exp_Update :: "string \<Rightarrow> UpdateExporterVariables \<Rightarrow> 's \<Rightarrow> string option \<times> 's"

text \<open>
  What a handler runs in: the state of the store, and the calls submitted to it so far,
  oldest first. Each call below appends itself to that log.
\<close>

datatype ('i, 'u) store_call =
    ListCall string
  | GetCall string string
  | InsertCall string "'i list"
  | UpdateCall string 'u

type_synonym cred_call = "(CredentialInsertInput, UpdateCredentialVariables) store_call"
type_synonym exp_call = "(ExporterInsertInput, UpdateExporterVariables) store_call"

definition credentialList ::
  "'s CredentialAccess \<Rightarrow> string \<Rightarrow> 's \<times> cred_call list \<Rightarrow> (string + CredentialRow list) \<times> 's \<times> cred_call list" where
  "credentialList client tenant w =
     (case cred_List client tenant (fst w) of (resp, s') \<Rightarrow> (resp, s', snd w @ [ListCall tenant]))"

definition credentialGet ::
  "'s CredentialAccess \<Rightarrow> string \<Rightarrow> string \<Rightarrow> 's \<times> cred_call list \<Rightarrow> (string + CredentialRow option) \<times> 's \<times> cred_call list" where
  "credentialGet client tenant name w =
     (case cred_Get client tenant name (fst w) of (resp, s') \<Rightarrow> (resp, s', snd w @ [GetCall tenant name]))"

definition credentialInsert ::
  "'s CredentialAccess \<Rightarrow> string \<Rightarrow> CredentialInsertInput list \<Rightarrow> 's \<times> cred_call list \<Rightarrow> string option \<times> 's \<times> cred_call list" where
  "credentialInsert client tenant inserts w =
     (case cred_Insert client tenant inserts (fst w) of (err, s') \<Rightarrow> (err, s', snd w @ [InsertCall tenant inserts]))"

definition credentialUpdate ::
  "'s CredentialAccess \<Rightarrow> string \<Rightarrow> UpdateCredentialVariables \<Rightarrow> 's \<times> cred_call list \<Rightarrow> string option \<times> 's \<times> cred_call list" where
  "credentialUpdate client tenant update w =
     (case cred_Update client tenant update (fst w) of (err, s') \<Rightarrow> (err, s', snd w @ [UpdateCall tenant update]))"

definition exporterList ::
  "'s ExporterAccess \<Rightarrow> string \<Rightarrow> 's \<times> exp_call list \<Rightarrow> (string + ExporterRow list) \<times> 's \<times> exp_call list" where
  "exporterList client tenant w =
     (case exp_List client tenant (fst w) of (resp, s') \<Rightarrow> (resp, s', snd w @ [ListCall tenant]))"

definition exporterInsert ::
  "'s ExporterAccess \<Rightarrow> string \<Rightarrow> ExporterInsertInput list \<Rightarrow> 's \<times> exp_call list \<Rightarrow> string option \<times> 's \<times> exp_call list" where
  "exporterInsert client tenant inserts w =
     (case exp_Insert client tenant inserts (fst w) of (err, s') \<Rightarrow> (err, s', snd w @ [InsertCall tenant inserts]))"

definition exporterUpdate ::
  "'s ExporterAccess \<Rightarrow> string \<Rightarrow> UpdateExporterVariables \<Rightarrow> 's \<times> exp_call list \<Rightarrow> string option \<times> 's \<times> exp_call list" where
  "exporterUpdate client tenant update w =
     (case exp_Update client tenant update (fst w) of (err, s') \<Rightarrow> (err, s', snd w @ [UpdateCall tenant update]))"

section \<open>Credential handlers\<close>

text \<open>
  \<open>CredentialInfo\<close> is what the read handlers hand to the YAML encoder. The encoder
  belongs to the YAML library and is a parameter. A handler makes one encoder on the
  response with \<open>yaml.NewEncoder\<close> and calls \<open>Encode\<close> on it once for each document,
  so the encoder is an object with a state: \<open>yaml_Encode\<close> takes the state and a
  document and gives the bytes written to the response and the next state (the library
  writes a separator before every document after the first). The error \<open>Encode\<close>
  returns is not looked at by the handlers.
\<close>

record CredentialInfo =
  info_Name :: string
  info_Type :: string
  info_CreatedAt :: string
  info_UpdatedAt :: string

record 'e yamlEncoder =
  yaml_NewEncoder :: 'e
  yaml_Encode :: "'e \<Rightarrow> CredentialInfo \<Rightarrow> string \<times> 'e"

text \<open>
  The loop of \<open>listCredentials\<close> over the rows of the listing: each row is encoded on
  the same encoder, and \<open>written\<close> is what the response holds so far.
\<close>

fun listCredentialsLoop ::
  "'e yamlEncoder \<Rightarrow> 'e \<Rightarrow> CredentialRow list \<Rightarrow> string \<Rightarrow> string" where
  "listCredentialsLoop Y encoder [] written = written"
| "listCredentialsLoop Y encoder (credential # rest) written =
     (case yaml_Encode Y encoder
             \<lparr>info_Name = cr_Name credential, info_Type = cr_Type credential,
              info_CreatedAt = cr_CreatedAt credential,
              info_UpdatedAt = cr_UpdatedAt credential\<rparr> of
        (bytes, encoder') \<Rightarrow> listCredentialsLoop Y encoder' rest (written @ bytes))"

definition listCredentials ::
  "'e yamlEncoder \<Rightarrow> 's CredentialAccess \<Rightarrow> request \<Rightarrow> 's \<times> cred_call list
     \<Rightarrow> response \<times> 's \<times> cred_call list" where
  "listCredentials Y client r w =
    (case getTenant r of
       Inl err \<Rightarrow> (HttpError 400 err, w)
     | Inr tenant \<Rightarrow>
         (case credentialList client tenant w of
            (Inl err, w1) \<Rightarrow> (HttpError 500 (ListingCredentialsFailed tenant err), w1)
          | (Inr resp, w1) \<Rightarrow>
              (HttpOK (listCredentialsLoop Y (yaml_NewEncoder Y) resp []), w1)))"

definition getCredential ::
  "'e yamlEncoder \<Rightarrow> 's CredentialAccess \<Rightarrow> string \<Rightarrow> request \<Rightarrow> 's \<times> cred_call list
     \<Rightarrow> response \<times> 's \<times> cred_call list" where
  "getCredential Y client name r w =
    (case getTenant r of
       Inl err \<Rightarrow> (HttpError 400 err, w)
     | Inr tenant \<Rightarrow>
         (case credentialGet client tenant name w of
            (Inl err, w1) \<Rightarrow> (HttpError 500 (GettingCredentialFailed err), w1)
          | (Inr None, w1) \<Rightarrow> (HttpError 404 (CredentialNotFound name), w1)
          | (Inr (Some resp), w1) \<Rightarrow>
              (HttpOK (fst (yaml_Encode Y (yaml_NewEncoder Y)
                  \<lparr>info_Name = cr_Name resp, info_Type = cr_Type resp,
                   info_CreatedAt = cr_CreatedAt resp, info_UpdatedAt = cr_UpdatedAt resp\<rparr>)),
               w1)))"

text \<open>The map \<open>existingTypes\<close>, filled from the listing before the body is read.\<close>

definition credentialTypes :: "CredentialRow list \<Rightarrow> (string \<rightharpoonup> string)" where
  "credentialTypes resp =
     foldl (\<lambda>existingTypes credential. existingTypes(cr_Name credential \<mapsto> cr_Type credential))
       Map.empty resp"

text \<open>
  The decoding loop of \<open>writeCredentials\<close>: it returns the response of the first
  \<open>http.Error\<close>, or the two slices when the decoder reaches the end of the body.
  \<open>now\<close> is the value \<open>nowTimestamp()\<close> gave before the loop.
\<close>

fun credentialLoop ::
  "jsonlib \<Rightarrow> (string \<rightharpoonup> string) \<Rightarrow> string \<Rightarrow> Credential decoded list
     \<Rightarrow> CredentialInsertInput list \<Rightarrow> UpdateCredentialVariables list
     \<Rightarrow> response + (CredentialInsertInput list \<times> UpdateCredentialVariables list)" where
  "credentialLoop L existingTypes now [] inserts updates = Inr (inserts, updates)"
| "credentialLoop L existingTypes now (DecodeError err # rest) inserts updates =
     Inl (HttpError 400 (DecodingCredentialFailed (length inserts + length updates) err))"
| "credentialLoop L existingTypes now (Decoded yamlCredential # rest) inserts updates =
     (case validateCredValue L (c_Name yamlCredential) (c_Type yamlCredential) (c_Value yamlCredential) of
        Inl err \<Rightarrow> Inl (HttpError 400 (CredentialFormatInvalid err))
      | Inr val \<Rightarrow>
          (case existingTypes (c_Name yamlCredential) of
             Some existingType \<Rightarrow>
               if c_Type yamlCredential \<noteq> [] \<and> existingType \<noteq> c_Type yamlCredential
               then Inl (HttpError 400
                      (CredentialTypeChange (c_Name yamlCredential) existingType (c_Type yamlCredential)))
               else credentialLoop L existingTypes now rest inserts
                      (updates @ [\<lparr>cu_Name = c_Name yamlCredential, cu_Value = val, cu_UpdatedAt = now\<rparr>])
           | None \<Rightarrow>
               credentialLoop L existingTypes now rest
                 (inserts @ [\<lparr>ci_Name = Some (c_Name yamlCredential), ci_Type = Some (c_Type yamlCredential),
                              ci_Value = Some val, ci_CreatedAt = Some now, ci_UpdatedAt = Some now\<rparr>])
                 updates))"

text \<open>The loop over \<open>updates\<close>: one call each, stopping at the first that fails.\<close>

fun credentialUpdates ::
  "'s CredentialAccess \<Rightarrow> string \<Rightarrow> UpdateCredentialVariables list \<Rightarrow> 's \<times> cred_call list
     \<Rightarrow> response option \<times> 's \<times> cred_call list" where
  "credentialUpdates client tenant [] w = (None, w)"
| "credentialUpdates client tenant (update # rest) w =
     (case credentialUpdate client tenant update w of
        (Some err, w') \<Rightarrow> (Some (HttpError 500 (UpdatingCredentialFailed (cu_Name update) err)), w')
      | (None, w') \<Rightarrow> credentialUpdates client tenant rest w')"

definition writeCredentials ::
  "jsonlib \<Rightarrow> 's CredentialAccess \<Rightarrow> string \<Rightarrow> request \<Rightarrow> Credential decoded list
     \<Rightarrow> 's \<times> cred_call list \<Rightarrow> response \<times> 's \<times> cred_call list" where
  "writeCredentials L client now r body w =
    (case getTenant r of
       Inl err \<Rightarrow> (HttpError 400 err, w)
     | Inr tenant \<Rightarrow>
         (case credentialList client tenant w of
            (Inl err, w1) \<Rightarrow> (HttpError 500 (ListingCredentialsFailed tenant err), w1)
          | (Inr resp, w1) \<Rightarrow>
              (case credentialLoop L (credentialTypes resp) now body [] [] of
                 Inl failure \<Rightarrow> (failure, w1)
               | Inr (inserts, updates) \<Rightarrow>
                   if length inserts + length updates = 0
                   then (HttpError 400 MissingCredentialData, w1)
                   else
                     (case (if length inserts \<noteq> 0 then credentialInsert client tenant inserts w1
                            else (None, w1)) of
                        (Some err, w2) \<Rightarrow>
                          (HttpError 500 (CreatingCredentialsFailed (length inserts) err), w2)
                      | (None, w2) \<Rightarrow>
                          (case credentialUpdates client tenant updates w2 of
                             (Some failure, w3) \<Rightarrow> (failure, w3)
                           | (None, w3) \<Rightarrow> (HttpOK [], w3))))))"

section \<open>Exporter handlers\<close>

definition exporterTypes :: "ExporterRow list \<Rightarrow> (string \<rightharpoonup> string)" where
  "exporterTypes resp =
     foldl (\<lambda>existingTypes exporter. existingTypes(er_Name exporter \<mapsto> er_Type exporter))
       Map.empty resp"

fun exporterLoop ::
  "jsonlib \<Rightarrow> (string \<rightharpoonup> string) \<Rightarrow> string \<Rightarrow> Exporter decoded list
     \<Rightarrow> ExporterInsertInput list \<Rightarrow> UpdateExporterVariables list
     \<Rightarrow> response + (ExporterInsertInput list \<times> UpdateExporterVariables list)" where
  "exporterLoop L existingTypes now [] inserts updates = Inr (inserts, updates)"
| "exporterLoop L existingTypes now (DecodeError err # rest) inserts updates =
     Inl (HttpError 400 (DecodingExporterFailed (length inserts + length updates) err))"
| "exporterLoop L existingTypes now (Decoded yamlExporter # rest) inserts updates =
     (let credential = (if e_Credential yamlExporter = [] then None
                        else Some (e_Credential yamlExporter))
      in case e_Config yamlExporter of
        MapII yamlMap \<Rightarrow>
          (case recurseMapStringKeys (MapII yamlMap) of
             Inl err \<Rightarrow> Inl (HttpError 400 (ExporterConfigNotEncodable (e_Name yamlExporter) (Inl err)))
           | Inr convMap \<Rightarrow>
               (case json_Marshal L convMap of
                  Inl err \<Rightarrow>
                    Inl (HttpError 400 (ExporterConfigNotEncodable (e_Name yamlExporter) (Inr err)))
                | Inr gconfig \<Rightarrow>
                    (case existingTypes (e_Name yamlExporter) of
                       Some existingType \<Rightarrow>
                         if e_Type yamlExporter \<noteq> [] \<and> existingType \<noteq> e_Type yamlExporter
                         then Inl (HttpError 400
                                (ExporterTypeChange (e_Name yamlExporter) existingType (e_Type yamlExporter)))
                         else exporterLoop L existingTypes now rest inserts
                                (updates @ [\<lparr>eu_Name = e_Name yamlExporter, eu_Credential = credential,
                                             eu_Config = gconfig, eu_UpdatedAt = now\<rparr>])
                     | None \<Rightarrow>
                         exporterLoop L existingTypes now rest
                           (inserts @ [\<lparr>ei_Name = Some (e_Name yamlExporter),
                                        ei_Type = Some (e_Type yamlExporter),
                                        ei_Credential = credential, ei_Config = Some gconfig,
                                        ei_CreatedAt = Some now, ei_UpdatedAt = Some now\<rparr>])
                           updates)))
      | _ \<Rightarrow> Inl (HttpError 400 (ExporterConfigInvalid (e_Name yamlExporter))))"

fun exporterUpdates ::
  "'s ExporterAccess \<Rightarrow> string \<Rightarrow> UpdateExporterVariables list \<Rightarrow> 's \<times> exp_call list
     \<Rightarrow> response option \<times> 's \<times> exp_call list" where
  "exporterUpdates client tenant [] w = (None, w)"
| "exporterUpdates client tenant (update # rest) w =
     (case exporterUpdate client tenant update w of
        (Some err, w') \<Rightarrow> (Some (HttpError 500 (UpdatingExporterFailed (eu_Name update) err)), w')
      | (None, w') \<Rightarrow> exporterUpdates client tenant rest w')"

definition writeExporters ::
  "jsonlib \<Rightarrow> 's ExporterAccess \<Rightarrow> string \<Rightarrow> request \<Rightarrow> Exporter decoded list
     \<Rightarrow> 's \<times> exp_call list \<Rightarrow> response \<times> 's \<times> exp_call list" where
  "writeExporters L client now r body w =
    (case getTenant r of
       Inl err \<Rightarrow> (HttpError 400 err, w)
     | Inr tenant \<Rightarrow>
         (case exporterList client tenant w of
            (Inl err, w1) \<Rightarrow> (HttpError 500 (ListingExportersFailed tenant err), w1)
          | (Inr resp, w1) \<Rightarrow>
              (case exporterLoop L (exporterTypes resp) now body [] [] of
                 Inl failure \<Rightarrow> (failure, w1)
               | Inr (inserts, updates) \<Rightarrow>
                   if length inserts + length updates = 0
                   then (HttpError 400 MissingExporterData, w1)
                   else
                     (case (if length inserts \<noteq> 0 then exporterInsert client tenant inserts w1
                            else (None, w1)) of
                        (Some err, w2) \<Rightarrow>
                          (HttpError 500 (CreatingExportersFailed (length inserts) err), w2)
                      | (None, w2) \<Rightarrow>
                          (case exporterUpdates client tenant updates w2 of
                             (Some failure, w3) \<Rightarrow> (failure, w3)
                           | (None, w3) \<Rightarrow> (HttpOK [], w3))))))"

section \<open>Notions used in the statements\<close>

text \<open>A document has a map, at any depth, one of whose keys is not a string.\<close>

fun isStr :: "scalar \<Rightarrow> bool" where
  "isStr (SStr s) = True"
| "isStr _ = False"

fun hasNonStringKey :: "yaml \<Rightarrow> bool" where
  "hasNonStringKey (Scalar s) = False"
| "hasNonStringKey (Slice xs) = (\<exists>x\<in>set xs. hasNonStringKey x)"
| "hasNonStringKey (MapII kvs) = (\<exists>kv\<in>set kvs. \<not> isStr (fst kv) \<or> hasNonStringKey (snd kv))"

text \<open>
  A converted tree read back as a decoded document: the same scalars, the same
  sequences, and each string key as the string scalar it was.
\<close>

fun yaml_of :: "jsonv \<Rightarrow> yaml" where
  "yaml_of (JScalar s) = Scalar s"
| "yaml_of (JSlice xs) = Slice (map yaml_of xs)"
| "yaml_of (MapSI kvs) = MapII (map (\<lambda>kv. (SStr (fst kv), yaml_of (snd kv))) kvs)"

text \<open>
  A stand-in for the JSON library, to run the handlers on concrete requests: it quotes
  a string as the library does when nothing in it needs escaping, takes two given
  documents for well-formed JSON, and encodes the empty map, failing on everything
  else.
\<close>

definition demoLib :: jsonlib where
  \<open>demoLib =
     \<lparr>json_String = (\<lambda>s. ''"'' @ s @ ''"''),
      json_Valid = (\<lambda>s. s = ''{"a":1}'' \<or> s = ''{}''),
      json_Marshal = (\<lambda>v. if v = MapSI [] then Inr ''{}'' else Inl ''unsupported value'')\<rparr>\<close>

text \<open>
  A submitted credential entry fails: it does not decode, its value is refused by
  \<open>validateCredValue\<close>, or it names an existing credential and a different, non-empty
  type.
\<close>

definition credentialFails :: "jsonlib \<Rightarrow> (string \<rightharpoonup> string) \<Rightarrow> Credential decoded \<Rightarrow> bool" where
  "credentialFails L existing item =
     (case item of
        DecodeError err \<Rightarrow> True
      | Decoded c \<Rightarrow>
          (case validateCredValue L (c_Name c) (c_Type c) (c_Value c) of
             Inl err \<Rightarrow> True
           | Inr v \<Rightarrow>
               (case existing (c_Name c) of
                  Some t \<Rightarrow> c_Type c \<noteq> [] \<and> t \<noteq> c_Type c
                | None \<Rightarrow> False)))"

text \<open>
  The operations a list of entries asks for, entry by entry in the order submitted: an
  insert for a valid entry whose name is not among the existing ones, an update for a
  valid entry whose name is.
\<close>

definition plannedCredentialInserts ::
  "jsonlib \<Rightarrow> (string \<rightharpoonup> string) \<Rightarrow> string \<Rightarrow> Credential list \<Rightarrow> CredentialInsertInput list" where
  "plannedCredentialInserts L existing now cs =
     concat (map (\<lambda>c.
       case validateCredValue L (c_Name c) (c_Type c) (c_Value c) of
         Inl err \<Rightarrow> []
       | Inr v \<Rightarrow>
           if existing (c_Name c) = None
           then [\<lparr>ci_Name = Some (c_Name c), ci_Type = Some (c_Type c), ci_Value = Some v,
                  ci_CreatedAt = Some now, ci_UpdatedAt = Some now\<rparr>]
           else []) cs)"

definition plannedCredentialUpdates ::
  "jsonlib \<Rightarrow> (string \<rightharpoonup> string) \<Rightarrow> string \<Rightarrow> Credential list \<Rightarrow> UpdateCredentialVariables list" where
  "plannedCredentialUpdates L existing now cs =
     concat (map (\<lambda>c.
       case validateCredValue L (c_Name c) (c_Type c) (c_Value c) of
         Inl err \<Rightarrow> []
       | Inr v \<Rightarrow>
           if existing (c_Name c) = None then []
           else [\<lparr>cu_Name = c_Name c, cu_Value = v, cu_UpdatedAt = now\<rparr>]) cs)"

text \<open>
  The encoded configuration of an exporter entry, when its configuration is a map that
  converts to string keys and encodes as JSON.
\<close>

definition encodedConfig :: "jsonlib \<Rightarrow> Exporter \<Rightarrow> string option" where
  "encodedConfig L e =
     (case e_Config e of
        MapII yamlMap \<Rightarrow>
          (case recurseMapStringKeys (MapII yamlMap) of
             Inl err \<Rightarrow> None
           | Inr convMap \<Rightarrow> (case json_Marshal L convMap of Inl err \<Rightarrow> None | Inr gconfig \<Rightarrow> Some gconfig))
      | _ \<Rightarrow> None)"

definition exporterFails :: "jsonlib \<Rightarrow> (string \<rightharpoonup> string) \<Rightarrow> Exporter decoded \<Rightarrow> bool" where
  "exporterFails L existing item =
     (case item of
        DecodeError err \<Rightarrow> True
      | Decoded e \<Rightarrow>
          (case encodedConfig L e of
             None \<Rightarrow> True
           | Some gconfig \<Rightarrow>
               (case existing (e_Name e) of
                  Some t \<Rightarrow> e_Type e \<noteq> [] \<and> t \<noteq> e_Type e
                | None \<Rightarrow> False)))"

definition credentialRef :: "Exporter \<Rightarrow> string option" where
  "credentialRef e = (if e_Credential e = [] then None else Some (e_Credential e))"

definition plannedExporterInserts ::
  "jsonlib \<Rightarrow> (string \<rightharpoonup> string) \<Rightarrow> string \<Rightarrow> Exporter list \<Rightarrow> ExporterInsertInput list" where
  "plannedExporterInserts L existing now es =
     concat (map (\<lambda>e.
       case encodedConfig L e of
         None \<Rightarrow> []
       | Some gconfig \<Rightarrow>
           if existing (e_Name e) = None
           then [\<lparr>ei_Name = Some (e_Name e), ei_Type = Some (e_Type e),
                  ei_Credential = credentialRef e, ei_Config = Some gconfig,
                  ei_CreatedAt = Some now, ei_UpdatedAt = Some now\<rparr>]
           else []) es)"

definition plannedExporterUpdates ::
  "jsonlib \<Rightarrow> (string \<rightharpoonup> string) \<Rightarrow> string \<Rightarrow> Exporter list \<Rightarrow> UpdateExporterVariables list" where
  "plannedExporterUpdates L existing now es =
     concat (map (\<lambda>e.
       case encodedConfig L e of
         None \<Rightarrow> []
       | Some gconfig \<Rightarrow>
           if existing (e_Name e) = None then []
           else [\<lparr>eu_Name = e_Name e, eu_Credential = credentialRef e,
                  eu_Config = gconfig, eu_UpdatedAt = now\<rparr>]) es)"

text \<open>
  Stand-ins for the store, to run the handlers on concrete requests. They list the given
  rows for every tenant, accept the first \<open>limit\<close> writes and refuse every later one;
  their state is the number of writes accepted so far.
\<close>

definition demoCredentials :: "CredentialRow list \<Rightarrow> nat \<Rightarrow> nat CredentialAccess" where
  "demoCredentials rows limit =
     \<lparr>cred_List = (\<lambda>tenant n. (Inr rows, n)),
      cred_Get = (\<lambda>tenant name n. (Inr (find (\<lambda>row. cr_Name row = name) rows), n)),
      cred_Insert = (\<lambda>tenant inserts n.
         if n < limit then (None, Suc n) else (Some ''store refused'', n)),
      cred_Update = (\<lambda>tenant update n.
         if n < limit then (None, Suc n) else (Some ''store refused'', n))\<rparr>"

definition demoExporters :: "ExporterRow list \<Rightarrow> nat \<Rightarrow> nat ExporterAccess" where
  "demoExporters rows limit =
     \<lparr>exp_List = (\<lambda>tenant n. (Inr rows, n)),
      exp_Insert = (\<lambda>tenant inserts n.
         if n < limit then (None, Suc n) else (Some ''store refused'', n)),
      exp_Update = (\<lambda>tenant update n.
         if n < limit then (None, Suc n) else (Some ''store refused'', n))\<rparr>"

text \<open>A request of tenant \<open>t1\<close>.\<close>

definition demoRequest :: request where
  "demoRequest = \<lparr>req_Header = [''X-Scope-Orgid'' \<mapsto> [''t1'']], req_URL = ''/api/v1''\<rparr>"

text \<open>Entries and rows for the examples.\<close>

definition awsEntry :: "string \<Rightarrow> string \<Rightarrow> Credential" where
  "awsEntry name secret =
     \<lparr>c_Name = name, c_Type = ''aws-key'',
      c_Value = MapII [(SStr ''AWS_ACCESS_KEY_ID'', Scalar (SStr ''AKID'')),
                       (SStr ''AWS_SECRET_ACCESS_KEY'', Scalar (SStr secret))]\<rparr>"

definition gcpEntry :: "string \<Rightarrow> Credential" where
  "gcpEntry name = \<lparr>c_Name = name, c_Type = ''gcp-service-account'', c_Value = Scalar (SStr ''{}'')\<rparr>"

definition credentialRowOf :: "string \<Rightarrow> string \<Rightarrow> string \<Rightarrow> CredentialRow" where
  "credentialRowOf name type secret =
     \<lparr>cr_Name = name, cr_Type = type, cr_Value = secret,
      cr_CreatedAt = ''2021-01-01T00:00:00Z'', cr_UpdatedAt = ''2021-01-02T00:00:00Z''\<rparr>"

definition exporterEntry :: "string \<Rightarrow> string \<Rightarrow> yaml \<Rightarrow> Exporter" where
  "exporterEntry name type config =
     \<lparr>e_Name = name, e_Type = type, e_Credential = [], e_Config = config\<rparr>"

definition exporterRowOf :: "string \<Rightarrow> string \<Rightarrow> ExporterRow" where
  "exporterRowOf name type =
     \<lparr>er_Name = name, er_Type = type, er_Credential = [], er_Config = ''{}'',
      er_CreatedAt = ''2021-01-01T00:00:00Z'', er_UpdatedAt = ''2021-01-02T00:00:00Z''\<rparr>"

text \<open>
  The commit phase, as the specification words it: the writes a validated batch asks
  for are one bulk insert of all the inserts, when there are any, followed by the
  updates one by one, in the order of the body.
\<close>

datatype ('i, 'u) operation = BulkInsert "'i list" | SingleUpdate 'u

definition commitPlan :: "'i list \<Rightarrow> 'u list \<Rightarrow> ('i, 'u) operation list" where
  "commitPlan inserts updates =
     (if inserts = [] then [] else [BulkInsert inserts]) @ map SingleUpdate updates"

fun callOf :: "string \<Rightarrow> ('i, 'u) operation \<Rightarrow> ('i, 'u) store_call" where
  "callOf tenant (BulkInsert inserts) = InsertCall tenant inserts"
| "callOf tenant (SingleUpdate update) = UpdateCall tenant update"

fun credentialSubmit ::
  "'s CredentialAccess \<Rightarrow> string \<Rightarrow> (CredentialInsertInput, UpdateCredentialVariables) operation
     \<Rightarrow> 's \<times> cred_call list \<Rightarrow> string option \<times> 's \<times> cred_call list" where
  "credentialSubmit client tenant (BulkInsert inserts) w = credentialInsert client tenant inserts w"
| "credentialSubmit client tenant (SingleUpdate update) w = credentialUpdate client tenant update w"

fun exporterSubmit ::
  "'s ExporterAccess \<Rightarrow> string \<Rightarrow> (ExporterInsertInput, UpdateExporterVariables) operation
     \<Rightarrow> 's \<times> exp_call list \<Rightarrow> string option \<times> 's \<times> exp_call list" where
  "exporterSubmit client tenant (BulkInsert inserts) w = exporterInsert client tenant inserts w"
| "exporterSubmit client tenant (SingleUpdate update) w = exporterUpdate client tenant update w"

text \<open>The message for a write the store refused.\<close>

fun credentialFailure ::
  "(CredentialInsertInput, UpdateCredentialVariables) operation \<Rightarrow> string \<Rightarrow> message" where
  "credentialFailure (BulkInsert inserts) err = CreatingCredentialsFailed (length inserts) err"
| "credentialFailure (SingleUpdate update) err = UpdatingCredentialFailed (cu_Name update) err"

fun exporterFailure ::
  "(ExporterInsertInput, UpdateExporterVariables) operation \<Rightarrow> string \<Rightarrow> message" where
  "exporterFailure (BulkInsert inserts) err = CreatingExportersFailed (length inserts) err"
| "exporterFailure (SingleUpdate update) err = UpdatingExporterFailed (eu_Name update) err"

text \<open>
  The state and log after some operations have all been submitted, one after the
  other, whatever the store answered; and the answers the store gives when a list of
  operations is submitted that way.
\<close>

definition worldAfter :: "('c \<Rightarrow> 'w \<Rightarrow> string option \<times> 'w) \<Rightarrow> 'c list \<Rightarrow> 'w \<Rightarrow> 'w" where
  "worldAfter submit ops w = foldl (\<lambda>w' op. snd (submit op w')) w ops"

fun answers :: "('c \<Rightarrow> 'w \<Rightarrow> string option \<times> 'w) \<Rightarrow> 'c list \<Rightarrow> 'w \<Rightarrow> string option list" where
  "answers submit [] w = []"
| "answers submit (op # ops) w = fst (submit op w) # answers submit ops (snd (submit op w))"

text \<open>Submitting in order and stopping at the first refusal, which is reported with its operation.\<close>

fun submitInOrder ::
  "('c \<Rightarrow> 'w \<Rightarrow> string option \<times> 'w) \<Rightarrow> 'c list \<Rightarrow> 'w \<Rightarrow> ('c \<times> string) option \<times> 'w" where
  "submitInOrder submit [] w = (None, w)"
| "submitInOrder submit (op # ops) w =
     (case submit op w of
        (Some err, w') \<Rightarrow> (Some (op, err), w')
      | (None, w') \<Rightarrow> submitInOrder submit ops w')"

text \<open>How many operations of a list the store accepts before it first refuses one.\<close>

definition acceptedBefore :: "('c \<Rightarrow> 'w \<Rightarrow> string option \<times> 'w) \<Rightarrow> 'c list \<Rightarrow> 'w \<Rightarrow> nat" where
  "acceptedBefore submit ops w = length (takeWhile (\<lambda>a. a = None) (answers submit ops w))"

text \<open>A row of the store with its secret value blanked: what two stores that differ only in secrets share.\<close>

definition withoutValue :: "CredentialRow \<Rightarrow> CredentialRow" where
  "withoutValue row = row\<lparr>cr_Value := []\<rparr>"

text \<open>
  The bytes an encoder writes when a list of documents is encoded on it one after the
  other, starting from a given state.
\<close>

fun documentsWritten :: "'e yamlEncoder \<Rightarrow> 'e \<Rightarrow> CredentialInfo list \<Rightarrow> string" where
  "documentsWritten Y encoder [] = []"
| "documentsWritten Y encoder (info # infos) =
     fst (yaml_Encode Y encoder info) @ documentsWritten Y (snd (yaml_Encode Y encoder info)) infos"

text \<open>
  A stand-in for the YAML encoder: one line per field of the document, and, as the
  library does, a line \<open>---\<close> before every document after the first. Its state says
  whether a document has been written.
\<close>

definition demoDocument :: "CredentialInfo \<Rightarrow> string" where
  "demoDocument info =
     ''name: '' @ info_Name info @ [CHR 0x0A] @
     ''type: '' @ info_Type info @ [CHR 0x0A] @
     ''created_at: '' @ info_CreatedAt info @ [CHR 0x0A] @
     ''updated_at: '' @ info_UpdatedAt info @ [CHR 0x0A]"

definition demoEncoder :: "bool yamlEncoder" where
  "demoEncoder =
     \<lparr>yaml_NewEncoder = False,
      yaml_Encode = (\<lambda>started info.
         ((if started then ''---'' @ [CHR 0x0A] else []) @ demoDocument info, True))\<rparr>"

section \<open>The credential value validator\<close>

lemma length_two: "length v = 2 \<Longrightarrow> \<exists>p q. v = [p, q]"
  by (cases v; cases "tl v") auto

lemma validateCredValue_aws_shape:
  assumes ok: "validateCredValue L n ''aws-key'' v = Inr j"
  shows "\<exists>a b.
      (v = MapII [(SStr ''AWS_ACCESS_KEY_ID'', Scalar (SStr a)),
                  (SStr ''AWS_SECRET_ACCESS_KEY'', Scalar (SStr b))]
       \<or> v = MapII [(SStr ''AWS_SECRET_ACCESS_KEY'', Scalar (SStr b)),
                    (SStr ''AWS_ACCESS_KEY_ID'', Scalar (SStr a))])
      \<and> marshalAWSCredentialValue L a b = Inr j"
proof (cases v)
  case (MapII kvs)
  with ok have "length kvs = 2"
    by (auto simp: validateCredValue_def split: if_splits)
  then obtain p q where kvs: "kvs = [p, q]"
    using length_two by blast
  obtain k1 v1 k2 v2 where pq: "p = (k1, v1)" "q = (k2, v2)"
    by (cases p; cases q) auto
  from ok MapII kvs pq show ?thesis
    by (auto simp: validateCredValue_def
             split: if_splits option.splits yaml.splits scalar.splits sum.splits)
qed (use ok in \<open>auto simp: validateCredValue_def\<close>)

lemma validateCredValue_aws_accepts:
  "\<exists>j. marshalAWSCredentialValue L a b = Inr j \<and>
     validateCredValue L n ''aws-key''
       (MapII [(SStr ''AWS_ACCESS_KEY_ID'', Scalar (SStr a)),
               (SStr ''AWS_SECRET_ACCESS_KEY'', Scalar (SStr b))]) = Inr j \<and>
     validateCredValue L n ''aws-key''
       (MapII [(SStr ''AWS_SECRET_ACCESS_KEY'', Scalar (SStr b)),
               (SStr ''AWS_ACCESS_KEY_ID'', Scalar (SStr a))]) = Inr j"
  by (simp add: validateCredValue_def marshalAWSCredentialValue_def)

lemma validateCredValue_aws_error:
  "(\<exists>j. validateCredValue L n ''aws-key'' v = Inr j) \<or>
   (\<exists>reason. validateCredValue L n ''aws-key'' v = Inl (AwsValueError ''aws-key'' n reason))"
  by (auto simp: validateCredValue_def marshalAWSCredentialValue_def
           split: yaml.splits option.splits scalar.splits)

text \<open>
  C4. For the type \<open>aws-key\<close>, \<open>validateCredValue\<close> succeeds exactly when the value is a
  map of two entries, keyed \<open>AWS_ACCESS_KEY_ID\<close> and \<open>AWS_SECRET_ACCESS_KEY\<close>, both
  strings (a Go map has no order, so both orders of the association list stand for it);
  the payload is then the JSON object of those two strings under the fixed field names.
  Every other value gives the \<open>aws-key\<close> shape error, which names the credential.
\<close>

theorem validateCredValue_aws_key:
  \<open>(validateCredValue L credName ''aws-key'' credValue = Inr json) =
     (\<exists>k s.
        (credValue = MapII [(SStr ''AWS_ACCESS_KEY_ID'', Scalar (SStr k)),
                            (SStr ''AWS_SECRET_ACCESS_KEY'', Scalar (SStr s))]
         \<or> credValue = MapII [(SStr ''AWS_SECRET_ACCESS_KEY'', Scalar (SStr s)),
                              (SStr ''AWS_ACCESS_KEY_ID'', Scalar (SStr k))])
        \<and> json = ''{"AWS_ACCESS_KEY_ID":'' @ json_String L k @
                  '',"AWS_SECRET_ACCESS_KEY":'' @ json_String L s @ ''}'')
   \<and> ((\<exists>json. validateCredValue L credName ''aws-key'' credValue = Inr json)
      \<or> (\<exists>reason. validateCredValue L credName ''aws-key'' credValue =
            Inl (AwsValueError ''aws-key'' credName reason)))\<close>
proof (intro conjI iffI)
  assume "validateCredValue L credName ''aws-key'' credValue = Inr json"
  from validateCredValue_aws_shape [OF this]
  show \<open>\<exists>k s.
        (credValue = MapII [(SStr ''AWS_ACCESS_KEY_ID'', Scalar (SStr k)),
                            (SStr ''AWS_SECRET_ACCESS_KEY'', Scalar (SStr s))]
         \<or> credValue = MapII [(SStr ''AWS_SECRET_ACCESS_KEY'', Scalar (SStr s)),
                              (SStr ''AWS_ACCESS_KEY_ID'', Scalar (SStr k))])
        \<and> json = ''{"AWS_ACCESS_KEY_ID":'' @ json_String L k @
                  '',"AWS_SECRET_ACCESS_KEY":'' @ json_String L s @ ''}''\<close>
    unfolding marshalAWSCredentialValue_def by blast
next
  assume \<open>\<exists>k s.
        (credValue = MapII [(SStr ''AWS_ACCESS_KEY_ID'', Scalar (SStr k)),
                            (SStr ''AWS_SECRET_ACCESS_KEY'', Scalar (SStr s))]
         \<or> credValue = MapII [(SStr ''AWS_SECRET_ACCESS_KEY'', Scalar (SStr s)),
                              (SStr ''AWS_ACCESS_KEY_ID'', Scalar (SStr k))])
        \<and> json = ''{"AWS_ACCESS_KEY_ID":'' @ json_String L k @
                  '',"AWS_SECRET_ACCESS_KEY":'' @ json_String L s @ ''}''\<close>
  then show "validateCredValue L credName ''aws-key'' credValue = Inr json"
    using validateCredValue_aws_accepts [of L _ _ credName]
    unfolding marshalAWSCredentialValue_def by auto
next
  show \<open>(\<exists>json. validateCredValue L credName ''aws-key'' credValue = Inr json)
      \<or> (\<exists>reason. validateCredValue L credName ''aws-key'' credValue =
            Inl (AwsValueError ''aws-key'' credName reason))\<close>
    by (rule validateCredValue_aws_error)
qed

text \<open>
  The spec's example: the two keys with values \<open>A\<close> and \<open>B\<close> give the JSON object, and
  the same value with a third key is refused.
\<close>

theorem validateCredValue_aws_key_witness:
  \<open>validateCredValue demoLib ''c1'' ''aws-key''
      (MapII [(SStr ''AWS_ACCESS_KEY_ID'', Scalar (SStr ''A'')),
              (SStr ''AWS_SECRET_ACCESS_KEY'', Scalar (SStr ''B''))])
     = Inr ''{"AWS_ACCESS_KEY_ID":"A","AWS_SECRET_ACCESS_KEY":"B"}''
   \<and> (\<exists>reason. validateCredValue demoLib ''c1'' ''aws-key''
      (MapII [(SStr ''AWS_ACCESS_KEY_ID'', Scalar (SStr ''A'')),
              (SStr ''AWS_SECRET_ACCESS_KEY'', Scalar (SStr ''B'')),
              (SStr ''EXTRA'', Scalar (SStr ''C''))])
     = Inl (AwsValueError ''aws-key'' ''c1'' reason))\<close>
proof
  show \<open>validateCredValue demoLib ''c1'' ''aws-key''
      (MapII [(SStr ''AWS_ACCESS_KEY_ID'', Scalar (SStr ''A'')),
              (SStr ''AWS_SECRET_ACCESS_KEY'', Scalar (SStr ''B''))])
     = Inr ''{"AWS_ACCESS_KEY_ID":"A","AWS_SECRET_ACCESS_KEY":"B"}''\<close>
    using validateCredValue_aws_key [of demoLib "''c1''"
        "MapII [(SStr ''AWS_ACCESS_KEY_ID'', Scalar (SStr ''A'')),
                (SStr ''AWS_SECRET_ACCESS_KEY'', Scalar (SStr ''B''))]"
        \<open>''{"AWS_ACCESS_KEY_ID":"A","AWS_SECRET_ACCESS_KEY":"B"}''\<close>]
    by (simp add: demoLib_def)
next
  have \<open>\<not> (\<exists>json. validateCredValue demoLib ''c1'' ''aws-key''
      (MapII [(SStr ''AWS_ACCESS_KEY_ID'', Scalar (SStr ''A'')),
              (SStr ''AWS_SECRET_ACCESS_KEY'', Scalar (SStr ''B'')),
              (SStr ''EXTRA'', Scalar (SStr ''C''))]) = Inr json)\<close>
    by (simp add: validateCredValue_def)
  with validateCredValue_aws_key [of demoLib "''c1''"
        "MapII [(SStr ''AWS_ACCESS_KEY_ID'', Scalar (SStr ''A'')),
                (SStr ''AWS_SECRET_ACCESS_KEY'', Scalar (SStr ''B'')),
                (SStr ''EXTRA'', Scalar (SStr ''C''))]" "[]"]
  show \<open>\<exists>reason. validateCredValue demoLib ''c1'' ''aws-key''
      (MapII [(SStr ''AWS_ACCESS_KEY_ID'', Scalar (SStr ''A'')),
              (SStr ''AWS_SECRET_ACCESS_KEY'', Scalar (SStr ''B'')),
              (SStr ''EXTRA'', Scalar (SStr ''C''))])
     = Inl (AwsValueError ''aws-key'' ''c1'' reason)\<close>
    by blast
qed

text \<open>
  C5. For the type \<open>gcp-service-account\<close>, \<open>validateCredValue\<close> succeeds exactly when
  the value is a string that \<open>json.Valid\<close> accepts, and the payload is that string,
  unchanged. A string that is not valid JSON and a value that is not a string each give
  their own error naming the credential. A type other than the two known ones gives the
  unsupported-type error, whatever the value.
\<close>

theorem validateCredValue_gcp_and_unsupported:
  "((validateCredValue L credName ''gcp-service-account'' credValue = Inr payload) =
      (credValue = Scalar (SStr payload) \<and> json_Valid L payload))
   \<and> (\<forall>v. credValue = Scalar (SStr v) \<longrightarrow> \<not> json_Valid L v \<longrightarrow>
         validateCredValue L credName ''gcp-service-account'' credValue =
           Inl (GcpNotValidJson ''gcp-service-account'' credName))
   \<and> ((\<forall>v. credValue \<noteq> Scalar (SStr v)) \<longrightarrow>
         validateCredValue L credName ''gcp-service-account'' credValue =
           Inl (GcpNotJsonString ''gcp-service-account'' credName))
   \<and> (credType \<noteq> ''aws-key'' \<longrightarrow> credType \<noteq> ''gcp-service-account'' \<longrightarrow>
         validateCredValue L credName credType credValue = Inl (UnsupportedCredType credType))"
proof (intro conjI)
  show "(validateCredValue L credName ''gcp-service-account'' credValue = Inr payload) =
      (credValue = Scalar (SStr payload) \<and> json_Valid L payload)"
    by (auto simp: validateCredValue_def split: yaml.splits scalar.splits)
next
  show "\<forall>v. credValue = Scalar (SStr v) \<longrightarrow> \<not> json_Valid L v \<longrightarrow>
         validateCredValue L credName ''gcp-service-account'' credValue =
           Inl (GcpNotValidJson ''gcp-service-account'' credName)"
    by (simp add: validateCredValue_def)
next
  show "(\<forall>v. credValue \<noteq> Scalar (SStr v)) \<longrightarrow>
         validateCredValue L credName ''gcp-service-account'' credValue =
           Inl (GcpNotJsonString ''gcp-service-account'' credName)"
    by (simp add: validateCredValue_def split: yaml.splits scalar.splits)
next
  show "credType \<noteq> ''aws-key'' \<longrightarrow> credType \<noteq> ''gcp-service-account'' \<longrightarrow>
         validateCredValue L credName credType credValue = Inl (UnsupportedCredType credType)"
    by (simp add: validateCredValue_def)
qed

text \<open>
  The spec's examples: a string of well-formed JSON comes back unchanged, a string
  that is not JSON is refused; and so are a map under this type, and the empty type.
\<close>

theorem validateCredValue_gcp_and_unsupported_witness:
  \<open>validateCredValue demoLib ''c2'' ''gcp-service-account'' (Scalar (SStr ''{"a":1}''))
     = Inr ''{"a":1}''
   \<and> validateCredValue demoLib ''c2'' ''gcp-service-account'' (Scalar (SStr ''{not valid json''))
     = Inl (GcpNotValidJson ''gcp-service-account'' ''c2'')
   \<and> validateCredValue demoLib ''c2'' ''gcp-service-account'' (MapII [])
     = Inl (GcpNotJsonString ''gcp-service-account'' ''c2'')
   \<and> validateCredValue demoLib ''c2'' [] (Scalar (SStr ''{"a":1}''))
     = Inl (UnsupportedCredType [])\<close>
proof (intro conjI)
  show \<open>validateCredValue demoLib ''c2'' ''gcp-service-account'' (Scalar (SStr ''{"a":1}''))
     = Inr ''{"a":1}''\<close>
    using validateCredValue_gcp_and_unsupported
      [of demoLib "''c2''" \<open>Scalar (SStr ''{"a":1}'')\<close> \<open>''{"a":1}''\<close> "[]"]
    by (simp add: demoLib_def)
next
  show \<open>validateCredValue demoLib ''c2'' ''gcp-service-account'' (Scalar (SStr ''{not valid json''))
     = Inl (GcpNotValidJson ''gcp-service-account'' ''c2'')\<close>
    using validateCredValue_gcp_and_unsupported
      [of demoLib "''c2''" \<open>Scalar (SStr ''{not valid json'')\<close> "[]" "[]"]
    by (simp add: demoLib_def)
next
  show \<open>validateCredValue demoLib ''c2'' ''gcp-service-account'' (MapII [])
     = Inl (GcpNotJsonString ''gcp-service-account'' ''c2'')\<close>
    using validateCredValue_gcp_and_unsupported [of demoLib "''c2''" "MapII []" "[]" "[]"]
    by simp
next
  show \<open>validateCredValue demoLib ''c2'' [] (Scalar (SStr ''{"a":1}''))
     = Inl (UnsupportedCredType [])\<close>
    using validateCredValue_gcp_and_unsupported
      [of demoLib "''c2''" \<open>Scalar (SStr ''{"a":1}'')\<close> \<open>''{"a":1}''\<close> "[]"]
    by simp
qed

section \<open>The conversion to string keys\<close>

lemma conv_error_only: "(e :: conv_error) = KeysMustBeStrings"
  by (cases e) simp

lemma recurse_reads_back:
  "recurseMapStringKeys v = Inr out \<Longrightarrow> yaml_of out = v"
  "recurseMap kvs acc = Inr outm \<Longrightarrow>
     \<exists>new. outm = acc @ new \<and> map (\<lambda>kv. (SStr (fst kv), yaml_of (snd kv))) new = kvs"
  "recurseSlice xs done = Inr outs \<Longrightarrow> \<exists>new. outs = done @ new \<and> map yaml_of new = xs"
proof (induction v and kvs acc and xs "done" arbitrary: out and outm and outs
       rule: recurseMapStringKeys_recurseMap_recurseSlice.induct)
  case (5 k v rest strMap)
  then show ?case
    by (fastforce split: sum.splits scalar.splits)
next
  case (7 v rest d)
  then show ?case
    by (fastforce split: sum.splits)
qed (auto split: sum.splits)

lemma recurse_fails:
  "(recurseMapStringKeys v = Inl KeysMustBeStrings) = hasNonStringKey v"
  "(recurseMap kvs acc = Inl KeysMustBeStrings) =
     (\<exists>kv\<in>set kvs. \<not> isStr (fst kv) \<or> hasNonStringKey (snd kv))"
  "(recurseSlice xs done = Inl KeysMustBeStrings) = (\<exists>x\<in>set xs. hasNonStringKey x)"
proof (induction v and kvs acc and xs "done"
       rule: recurseMapStringKeys_recurseMap_recurseSlice.induct)
  case (5 k v rest strMap)
  then show ?case
    by (cases k; cases "recurseMapStringKeys v") (auto, (metis (full_types) conv_error.exhaust)+)
next
  case (7 v rest d)
  then show ?case
    by (cases "recurseMapStringKeys v") (auto, (metis (full_types) conv_error.exhaust)+)
qed (auto split: sum.splits)

lemma recurseSlice_elements:
  "(recurseSlice xs done = Inr outs) =
     (\<exists>ys. outs = done @ ys \<and> list_all2 (\<lambda>x y. recurseMapStringKeys x = Inr y) xs ys)"
proof (induction xs arbitrary: "done")
  case Nil
  then show ?case by auto
next
  case (Cons x xs)
  show ?case
  proof (cases "recurseMapStringKeys x")
    case (Inl e)
    then show ?thesis by (auto simp: list_all2_Cons1)
  next
    case (Inr y)
    then show ?thesis
      using Cons.IH [of "done @ [y]"] by (auto simp: list_all2_Cons1)
  qed
qed

lemma recurseMap_entries:
  "(recurseMap kvs acc = Inr outm) =
     (\<exists>new. outm = acc @ new \<and>
        list_all2 (\<lambda>kv kv'. fst kv = SStr (fst kv') \<and> recurseMapStringKeys (snd kv) = Inr (snd kv'))
          kvs new)"
proof (induction kvs arbitrary: acc)
  case Nil
  then show ?case by auto
next
  case (Cons kv kvs)
  obtain k v where kv: "kv = (k, v)" by (cases kv)
  show ?case
  proof (cases k)
    case (SStr s)
    show ?thesis
    proof (cases "recurseMapStringKeys v")
      case (Inl e)
      with kv SStr show ?thesis by (auto simp: list_all2_Cons1)
    next
      case (Inr y)
      with kv SStr show ?thesis
        using Cons.IH [of "acc @ [(s, y)]"] by (auto simp: list_all2_Cons1)
    qed
  qed (use kv in \<open>auto simp: list_all2_Cons1\<close>)
qed

text \<open>
  C6. \<open>recurseMapStringKeys\<close> fails, with its one error, exactly when some map of the
  document, at any depth, has a key that is not a string. Otherwise it returns a tree
  that reads back as the input. Node by node: a scalar is returned as it is; a sequence
  gives the sequence of its converted elements, in order; a map gives the string-keyed
  map of the same keys with the converted values.
\<close>

theorem recurseMapStringKeys_normalizes:
  "(hasNonStringKey v \<longrightarrow> recurseMapStringKeys v = Inl KeysMustBeStrings)
   \<and> (\<not> hasNonStringKey v \<longrightarrow> (\<exists>out. recurseMapStringKeys v = Inr out \<and> yaml_of out = v))
   \<and> recurseMapStringKeys (Scalar s) = Inr (JScalar s)
   \<and> ((recurseMapStringKeys (Slice xs) = Inr out) =
        (\<exists>ys. out = JSlice ys \<and> list_all2 (\<lambda>x y. recurseMapStringKeys x = Inr y) xs ys))
   \<and> ((recurseMapStringKeys (MapII kvs) = Inr out) =
        (\<exists>kvs'. out = MapSI kvs' \<and>
           list_all2 (\<lambda>kv kv'. fst kv = SStr (fst kv') \<and>
                        recurseMapStringKeys (snd kv) = Inr (snd kv')) kvs kvs'))"
proof (intro conjI impI)
  assume "hasNonStringKey v"
  then show "recurseMapStringKeys v = Inl KeysMustBeStrings"
    by (simp add: recurse_fails(1))
next
  assume clean: "\<not> hasNonStringKey v"
  show "\<exists>out. recurseMapStringKeys v = Inr out \<and> yaml_of out = v"
  proof (cases "recurseMapStringKeys v")
    case (Inl e)
    with clean show ?thesis
      using conv_error_only [of e] by (simp add: recurse_fails(1))
  next
    case (Inr out)
    then show ?thesis by (simp add: recurse_reads_back(1))
  qed
next
  show "recurseMapStringKeys (Scalar s) = Inr (JScalar s)"
    by simp
next
  show "(recurseMapStringKeys (Slice xs) = Inr out) =
        (\<exists>ys. out = JSlice ys \<and> list_all2 (\<lambda>x y. recurseMapStringKeys x = Inr y) xs ys)"
    by (auto simp: recurseSlice_elements [of xs "[]", simplified, symmetric] split: sum.splits)
next
  show "(recurseMapStringKeys (MapII kvs) = Inr out) =
        (\<exists>kvs'. out = MapSI kvs' \<and>
           list_all2 (\<lambda>kv kv'. fst kv = SStr (fst kv') \<and>
                        recurseMapStringKeys (snd kv) = Inr (snd kv')) kvs kvs')"
    by (auto simp: recurseMap_entries [of kvs "[]", simplified, symmetric] split: sum.splits)
qed

text \<open>
  A map nested in a sequence nested in a map converts to the same structure; the same
  document with an integer key in the inner map is refused.
\<close>

theorem recurseMapStringKeys_normalizes_witness:
  "recurseMapStringKeys
      (MapII [(SStr ''regions'', Slice [MapII [(SStr ''name'', Scalar (SStr ''us-west''))],
                                        Scalar (SInt 3)])])
     = Inr (MapSI [(''regions'', JSlice [MapSI [(''name'', JScalar (SStr ''us-west''))],
                                         JScalar (SInt 3)])])
   \<and> recurseMapStringKeys
      (MapII [(SStr ''regions'', Slice [MapII [(SInt 1, Scalar (SStr ''us-west''))],
                                        Scalar (SInt 3)])])
     = Inl KeysMustBeStrings"
proof
  have "\<not> hasNonStringKey
      (MapII [(SStr ''regions'', Slice [MapII [(SStr ''name'', Scalar (SStr ''us-west''))],
                                        Scalar (SInt 3)])])"
    by simp
  with recurseMapStringKeys_normalizes
      [of "MapII [(SStr ''regions'', Slice [MapII [(SStr ''name'', Scalar (SStr ''us-west''))],
                                            Scalar (SInt 3)])]"]
  obtain out where out: "recurseMapStringKeys
      (MapII [(SStr ''regions'', Slice [MapII [(SStr ''name'', Scalar (SStr ''us-west''))],
                                        Scalar (SInt 3)])]) = Inr out"
    by blast
  then show "recurseMapStringKeys
      (MapII [(SStr ''regions'', Slice [MapII [(SStr ''name'', Scalar (SStr ''us-west''))],
                                        Scalar (SInt 3)])])
     = Inr (MapSI [(''regions'', JSlice [MapSI [(''name'', JScalar (SStr ''us-west''))],
                                         JScalar (SInt 3)])])"
    by simp
next
  have "hasNonStringKey
      (MapII [(SStr ''regions'', Slice [MapII [(SInt 1, Scalar (SStr ''us-west''))],
                                        Scalar (SInt 3)])])"
    by simp
  with recurseMapStringKeys_normalizes
      [of "MapII [(SStr ''regions'', Slice [MapII [(SInt 1, Scalar (SStr ''us-west''))],
                                            Scalar (SInt 3)])]"]
  show "recurseMapStringKeys
      (MapII [(SStr ''regions'', Slice [MapII [(SInt 1, Scalar (SStr ''us-west''))],
                                        Scalar (SInt 3)])])
     = Inl KeysMustBeStrings"
    by blast
qed

section \<open>The decoding loops\<close>

lemma credentialLoop_passes:
  "\<forall>c\<in>set pre. \<not> credentialFails L ex (Decoded c) \<Longrightarrow>
   credentialLoop L ex now (map Decoded pre @ rest) ins upd =
   credentialLoop L ex now rest (ins @ plannedCredentialInserts L ex now pre)
     (upd @ plannedCredentialUpdates L ex now pre)"
proof (induction pre arbitrary: ins upd)
  case Nil
  then show ?case
    by (simp add: plannedCredentialInserts_def plannedCredentialUpdates_def)
next
  case (Cons c pre)
  from Cons.prems have rest_ok: "\<forall>c\<in>set pre. \<not> credentialFails L ex (Decoded c)"
    by simp
  from Cons.prems obtain v where v: "validateCredValue L (c_Name c) (c_Type c) (c_Value c) = Inr v"
    by (auto simp: credentialFails_def split: sum.splits)
  show ?case
  proof (cases "ex (c_Name c)")
    case None
    with v Cons.IH [OF rest_ok] show ?thesis
      by (simp add: plannedCredentialInserts_def plannedCredentialUpdates_def)
  next
    case (Some t)
    with Cons.prems v have "\<not> (c_Type c \<noteq> [] \<and> t \<noteq> c_Type c)"
      by (simp add: credentialFails_def)
    with Some v Cons.IH [OF rest_ok] show ?thesis
      by (auto simp: plannedCredentialInserts_def plannedCredentialUpdates_def)
  qed
qed

lemma credentialLoop_fails:
  "\<exists>item\<in>set body. credentialFails L ex item \<Longrightarrow>
   \<exists>msg. credentialLoop L ex now body ins upd = Inl (HttpError 400 msg)"
proof (induction body arbitrary: ins upd)
  case Nil
  then show ?case by simp
next
  case (Cons item body)
  show ?case
  proof (cases "credentialFails L ex item")
    case True
    then show ?thesis
      by (cases item) (auto simp: credentialFails_def split: sum.splits option.splits)
  next
    case False
    with Cons.prems have later: "\<exists>item\<in>set body. credentialFails L ex item"
      by simp
    from False obtain c where c: "item = Decoded c"
      by (cases item) (auto simp: credentialFails_def)
    from False c have "credentialLoop L ex now (item # body) ins upd =
        credentialLoop L ex now body (ins @ plannedCredentialInserts L ex now [c])
          (upd @ plannedCredentialUpdates L ex now [c])"
      using credentialLoop_passes [of "[c]" L ex now body ins upd] by simp
    with Cons.IH [OF later] show ?thesis
      by simp
  qed
qed

lemma all_decoded:
  "\<forall>item\<in>set body. \<exists>c. item = Decoded c \<Longrightarrow> \<exists>cs. body = map Decoded cs"
proof (induction body)
  case Nil
  then show ?case by simp
next
  case (Cons item body)
  then obtain c cs where "item = Decoded c" "body = map Decoded cs"
    by auto
  then have "item # body = map Decoded (c # cs)"
    by simp
  then show ?case by (rule exI)
qed

lemma credentialLoop_result:
  assumes "credentialLoop L ex now body ins0 upd0 = Inr (ins, upd)"
  shows "\<exists>cs. body = map Decoded cs \<and> (\<forall>c\<in>set cs. \<not> credentialFails L ex (Decoded c)) \<and>
           ins = ins0 @ plannedCredentialInserts L ex now cs \<and>
           upd = upd0 @ plannedCredentialUpdates L ex now cs"
proof -
  have none: "\<forall>item\<in>set body. \<not> credentialFails L ex item"
    using assms credentialLoop_fails [of body L ex now ins0 upd0] by auto
  then have "\<forall>item\<in>set body. \<exists>c. item = Decoded c"
  proof (intro ballI)
    fix item assume "item \<in> set body"
    with none have "\<not> credentialFails L ex item" by blast
    then show "\<exists>c. item = Decoded c"
      by (cases item) (simp_all add: credentialFails_def)
  qed
  then obtain cs where cs: "body = map Decoded cs"
    using all_decoded by blast
  with none have ok: "\<forall>c\<in>set cs. \<not> credentialFails L ex (Decoded c)"
    by simp
  from credentialLoop_passes [OF ok, of now "[]" ins0 upd0] assms cs
  have "ins = ins0 @ plannedCredentialInserts L ex now cs"
    and "upd = upd0 @ plannedCredentialUpdates L ex now cs"
    by simp_all
  with cs ok show ?thesis
    by blast
qed

lemma exporterLoop_refused:
  "encodedConfig L e = None \<Longrightarrow>
   \<exists>msg. exporterLoop L ex now (Decoded e # rest) ins upd = Inl (HttpError 400 msg)"
  by (auto simp: encodedConfig_def Let_def split: yaml.splits sum.splits)

lemma exporterLoop_accepted:
  "encodedConfig L e = Some gconfig \<Longrightarrow>
   exporterLoop L ex now (Decoded e # rest) ins upd =
     (case ex (e_Name e) of
        Some t \<Rightarrow>
          if e_Type e \<noteq> [] \<and> t \<noteq> e_Type e
          then Inl (HttpError 400 (ExporterTypeChange (e_Name e) t (e_Type e)))
          else exporterLoop L ex now rest ins
                 (upd @ [\<lparr>eu_Name = e_Name e, eu_Credential = credentialRef e,
                           eu_Config = gconfig, eu_UpdatedAt = now\<rparr>])
      | None \<Rightarrow>
          exporterLoop L ex now rest
            (ins @ [\<lparr>ei_Name = Some (e_Name e), ei_Type = Some (e_Type e),
                      ei_Credential = credentialRef e, ei_Config = Some gconfig,
                      ei_CreatedAt = Some now, ei_UpdatedAt = Some now\<rparr>])
            upd)"
  by (auto simp: encodedConfig_def credentialRef_def Let_def
           split: yaml.splits sum.splits option.splits)

declare exporterLoop.simps(3) [simp del]

lemma exporterLoop_passes:
  "\<forall>e\<in>set pre. \<not> exporterFails L ex (Decoded e) \<Longrightarrow>
   exporterLoop L ex now (map Decoded pre @ rest) ins upd =
   exporterLoop L ex now rest (ins @ plannedExporterInserts L ex now pre)
     (upd @ plannedExporterUpdates L ex now pre)"
proof (induction pre arbitrary: ins upd)
  case Nil
  then show ?case
    by (simp add: plannedExporterInserts_def plannedExporterUpdates_def)
next
  case (Cons e pre)
  from Cons.prems have rest_ok: "\<forall>e\<in>set pre. \<not> exporterFails L ex (Decoded e)"
    by simp
  from Cons.prems obtain g where g: "encodedConfig L e = Some g"
    by (auto simp: exporterFails_def split: option.splits)
  show ?case
  proof (cases "ex (e_Name e)")
    case None
    with g Cons.IH [OF rest_ok] show ?thesis
      by (simp add: exporterLoop_accepted plannedExporterInserts_def plannedExporterUpdates_def)
  next
    case (Some t)
    with Cons.prems g have "\<not> (e_Type e \<noteq> [] \<and> t \<noteq> e_Type e)"
      by (simp add: exporterFails_def)
    with Some g Cons.IH [OF rest_ok] show ?thesis
      by (auto simp: exporterLoop_accepted plannedExporterInserts_def plannedExporterUpdates_def)
  qed
qed

lemma exporterLoop_fails:
  "\<exists>item\<in>set body. exporterFails L ex item \<Longrightarrow>
   \<exists>msg. exporterLoop L ex now body ins upd = Inl (HttpError 400 msg)"
proof (induction body arbitrary: ins upd)
  case Nil
  then show ?case by simp
next
  case (Cons item body)
  show ?case
  proof (cases "exporterFails L ex item")
    case True
    show ?thesis
    proof (cases item)
      case (DecodeError err)
      then show ?thesis by simp
    next
      case (Decoded e)
      show ?thesis
      proof (cases "encodedConfig L e")
        case None
        with Decoded show ?thesis
          using exporterLoop_refused [of L e ex now body ins upd] by simp
      next
        case (Some g)
        with True Decoded show ?thesis
          by (auto simp: exporterLoop_accepted exporterFails_def split: option.splits)
      qed
    qed
  next
    case False
    with Cons.prems have later: "\<exists>item\<in>set body. exporterFails L ex item"
      by simp
    from False obtain e where e: "item = Decoded e"
      by (cases item) (auto simp: exporterFails_def)
    from False e have "exporterLoop L ex now (item # body) ins upd =
        exporterLoop L ex now body (ins @ plannedExporterInserts L ex now [e])
          (upd @ plannedExporterUpdates L ex now [e])"
      using exporterLoop_passes [of "[e]" L ex now body ins upd] by simp
    with Cons.IH [OF later] show ?thesis
      by simp
  qed
qed

lemma exporterLoop_result:
  assumes "exporterLoop L ex now body ins0 upd0 = Inr (ins, upd)"
  shows "\<exists>es. body = map Decoded es \<and> (\<forall>e\<in>set es. \<not> exporterFails L ex (Decoded e)) \<and>
           ins = ins0 @ plannedExporterInserts L ex now es \<and>
           upd = upd0 @ plannedExporterUpdates L ex now es"
proof -
  have none: "\<forall>item\<in>set body. \<not> exporterFails L ex item"
    using assms exporterLoop_fails [of body L ex now ins0 upd0] by auto
  have "\<forall>item\<in>set body. \<exists>e. item = Decoded e"
  proof (intro ballI)
    fix item assume "item \<in> set body"
    with none have "\<not> exporterFails L ex item" by blast
    then show "\<exists>e. item = Decoded e"
      by (cases item) (simp_all add: exporterFails_def)
  qed
  then obtain es where es: "body = map Decoded es"
    using all_decoded by blast
  with none have ok: "\<forall>e\<in>set es. \<not> exporterFails L ex (Decoded e)"
    by simp
  from exporterLoop_passes [OF ok, of now "[]" ins0 upd0] assms es
  have "ins = ins0 @ plannedExporterInserts L ex now es"
    and "upd = upd0 @ plannedExporterUpdates L ex now es"
    by simp_all
  with es ok show ?thesis
    by blast
qed

lemma plannedCredentialInserts_names:
  "\<forall>c\<in>set cs. \<not> credentialFails L ex (Decoded c) \<Longrightarrow>
   map ci_Name (plannedCredentialInserts L ex now cs) =
     map (\<lambda>c. Some (c_Name c)) (filter (\<lambda>c. ex (c_Name c) = None) cs)"
  by (induction cs)
     (auto simp: plannedCredentialInserts_def credentialFails_def split: sum.splits)

lemma plannedCredentialUpdates_names:
  "\<forall>c\<in>set cs. \<not> credentialFails L ex (Decoded c) \<Longrightarrow>
   map cu_Name (plannedCredentialUpdates L ex now cs) =
     map c_Name (filter (\<lambda>c. ex (c_Name c) \<noteq> None) cs)"
  by (induction cs)
     (auto simp: plannedCredentialUpdates_def credentialFails_def split: sum.splits)

lemma plannedExporterInserts_names:
  "\<forall>e\<in>set es. \<not> exporterFails L ex (Decoded e) \<Longrightarrow>
   map ei_Name (plannedExporterInserts L ex now es) =
     map (\<lambda>e. Some (e_Name e)) (filter (\<lambda>e. ex (e_Name e) = None) es)"
  by (induction es)
     (auto simp: plannedExporterInserts_def exporterFails_def split: option.splits)

lemma plannedExporterUpdates_names:
  "\<forall>e\<in>set es. \<not> exporterFails L ex (Decoded e) \<Longrightarrow>
   map eu_Name (plannedExporterUpdates L ex now es) =
     map e_Name (filter (\<lambda>e. ex (e_Name e) \<noteq> None) es)"
  by (induction es)
     (auto simp: plannedExporterUpdates_def exporterFails_def split: option.splits)

lemma credentialLoop_names:
  assumes "credentialLoop L ex now body [] [] = Inr (ins, upd)"
  shows "\<exists>cs. body = map Decoded cs \<and>
           map ci_Name ins = map (\<lambda>c. Some (c_Name c)) (filter (\<lambda>c. ex (c_Name c) = None) cs) \<and>
           map cu_Name upd = map c_Name (filter (\<lambda>c. ex (c_Name c) \<noteq> None) cs)"
proof -
  from credentialLoop_result [OF assms]
  obtain cs where "body = map Decoded cs"
    and "\<forall>c\<in>set cs. \<not> credentialFails L ex (Decoded c)"
    and "ins = plannedCredentialInserts L ex now cs"
    and "upd = plannedCredentialUpdates L ex now cs"
    by auto
  then show ?thesis
    using plannedCredentialInserts_names [of cs L ex now]
      plannedCredentialUpdates_names [of cs L ex now] by blast
qed

lemma exporterLoop_names:
  assumes "exporterLoop L ex now body [] [] = Inr (ins, upd)"
  shows "\<exists>es. body = map Decoded es \<and>
           map ei_Name ins = map (\<lambda>e. Some (e_Name e)) (filter (\<lambda>e. ex (e_Name e) = None) es) \<and>
           map eu_Name upd = map e_Name (filter (\<lambda>e. ex (e_Name e) \<noteq> None) es)"
proof -
  from exporterLoop_result [OF assms]
  obtain es where "body = map Decoded es"
    and "\<forall>e\<in>set es. \<not> exporterFails L ex (Decoded e)"
    and "ins = plannedExporterInserts L ex now es"
    and "upd = plannedExporterUpdates L ex now es"
    by auto
  then show ?thesis
    using plannedExporterInserts_names [of es L ex now]
      plannedExporterUpdates_names [of es L ex now] by blast
qed

section \<open>Example runs\<close>

lemma demo_tenant: "getTenant demoRequest = Inr ''t1''"
  by (simp add: getTenant_def demoRequest_def)

lemma demo_entries_valid:
  \<open>validateCredValue demoLib name ''aws-key'' (c_Value (awsEntry name' secret))
     = Inr (''{"AWS_ACCESS_KEY_ID":"AKID","AWS_SECRET_ACCESS_KEY":"'' @ secret @ ''"}'')\<close>
  \<open>validateCredValue demoLib name ''gcp-service-account'' (c_Value (gcpEntry name')) = Inr ''{}''\<close>
  by (simp_all add: awsEntry_def gcpEntry_def validateCredValue_def
      marshalAWSCredentialValue_def demoLib_def)

lemma demo_config_valid:
  "encodedConfig demoLib (exporterEntry name type (MapII [])) = Some ''{}''"
  by (simp add: encodedConfig_def exporterEntry_def demoLib_def)

lemma demo_credential_loop:
  \<open>credentialLoop demoLib [''c1'' \<mapsto> ''aws-key''] ''now''
      [Decoded (awsEntry ''c1'' ''s1''), Decoded (gcpEntry ''c2'')] [] []
     = Inr ([\<lparr>ci_Name = Some ''c2'', ci_Type = Some ''gcp-service-account'',
               ci_Value = Some ''{}'', ci_CreatedAt = Some ''now'',
               ci_UpdatedAt = Some ''now''\<rparr>],
            [\<lparr>cu_Name = ''c1'',
               cu_Value = ''{"AWS_ACCESS_KEY_ID":"AKID","AWS_SECRET_ACCESS_KEY":"s1"}'',
               cu_UpdatedAt = ''now''\<rparr>])\<close>
  by (simp add: awsEntry_def [of "''c1''"] gcpEntry_def [of "''c2''"] validateCredValue_def
      marshalAWSCredentialValue_def demoLib_def)

lemma demo_exporter_loop:
  "exporterLoop demoLib [''e1'' \<mapsto> ''cloudwatch''] ''now''
      [Decoded (exporterEntry ''e1'' [] (MapII [])),
       Decoded (exporterEntry ''e2'' ''stackdriver'' (MapII []))] [] []
     = Inr ([\<lparr>ei_Name = Some ''e2'', ei_Type = Some ''stackdriver'', ei_Credential = None,
               ei_Config = Some ''{}'', ei_CreatedAt = Some ''now'',
               ei_UpdatedAt = Some ''now''\<rparr>],
            [\<lparr>eu_Name = ''e1'', eu_Credential = None, eu_Config = ''{}'',
               eu_UpdatedAt = ''now''\<rparr>])"
  by (simp add: exporterLoop_accepted [OF demo_config_valid])
     (simp add: exporterEntry_def credentialRef_def)

lemma demo_entry_fields:
  "c_Name (awsEntry name secret) = name"
  "c_Type (awsEntry name secret) = ''aws-key''"
  "c_Name (gcpEntry name) = name"
  "c_Type (gcpEntry name) = ''gcp-service-account''"
  "e_Name (exporterEntry name type config) = name"
  "e_Type (exporterEntry name type config) = type"
  "credentialRef (exporterEntry name type config) = None"
  by (simp_all add: awsEntry_def gcpEntry_def exporterEntry_def credentialRef_def)

lemma demo_existing:
  "credentialTypes [credentialRowOf name type secret] = [name \<mapsto> type]"
  "exporterTypes [exporterRowOf name type] = [name \<mapsto> type]"
  by (simp_all add: credentialTypes_def credentialRowOf_def exporterTypes_def exporterRowOf_def)

lemma demo_listing:
  "cred_List (demoCredentials crows limit) tenant n = (Inr crows, n)"
  "exp_List (demoExporters erows limit) tenant n = (Inr erows, n)"
  by (simp_all add: demoCredentials_def demoExporters_def)

lemmas demo_facts =
  demo_tenant demo_listing demo_existing demo_entry_fields demo_entries_valid demo_config_valid
  credentialFails_def exporterFails_def

section \<open>A batch with a failing entry\<close>

text \<open>
  C1. When some entry of the body fails (it does not decode, its value or configuration
  is refused, or it asks for a change of type), the handler answers with an error and has
  submitted no insert and no update: the only call it can have made is the listing.
  The failure is judged against the existing types the handler fetched, when it got
  as far as fetching them.
\<close>

theorem validation_failure_writes_nothing:
  "(writeCredentials L cclient now r cbody w = (resp, s', log) \<longrightarrow>
      (\<forall>tenant rows s1. getTenant r = Inr tenant \<longrightarrow>
          cred_List cclient tenant (fst w) = (Inr rows, s1) \<longrightarrow>
          (\<exists>item\<in>set cbody. credentialFails L (credentialTypes rows) item)) \<longrightarrow>
      (\<exists>status msg. resp = HttpError status msg) \<and>
      (\<exists>calls. log = snd w @ calls \<and> (\<forall>call\<in>set calls. \<exists>tenant. call = ListCall tenant)))
   \<and> (writeExporters L eclient now r ebody w' = (resp', s'', log') \<longrightarrow>
      (\<forall>tenant rows s1. getTenant r = Inr tenant \<longrightarrow>
          exp_List eclient tenant (fst w') = (Inr rows, s1) \<longrightarrow>
          (\<exists>item\<in>set ebody. exporterFails L (exporterTypes rows) item)) \<longrightarrow>
      (\<exists>status msg. resp' = HttpError status msg) \<and>
      (\<exists>calls. log' = snd w' @ calls \<and> (\<forall>call\<in>set calls. \<exists>tenant. call = ListCall tenant)))"
proof (intro conjI impI)
  assume run: "writeCredentials L cclient now r cbody w = (resp, s', log)"
    and bad: "\<forall>tenant rows s1. getTenant r = Inr tenant \<longrightarrow>
          cred_List cclient tenant (fst w) = (Inr rows, s1) \<longrightarrow>
          (\<exists>item\<in>set cbody. credentialFails L (credentialTypes rows) item)"
  have "(\<exists>status msg. resp = HttpError status msg) \<and> (log = snd w \<or> (\<exists>tenant. log = snd w @ [ListCall tenant]))"
  proof (cases "getTenant r")
    case (Inl err)
    with run show ?thesis
      by (auto simp: writeCredentials_def)
  next
    case (Inr tenant)
    obtain answer s1 where listed: "cred_List cclient tenant (fst w) = (answer, s1)"
      by (cases "cred_List cclient tenant (fst w)")
    show ?thesis
    proof (cases answer)
      case (Inl err)
      with run Inr listed show ?thesis
        by (auto simp: writeCredentials_def credentialList_def)
    next
      case rows: (Inr rows)
      with bad Inr listed have "\<exists>item\<in>set cbody. credentialFails L (credentialTypes rows) item"
        by blast
      from credentialLoop_fails [OF this, of now "[]" "[]"]
      obtain msg where "credentialLoop L (credentialTypes rows) now cbody [] [] = Inl (HttpError 400 msg)"
        by blast
      with run Inr listed rows show ?thesis
        by (auto simp: writeCredentials_def credentialList_def)
    qed
  qed
  then show "\<exists>status msg. resp = HttpError status msg"
    and "\<exists>calls. log = snd w @ calls \<and> (\<forall>call\<in>set calls. \<exists>tenant. call = ListCall tenant)"
    by auto
next
  assume run: "writeExporters L eclient now r ebody w' = (resp', s'', log')"
    and bad: "\<forall>tenant rows s1. getTenant r = Inr tenant \<longrightarrow>
          exp_List eclient tenant (fst w') = (Inr rows, s1) \<longrightarrow>
          (\<exists>item\<in>set ebody. exporterFails L (exporterTypes rows) item)"
  have "(\<exists>status msg. resp' = HttpError status msg) \<and> (log' = snd w' \<or> (\<exists>tenant. log' = snd w' @ [ListCall tenant]))"
  proof (cases "getTenant r")
    case (Inl err)
    with run show ?thesis
      by (auto simp: writeExporters_def)
  next
    case (Inr tenant)
    obtain answer s1 where listed: "exp_List eclient tenant (fst w') = (answer, s1)"
      by (cases "exp_List eclient tenant (fst w')")
    show ?thesis
    proof (cases answer)
      case (Inl err)
      with run Inr listed show ?thesis
        by (auto simp: writeExporters_def exporterList_def)
    next
      case rows: (Inr rows)
      with bad Inr listed have "\<exists>item\<in>set ebody. exporterFails L (exporterTypes rows) item"
        by blast
      from exporterLoop_fails [OF this, of now "[]" "[]"]
      obtain msg where "exporterLoop L (exporterTypes rows) now ebody [] [] = Inl (HttpError 400 msg)"
        by blast
      with run Inr listed rows show ?thesis
        by (auto simp: writeExporters_def exporterList_def)
    qed
  qed
  then show "\<exists>status msg. resp' = HttpError status msg"
    and "\<exists>calls. log' = snd w' @ calls \<and> (\<forall>call\<in>set calls. \<exists>tenant. call = ListCall tenant)"
    by auto
qed

text \<open>
  A valid entry followed by one that is refused: a credential whose value is not JSON,
  an exporter whose configuration is not a map. Both requests end in status 400 with
  the listing as the only call.
\<close>

lemma demo_credentials_refused:
  "writeCredentials demoLib (demoCredentials [] 5) ''now'' demoRequest
      [Decoded (awsEntry ''c1'' ''s1''),
       Decoded \<lparr>c_Name = ''c2'', c_Type = ''gcp-service-account'',
                c_Value = Scalar (SStr ''{not valid json'')\<rparr>] (0, [])
     = (HttpError 400 (CredentialFormatInvalid (GcpNotValidJson ''gcp-service-account'' ''c2'')),
        0, [ListCall ''t1''])"
  by (simp add: writeCredentials_def getTenant_def demoRequest_def credentialList_def
      demoCredentials_def credentialTypes_def awsEntry_def validateCredValue_def
      marshalAWSCredentialValue_def demoLib_def)

lemma demo_exporters_refused:
  "writeExporters demoLib (demoExporters [] 5) ''now'' demoRequest
      [Decoded (exporterEntry ''e1'' ''cloudwatch'' (MapII [])),
       Decoded (exporterEntry ''e2'' ''cloudwatch'' (Scalar (SStr ''region'')))] (0, [])
     = (HttpError 400 (ExporterConfigInvalid ''e2''), 0, [ListCall ''t1''])"
  by (simp add: writeExporters_def getTenant_def demoRequest_def exporterList_def
      demoExporters_def exporterTypes_def exporterEntry_def exporterLoop.simps(3)
      demoLib_def)

theorem validation_failure_writes_nothing_witness:
  "credentialFails demoLib (credentialTypes [])
      (Decoded \<lparr>c_Name = ''c2'', c_Type = ''gcp-service-account'',
                c_Value = Scalar (SStr ''{not valid json'')\<rparr>)
   \<and> (\<exists>status msg. fst (writeCredentials demoLib (demoCredentials [] 5) ''now'' demoRequest
         [Decoded (awsEntry ''c1'' ''s1''),
          Decoded \<lparr>c_Name = ''c2'', c_Type = ''gcp-service-account'',
                   c_Value = Scalar (SStr ''{not valid json'')\<rparr>] (0, [])) = HttpError status msg)
   \<and> (\<exists>calls. snd (snd (writeCredentials demoLib (demoCredentials [] 5) ''now'' demoRequest
         [Decoded (awsEntry ''c1'' ''s1''),
          Decoded \<lparr>c_Name = ''c2'', c_Type = ''gcp-service-account'',
                   c_Value = Scalar (SStr ''{not valid json'')\<rparr>] (0, []))) = [] @ calls \<and>
         (\<forall>call\<in>set calls. \<exists>tenant. call = ListCall tenant))
   \<and> exporterFails demoLib (exporterTypes [])
      (Decoded (exporterEntry ''e2'' ''cloudwatch'' (Scalar (SStr ''region''))))
   \<and> (\<exists>status msg. fst (writeExporters demoLib (demoExporters [] 5) ''now'' demoRequest
         [Decoded (exporterEntry ''e1'' ''cloudwatch'' (MapII [])),
          Decoded (exporterEntry ''e2'' ''cloudwatch'' (Scalar (SStr ''region'')))] (0, [])) = HttpError status msg)
   \<and> (\<exists>calls. snd (snd (writeExporters demoLib (demoExporters [] 5) ''now'' demoRequest
         [Decoded (exporterEntry ''e1'' ''cloudwatch'' (MapII [])),
          Decoded (exporterEntry ''e2'' ''cloudwatch'' (Scalar (SStr ''region'')))] (0, []))) = [] @ calls \<and>
         (\<forall>call\<in>set calls. \<exists>tenant. call = ListCall tenant))"
proof -
  have cbad: "credentialFails demoLib (credentialTypes [])
      (Decoded \<lparr>c_Name = ''c2'', c_Type = ''gcp-service-account'',
                c_Value = Scalar (SStr ''{not valid json'')\<rparr>)"
    by (simp add: credentialFails_def validateCredValue_def demoLib_def)
  have ebad: "exporterFails demoLib (exporterTypes [])
      (Decoded (exporterEntry ''e2'' ''cloudwatch'' (Scalar (SStr ''region''))))"
    by (simp add: exporterFails_def encodedConfig_def exporterEntry_def)
  have chyp: "\<forall>tenant rows s1. getTenant demoRequest = Inr tenant \<longrightarrow>
      cred_List (demoCredentials [] 5) tenant (fst (0::nat, [] :: cred_call list)) = (Inr rows, s1) \<longrightarrow>
      (\<exists>item\<in>set [Decoded (awsEntry ''c1'' ''s1''),
          Decoded \<lparr>c_Name = ''c2'', c_Type = ''gcp-service-account'',
                   c_Value = Scalar (SStr ''{not valid json'')\<rparr>].
          credentialFails demoLib (credentialTypes rows) item)"
    using cbad by (auto simp: demo_listing)
  have ehyp: "\<forall>tenant rows s1. getTenant demoRequest = Inr tenant \<longrightarrow>
      exp_List (demoExporters [] 5) tenant (fst (0::nat, [] :: exp_call list)) = (Inr rows, s1) \<longrightarrow>
      (\<exists>item\<in>set [Decoded (exporterEntry ''e1'' ''cloudwatch'' (MapII [])),
          Decoded (exporterEntry ''e2'' ''cloudwatch'' (Scalar (SStr ''region'')))].
          exporterFails demoLib (exporterTypes rows) item)"
    using ebad by (auto simp: demo_listing)
  note inst = validation_failure_writes_nothing
    [where L = demoLib and now = "''now''" and r = demoRequest
       and cclient = "demoCredentials [] 5" and w = "(0, [])"
       and cbody = "[Decoded (awsEntry ''c1'' ''s1''),
          Decoded \<lparr>c_Name = ''c2'', c_Type = ''gcp-service-account'',
                   c_Value = Scalar (SStr ''{not valid json'')\<rparr>]"
       and resp = "fst (writeCredentials demoLib (demoCredentials [] 5) ''now'' demoRequest
         [Decoded (awsEntry ''c1'' ''s1''),
          Decoded \<lparr>c_Name = ''c2'', c_Type = ''gcp-service-account'',
                   c_Value = Scalar (SStr ''{not valid json'')\<rparr>] (0, []))"
       and s' = "fst (snd (writeCredentials demoLib (demoCredentials [] 5) ''now'' demoRequest
         [Decoded (awsEntry ''c1'' ''s1''),
          Decoded \<lparr>c_Name = ''c2'', c_Type = ''gcp-service-account'',
                   c_Value = Scalar (SStr ''{not valid json'')\<rparr>] (0, [])))"
       and log = "snd (snd (writeCredentials demoLib (demoCredentials [] 5) ''now'' demoRequest
         [Decoded (awsEntry ''c1'' ''s1''),
          Decoded \<lparr>c_Name = ''c2'', c_Type = ''gcp-service-account'',
                   c_Value = Scalar (SStr ''{not valid json'')\<rparr>] (0, [])))"
       and eclient = "demoExporters [] 5" and w' = "(0, [])"
       and ebody = "[Decoded (exporterEntry ''e1'' ''cloudwatch'' (MapII [])),
          Decoded (exporterEntry ''e2'' ''cloudwatch'' (Scalar (SStr ''region'')))]"
       and resp' = "fst (writeExporters demoLib (demoExporters [] 5) ''now'' demoRequest
         [Decoded (exporterEntry ''e1'' ''cloudwatch'' (MapII [])),
          Decoded (exporterEntry ''e2'' ''cloudwatch'' (Scalar (SStr ''region'')))] (0, []))"
       and s'' = "fst (snd (writeExporters demoLib (demoExporters [] 5) ''now'' demoRequest
         [Decoded (exporterEntry ''e1'' ''cloudwatch'' (MapII [])),
          Decoded (exporterEntry ''e2'' ''cloudwatch'' (Scalar (SStr ''region'')))] (0, [])))"
       and log' = "snd (snd (writeExporters demoLib (demoExporters [] 5) ''now'' demoRequest
         [Decoded (exporterEntry ''e1'' ''cloudwatch'' (MapII [])),
          Decoded (exporterEntry ''e2'' ''cloudwatch'' (Scalar (SStr ''region'')))] (0, [])))"]
  from inst [THEN conjunct1, THEN mp, THEN mp, OF _ chyp]
    inst [THEN conjunct2, THEN mp, THEN mp, OF _ ehyp] cbad ebad
  show ?thesis
    by simp
qed

section \<open>Entries with new names\<close>

lemma plannedCredentialInserts_fields:
  "\<forall>c\<in>set cs. \<not> credentialFails L ex (Decoded c) \<Longrightarrow>
   list_all2 (\<lambda>c i. \<exists>v. validateCredValue L (c_Name c) (c_Type c) (c_Value c) = Inr v \<and>
                 i = \<lparr>ci_Name = Some (c_Name c), ci_Type = Some (c_Type c), ci_Value = Some v,
                      ci_CreatedAt = Some now, ci_UpdatedAt = Some now\<rparr>)
     (filter (\<lambda>c. ex (c_Name c) = None) cs) (plannedCredentialInserts L ex now cs)"
proof (induction cs)
  case Nil
  then show ?case by (simp add: plannedCredentialInserts_def)
next
  case (Cons c cs)
  from Cons.prems obtain v where "validateCredValue L (c_Name c) (c_Type c) (c_Value c) = Inr v"
    by (auto simp: credentialFails_def split: sum.splits)
  with Cons show ?case
    by (simp add: plannedCredentialInserts_def)
qed

lemma plannedCredentialUpdates_fields:
  "\<forall>c\<in>set cs. \<not> credentialFails L ex (Decoded c) \<Longrightarrow>
   list_all2 (\<lambda>c u. \<exists>v. validateCredValue L (c_Name c) (c_Type c) (c_Value c) = Inr v \<and>
                 u = \<lparr>cu_Name = c_Name c, cu_Value = v, cu_UpdatedAt = now\<rparr>)
     (filter (\<lambda>c. ex (c_Name c) \<noteq> None) cs) (plannedCredentialUpdates L ex now cs)"
proof (induction cs)
  case Nil
  then show ?case by (simp add: plannedCredentialUpdates_def)
next
  case (Cons c cs)
  from Cons.prems obtain v where "validateCredValue L (c_Name c) (c_Type c) (c_Value c) = Inr v"
    by (auto simp: credentialFails_def split: sum.splits)
  with Cons show ?case
    by (simp add: plannedCredentialUpdates_def)
qed

lemma plannedExporterInserts_fields:
  "\<forall>e\<in>set es. \<not> exporterFails L ex (Decoded e) \<Longrightarrow>
   list_all2 (\<lambda>e i. \<exists>g. encodedConfig L e = Some g \<and>
                 i = \<lparr>ei_Name = Some (e_Name e), ei_Type = Some (e_Type e),
                      ei_Credential = credentialRef e, ei_Config = Some g,
                      ei_CreatedAt = Some now, ei_UpdatedAt = Some now\<rparr>)
     (filter (\<lambda>e. ex (e_Name e) = None) es) (plannedExporterInserts L ex now es)"
proof (induction es)
  case Nil
  then show ?case by (simp add: plannedExporterInserts_def)
next
  case (Cons e es)
  from Cons.prems obtain g where "encodedConfig L e = Some g"
    by (auto simp: exporterFails_def split: option.splits)
  with Cons show ?case
    by (simp add: plannedExporterInserts_def)
qed

lemma plannedExporterUpdates_fields:
  "\<forall>e\<in>set es. \<not> exporterFails L ex (Decoded e) \<Longrightarrow>
   list_all2 (\<lambda>e u. \<exists>g. encodedConfig L e = Some g \<and>
                 u = \<lparr>eu_Name = e_Name e, eu_Credential = credentialRef e,
                      eu_Config = g, eu_UpdatedAt = now\<rparr>)
     (filter (\<lambda>e. ex (e_Name e) \<noteq> None) es) (plannedExporterUpdates L ex now es)"
proof (induction es)
  case Nil
  then show ?case by (simp add: plannedExporterUpdates_def)
next
  case (Cons e es)
  from Cons.prems obtain g where "encodedConfig L e = Some g"
    by (auto simp: exporterFails_def split: option.splits)
  with Cons show ?case
    by (simp add: plannedExporterUpdates_def)
qed

lemma plannedCredentialUpdates_none:
  "\<forall>c\<in>set cs. ex (c_Name c) = None \<Longrightarrow> plannedCredentialUpdates L ex now cs = []"
  by (induction cs) (auto simp: plannedCredentialUpdates_def split: sum.splits)

lemma plannedExporterUpdates_none:
  "\<forall>e\<in>set es. ex (e_Name e) = None \<Longrightarrow> plannedExporterUpdates L ex now es = []"
  by (induction es) (auto simp: plannedExporterUpdates_def split: option.splits)

lemma credentialTypes_Nil: "credentialTypes [] = Map.empty"
  by (simp add: credentialTypes_def)

lemma exporterTypes_Nil: "exporterTypes [] = Map.empty"
  by (simp add: exporterTypes_def)

lemma insert_fields_stamps:
  "list_all2 (\<lambda>c i. \<exists>v. P c v \<and>
                 i = \<lparr>ci_Name = Some (c_Name c), ci_Type = Some (c_Type c), ci_Value = Some v,
                      ci_CreatedAt = Some now, ci_UpdatedAt = Some now\<rparr>) cs ins \<Longrightarrow>
   \<forall>i\<in>set ins. ci_CreatedAt i = Some now \<and> ci_UpdatedAt i = Some now"
  by (induction cs ins rule: list_all2_induct) auto

lemma empty_tenant_credentials:
  assumes tenant: "getTenant r = Inr tenant"
    and listed: "cred_List client tenant (fst w) = (Inr [], s1)"
    and valid: "\<forall>c\<in>set cs. \<exists>v. validateCredValue L (c_Name c) (c_Type c) (c_Value c) = Inr v"
  shows "\<exists>inserts resp s'. 
           writeCredentials L client now r (map Decoded cs) w =
             (resp, s', snd w @ ListCall tenant # (if cs = [] then [] else [InsertCall tenant inserts])) \<and>
           length inserts = length cs \<and>
           (\<forall>i\<in>set inserts. ci_CreatedAt i = Some now \<and> ci_UpdatedAt i = Some now)"
proof -
  let ?ins = "plannedCredentialInserts L Map.empty now cs"
  have ok: "\<forall>c\<in>set cs. \<not> credentialFails L Map.empty (Decoded c)"
    using valid by (auto simp: credentialFails_def)
  have rel: "list_all2 (\<lambda>c i. \<exists>v. validateCredValue L (c_Name c) (c_Type c) (c_Value c) = Inr v \<and>
                 i = \<lparr>ci_Name = Some (c_Name c), ci_Type = Some (c_Type c), ci_Value = Some v,
                      ci_CreatedAt = Some now, ci_UpdatedAt = Some now\<rparr>) cs ?ins"
    using plannedCredentialInserts_fields [OF ok, of now] by simp
  then have len: "length ?ins = length cs"
    by (simp add: list_all2_lengthD)
  have stamps: "\<forall>i\<in>set ?ins. ci_CreatedAt i = Some now \<and> ci_UpdatedAt i = Some now"
    using insert_fields_stamps [OF rel] .
  have loop: "credentialLoop L Map.empty now (map Decoded cs) [] [] = Inr (?ins, [])"
    using credentialLoop_passes [OF ok, of now "[]" "[]" "[]"]
    by (simp add: plannedCredentialUpdates_none)
  have "\<exists>resp s'. writeCredentials L client now r (map Decoded cs) w =
             (resp, s', snd w @ ListCall tenant # (if cs = [] then [] else [InsertCall tenant ?ins]))"
  proof (cases "cs = []")
    case True
    with tenant listed show ?thesis
      by (simp add: writeCredentials_def credentialList_def credentialTypes_Nil
          plannedCredentialInserts_def)
  next
    case False
    with len have ne: "?ins \<noteq> []" by auto
    obtain err s2 where ins: "cred_Insert client tenant ?ins s1 = (err, s2)"
      by (cases "cred_Insert client tenant ?ins s1")
    with tenant listed loop ne False show ?thesis
      by (cases err)
         (simp_all add: writeCredentials_def credentialList_def credentialTypes_Nil
            credentialInsert_def)
  qed
  with len stamps show ?thesis
    by blast
qed

lemma exporter_fields_stamps:
  "list_all2 (\<lambda>e i. \<exists>g. P e g \<and>
                 i = \<lparr>ei_Name = Some (e_Name e), ei_Type = Some (e_Type e),
                      ei_Credential = credentialRef e, ei_Config = Some g,
                      ei_CreatedAt = Some now, ei_UpdatedAt = Some now\<rparr>) es ins \<Longrightarrow>
   \<forall>i\<in>set ins. ei_CreatedAt i = Some now \<and> ei_UpdatedAt i = Some now"
  by (induction es ins rule: list_all2_induct) auto

lemma empty_tenant_exporters:
  assumes tenant: "getTenant r = Inr tenant"
    and listed: "exp_List client tenant (fst w) = (Inr [], s1)"
    and valid: "\<forall>e\<in>set es. \<exists>g. encodedConfig L e = Some g"
  shows "\<exists>inserts resp s'.
           writeExporters L client now r (map Decoded es) w =
             (resp, s', snd w @ ListCall tenant # (if es = [] then [] else [InsertCall tenant inserts])) \<and>
           length inserts = length es \<and>
           (\<forall>i\<in>set inserts. ei_CreatedAt i = Some now \<and> ei_UpdatedAt i = Some now)"
proof -
  let ?ins = "plannedExporterInserts L Map.empty now es"
  have ok: "\<forall>e\<in>set es. \<not> exporterFails L Map.empty (Decoded e)"
    using valid by (auto simp: exporterFails_def)
  have rel: "list_all2 (\<lambda>e i. \<exists>g. encodedConfig L e = Some g \<and>
                 i = \<lparr>ei_Name = Some (e_Name e), ei_Type = Some (e_Type e),
                      ei_Credential = credentialRef e, ei_Config = Some g,
                      ei_CreatedAt = Some now, ei_UpdatedAt = Some now\<rparr>) es ?ins"
    using plannedExporterInserts_fields [OF ok, of now] by simp
  then have len: "length ?ins = length es"
    by (simp add: list_all2_lengthD)
  have stamps: "\<forall>i\<in>set ?ins. ei_CreatedAt i = Some now \<and> ei_UpdatedAt i = Some now"
    using exporter_fields_stamps [OF rel] .
  have loop: "exporterLoop L Map.empty now (map Decoded es) [] [] = Inr (?ins, [])"
    using exporterLoop_passes [OF ok, of now "[]" "[]" "[]"]
    by (simp add: plannedExporterUpdates_none)
  have "\<exists>resp s'. writeExporters L client now r (map Decoded es) w =
             (resp, s', snd w @ ListCall tenant # (if es = [] then [] else [InsertCall tenant ?ins]))"
  proof (cases "es = []")
    case True
    with tenant listed show ?thesis
      by (simp add: writeExporters_def exporterList_def exporterTypes_Nil
          plannedExporterInserts_def)
  next
    case False
    with len have ne: "?ins \<noteq> []" by auto
    obtain err s2 where ins: "exp_Insert client tenant ?ins s1 = (err, s2)"
      by (cases "exp_Insert client tenant ?ins s1")
    with tenant listed loop ne False show ?thesis
      by (cases err)
         (simp_all add: writeExporters_def exporterList_def exporterTypes_Nil
            exporterInsert_def)
  qed
  with len stamps show ?thesis
    by blast
qed

lemma credential_insert_appended:
  assumes pre: "\<forall>p\<in>set pre. \<not> credentialFails L existing (Decoded p)"
    and valid: "validateCredValue L (c_Name c) (c_Type c) (c_Value c) = Inr v"
    and absent: "existing (c_Name c) = None"
  shows "\<exists>ins upd. credentialLoop L existing now (map Decoded pre) [] [] = Inr (ins, upd) \<and>
           credentialLoop L existing now (map Decoded pre @ Decoded c # rest) [] [] =
           credentialLoop L existing now rest
             (ins @ [\<lparr>ci_Name = Some (c_Name c), ci_Type = Some (c_Type c), ci_Value = Some v,
                       ci_CreatedAt = Some now, ci_UpdatedAt = Some now\<rparr>]) upd"
proof -
  have "credentialLoop L existing now (map Decoded pre) [] [] =
          Inr (plannedCredentialInserts L existing now pre, plannedCredentialUpdates L existing now pre)"
    using credentialLoop_passes [OF pre, of now "[]" "[]" "[]"] by simp
  moreover have "credentialLoop L existing now (map Decoded pre @ Decoded c # rest) [] [] =
           credentialLoop L existing now rest
             (plannedCredentialInserts L existing now pre @
                [\<lparr>ci_Name = Some (c_Name c), ci_Type = Some (c_Type c), ci_Value = Some v,
                   ci_CreatedAt = Some now, ci_UpdatedAt = Some now\<rparr>])
             (plannedCredentialUpdates L existing now pre)"
    using credentialLoop_passes [OF pre] valid absent by simp
  ultimately show ?thesis
    by blast
qed

lemma exporter_insert_appended:
  assumes pre: "\<forall>p\<in>set pre. \<not> exporterFails L existing (Decoded p)"
    and valid: "encodedConfig L e = Some g"
    and absent: "existing (e_Name e) = None"
  shows "\<exists>ins upd. exporterLoop L existing now (map Decoded pre) [] [] = Inr (ins, upd) \<and>
           exporterLoop L existing now (map Decoded pre @ Decoded e # rest) [] [] =
           exporterLoop L existing now rest
             (ins @ [\<lparr>ei_Name = Some (e_Name e), ei_Type = Some (e_Type e),
                       ei_Credential = credentialRef e, ei_Config = Some g,
                       ei_CreatedAt = Some now, ei_UpdatedAt = Some now\<rparr>]) upd"
proof -
  have "exporterLoop L existing now (map Decoded pre) [] [] =
          Inr (plannedExporterInserts L existing now pre, plannedExporterUpdates L existing now pre)"
    using exporterLoop_passes [OF pre, of now "[]" "[]" "[]"] by simp
  moreover have "exporterLoop L existing now (map Decoded pre @ Decoded e # rest) [] [] =
           exporterLoop L existing now rest
             (plannedExporterInserts L existing now pre @
                [\<lparr>ei_Name = Some (e_Name e), ei_Type = Some (e_Type e),
                   ei_Credential = credentialRef e, ei_Config = Some g,
                   ei_CreatedAt = Some now, ei_UpdatedAt = Some now\<rparr>])
             (plannedExporterUpdates L existing now pre)"
    using exporterLoop_passes [OF pre] exporterLoop_accepted [OF valid] absent by simp
  ultimately show ?thesis
    by blast
qed

text \<open>
  C2. Against a tenant whose listing is empty, a body of N valid entries (whether or not
  their names differ) makes the handler submit one insert call of N inserts, each with
  \<open>created_at\<close> and \<open>updated_at\<close> equal to the request's \<open>now\<close>, and no update call; an
  empty body submits nothing. In general, a valid entry that the loop reaches and whose
  name is not among the existing ones adds exactly one insert, carrying the entry's
  name and type, its validated value or encoded configuration, and \<open>now\<close> as both
  timestamps; and when the loop accepts a body, its inserts are, in order, those of the
  entries whose name is not among the existing ones.
\<close>

theorem absent_names_are_inserted:
  "(getTenant r = Inr tenant \<longrightarrow> cred_List cclient tenant (fst w) = (Inr [], s1) \<longrightarrow>
      (\<forall>c\<in>set cs. \<exists>v. validateCredValue L (c_Name c) (c_Type c) (c_Value c) = Inr v) \<longrightarrow>
      (\<exists>inserts resp s'.
          writeCredentials L cclient now r (map Decoded cs) w =
            (resp, s', snd w @ ListCall tenant #
                        (if cs = [] then [] else [InsertCall tenant inserts])) \<and>
          length inserts = length cs \<and>
          (\<forall>i\<in>set inserts. ci_CreatedAt i = Some now \<and> ci_UpdatedAt i = Some now)))
   \<and> (credentialLoop L existing now cbody [] [] = Inr (cins, cupd) \<longrightarrow>
      (\<exists>cs. cbody = map Decoded cs \<and>
         list_all2 (\<lambda>c i. \<exists>v. validateCredValue L (c_Name c) (c_Type c) (c_Value c) = Inr v \<and>
                      i = \<lparr>ci_Name = Some (c_Name c), ci_Type = Some (c_Type c),
                           ci_Value = Some v, ci_CreatedAt = Some now,
                           ci_UpdatedAt = Some now\<rparr>)
           (filter (\<lambda>c. existing (c_Name c) = None) cs) cins))
   \<and> (getTenant r = Inr tenant \<longrightarrow> exp_List eclient tenant (fst w') = (Inr [], s1') \<longrightarrow>
      (\<forall>e\<in>set es. \<exists>g. encodedConfig L e = Some g) \<longrightarrow>
      (\<exists>inserts resp s'.
          writeExporters L eclient now r (map Decoded es) w' =
            (resp, s', snd w' @ ListCall tenant #
                        (if es = [] then [] else [InsertCall tenant inserts])) \<and>
          length inserts = length es \<and>
          (\<forall>i\<in>set inserts. ei_CreatedAt i = Some now \<and> ei_UpdatedAt i = Some now)))
   \<and> (exporterLoop L existing now ebody [] [] = Inr (eins, eupd) \<longrightarrow>
      (\<exists>es. ebody = map Decoded es \<and>
         list_all2 (\<lambda>e i. \<exists>g. encodedConfig L e = Some g \<and>
                      i = \<lparr>ei_Name = Some (e_Name e), ei_Type = Some (e_Type e),
                           ei_Credential = credentialRef e, ei_Config = Some g,
                           ei_CreatedAt = Some now, ei_UpdatedAt = Some now\<rparr>)
           (filter (\<lambda>e. existing (e_Name e) = None) es) eins))
   \<and> ((\<forall>p\<in>set cpre. \<not> credentialFails L existing (Decoded p)) \<longrightarrow>
      validateCredValue L (c_Name c) (c_Type c) (c_Value c) = Inr v \<longrightarrow>
      existing (c_Name c) = None \<longrightarrow>
      (\<exists>ins upd. credentialLoop L existing now (map Decoded cpre) [] [] = Inr (ins, upd) \<and>
          credentialLoop L existing now (map Decoded cpre @ Decoded c # crest) [] [] =
          credentialLoop L existing now crest
            (ins @ [\<lparr>ci_Name = Some (c_Name c), ci_Type = Some (c_Type c), ci_Value = Some v,
                      ci_CreatedAt = Some now, ci_UpdatedAt = Some now\<rparr>]) upd))
   \<and> ((\<forall>p\<in>set epre. \<not> exporterFails L existing (Decoded p)) \<longrightarrow>
      encodedConfig L e = Some g \<longrightarrow>
      existing (e_Name e) = None \<longrightarrow>
      (\<exists>ins upd. exporterLoop L existing now (map Decoded epre) [] [] = Inr (ins, upd) \<and>
          exporterLoop L existing now (map Decoded epre @ Decoded e # erest) [] [] =
          exporterLoop L existing now erest
            (ins @ [\<lparr>ei_Name = Some (e_Name e), ei_Type = Some (e_Type e),
                      ei_Credential = credentialRef e, ei_Config = Some g,
                      ei_CreatedAt = Some now, ei_UpdatedAt = Some now\<rparr>]) upd))"
proof (intro conjI impI)
  assume "getTenant r = Inr tenant" "cred_List cclient tenant (fst w) = (Inr [], s1)"
    "\<forall>c\<in>set cs. \<exists>v. validateCredValue L (c_Name c) (c_Type c) (c_Value c) = Inr v"
  then show "\<exists>inserts resp s'.
          writeCredentials L cclient now r (map Decoded cs) w =
            (resp, s', snd w @ ListCall tenant #
                        (if cs = [] then [] else [InsertCall tenant inserts])) \<and>
          length inserts = length cs \<and>
          (\<forall>i\<in>set inserts. ci_CreatedAt i = Some now \<and> ci_UpdatedAt i = Some now)"
    by (rule empty_tenant_credentials)
next
  assume "credentialLoop L existing now cbody [] [] = Inr (cins, cupd)"
  from credentialLoop_result [OF this]
  obtain cs where "cbody = map Decoded cs"
    and "\<forall>c\<in>set cs. \<not> credentialFails L existing (Decoded c)"
    and "cins = plannedCredentialInserts L existing now cs"
    by auto
  then show "\<exists>cs. cbody = map Decoded cs \<and>
         list_all2 (\<lambda>c i. \<exists>v. validateCredValue L (c_Name c) (c_Type c) (c_Value c) = Inr v \<and>
                      i = \<lparr>ci_Name = Some (c_Name c), ci_Type = Some (c_Type c),
                           ci_Value = Some v, ci_CreatedAt = Some now,
                           ci_UpdatedAt = Some now\<rparr>)
           (filter (\<lambda>c. existing (c_Name c) = None) cs) cins"
    using plannedCredentialInserts_fields [of cs L existing now] by blast
next
  assume "getTenant r = Inr tenant" "exp_List eclient tenant (fst w') = (Inr [], s1')"
    "\<forall>e\<in>set es. \<exists>g. encodedConfig L e = Some g"
  then show "\<exists>inserts resp s'.
          writeExporters L eclient now r (map Decoded es) w' =
            (resp, s', snd w' @ ListCall tenant #
                        (if es = [] then [] else [InsertCall tenant inserts])) \<and>
          length inserts = length es \<and>
          (\<forall>i\<in>set inserts. ei_CreatedAt i = Some now \<and> ei_UpdatedAt i = Some now)"
    by (rule empty_tenant_exporters)
next
  assume "exporterLoop L existing now ebody [] [] = Inr (eins, eupd)"
  from exporterLoop_result [OF this]
  obtain es where "ebody = map Decoded es"
    and "\<forall>e\<in>set es. \<not> exporterFails L existing (Decoded e)"
    and "eins = plannedExporterInserts L existing now es"
    by auto
  then show "\<exists>es. ebody = map Decoded es \<and>
         list_all2 (\<lambda>e i. \<exists>g. encodedConfig L e = Some g \<and>
                      i = \<lparr>ei_Name = Some (e_Name e), ei_Type = Some (e_Type e),
                           ei_Credential = credentialRef e, ei_Config = Some g,
                           ei_CreatedAt = Some now, ei_UpdatedAt = Some now\<rparr>)
           (filter (\<lambda>e. existing (e_Name e) = None) es) eins"
    using plannedExporterInserts_fields [of es L existing now] by blast
next
  assume "\<forall>p\<in>set cpre. \<not> credentialFails L existing (Decoded p)"
    "validateCredValue L (c_Name c) (c_Type c) (c_Value c) = Inr v"
    "existing (c_Name c) = None"
  then show "\<exists>ins upd. credentialLoop L existing now (map Decoded cpre) [] [] = Inr (ins, upd) \<and>
          credentialLoop L existing now (map Decoded cpre @ Decoded c # crest) [] [] =
          credentialLoop L existing now crest
            (ins @ [\<lparr>ci_Name = Some (c_Name c), ci_Type = Some (c_Type c), ci_Value = Some v,
                      ci_CreatedAt = Some now, ci_UpdatedAt = Some now\<rparr>]) upd"
    by (rule credential_insert_appended)
next
  assume "\<forall>p\<in>set epre. \<not> exporterFails L existing (Decoded p)"
    "encodedConfig L e = Some g"
    "existing (e_Name e) = None"
  then show "\<exists>ins upd. exporterLoop L existing now (map Decoded epre) [] [] = Inr (ins, upd) \<and>
          exporterLoop L existing now (map Decoded epre @ Decoded e # erest) [] [] =
          exporterLoop L existing now erest
            (ins @ [\<lparr>ei_Name = Some (e_Name e), ei_Type = Some (e_Type e),
                      ei_Credential = credentialRef e, ei_Config = Some g,
                      ei_CreatedAt = Some now, ei_UpdatedAt = Some now\<rparr>]) upd"
    by (rule exporter_insert_appended)
qed

text \<open>
  Two valid entries against an empty tenant give one insert call of two inserts, for
  credentials and for exporters; and with one name already present, the loop's only
  insert is the one of the other entry.
\<close>

theorem absent_names_are_inserted_witness:
  "(\<exists>inserts resp s'.
      writeCredentials demoLib (demoCredentials [] 5) ''now'' demoRequest
          (map Decoded [awsEntry ''c1'' ''s1'', gcpEntry ''c2'']) (0, []) =
        (resp, s', [ListCall ''t1'', InsertCall ''t1'' inserts]) \<and>
      length inserts = 2 \<and>
      (\<forall>i\<in>set inserts. ci_CreatedAt i = Some ''now'' \<and> ci_UpdatedAt i = Some ''now''))
   \<and> (\<exists>inserts resp s'.
      writeExporters demoLib (demoExporters [] 5) ''now'' demoRequest
          (map Decoded [exporterEntry ''e1'' ''cloudwatch'' (MapII []),
                        exporterEntry ''e2'' ''stackdriver'' (MapII [])]) (0, []) =
        (resp, s', [ListCall ''t1'', InsertCall ''t1'' inserts]) \<and>
      length inserts = 2 \<and>
      (\<forall>i\<in>set inserts. ei_CreatedAt i = Some ''now'' \<and> ei_UpdatedAt i = Some ''now''))
   \<and> (\<exists>cs. [Decoded (awsEntry ''c1'' ''s1''), Decoded (gcpEntry ''c2'')] = map Decoded cs \<and>
         list_all2 (\<lambda>c i. \<exists>v. validateCredValue demoLib (c_Name c) (c_Type c) (c_Value c) = Inr v \<and>
                      i = \<lparr>ci_Name = Some (c_Name c), ci_Type = Some (c_Type c),
                           ci_Value = Some v, ci_CreatedAt = Some ''now'',
                           ci_UpdatedAt = Some ''now''\<rparr>)
           (filter (\<lambda>c. [''c1'' \<mapsto> ''aws-key''] (c_Name c) = None) cs)
           [\<lparr>ci_Name = Some ''c2'', ci_Type = Some ''gcp-service-account'',
              ci_Value = Some ''{}'', ci_CreatedAt = Some ''now'',
              ci_UpdatedAt = Some ''now''\<rparr>])
   \<and> (\<exists>es. [Decoded (exporterEntry ''e1'' [] (MapII [])),
              Decoded (exporterEntry ''e2'' ''stackdriver'' (MapII []))] = map Decoded es \<and>
         list_all2 (\<lambda>e i. \<exists>g. encodedConfig demoLib e = Some g \<and>
                      i = \<lparr>ei_Name = Some (e_Name e), ei_Type = Some (e_Type e),
                           ei_Credential = credentialRef e, ei_Config = Some g,
                           ei_CreatedAt = Some ''now'', ei_UpdatedAt = Some ''now''\<rparr>)
           (filter (\<lambda>e. [''e1'' \<mapsto> ''cloudwatch''] (e_Name e) = None) es)
           [\<lparr>ei_Name = Some ''e2'', ei_Type = Some ''stackdriver'', ei_Credential = None,
              ei_Config = Some ''{}'', ei_CreatedAt = Some ''now'',
              ei_UpdatedAt = Some ''now''\<rparr>])
   \<and> (\<exists>ins upd.
        credentialLoop demoLib [''c1'' \<mapsto> ''aws-key''] ''now''
            (map Decoded [awsEntry ''c1'' ''s1'']) [] [] = Inr (ins, upd) \<and>
        credentialLoop demoLib [''c1'' \<mapsto> ''aws-key''] ''now''
            (map Decoded [awsEntry ''c1'' ''s1''] @ Decoded (gcpEntry ''c2'') # []) [] [] =
        credentialLoop demoLib [''c1'' \<mapsto> ''aws-key''] ''now'' []
          (ins @ [\<lparr>ci_Name = Some ''c2'', ci_Type = Some ''gcp-service-account'',
                    ci_Value = Some ''{}'', ci_CreatedAt = Some ''now'',
                    ci_UpdatedAt = Some ''now''\<rparr>]) upd)
   \<and> (\<exists>ins upd.
        exporterLoop demoLib [''e1'' \<mapsto> ''cloudwatch''] ''now''
            (map Decoded [exporterEntry ''e1'' [] (MapII [])]) [] [] = Inr (ins, upd) \<and>
        exporterLoop demoLib [''e1'' \<mapsto> ''cloudwatch''] ''now''
            (map Decoded [exporterEntry ''e1'' [] (MapII [])] @
               Decoded (exporterEntry ''e2'' ''stackdriver'' (MapII [])) # []) [] [] =
        exporterLoop demoLib [''e1'' \<mapsto> ''cloudwatch''] ''now'' []
          (ins @ [\<lparr>ei_Name = Some ''e2'', ei_Type = Some ''stackdriver'',
                    ei_Credential = None, ei_Config = Some ''{}'',
                    ei_CreatedAt = Some ''now'', ei_UpdatedAt = Some ''now''\<rparr>]) upd)"
proof -
  have clist: "cred_List (demoCredentials [] 5) ''t1'' (fst (0::nat, [] :: cred_call list)) = (Inr [], 0)"
    by (simp add: demoCredentials_def)
  have elist: "exp_List (demoExporters [] 5) ''t1'' (fst (0::nat, [] :: exp_call list)) = (Inr [], 0)"
    by (simp add: demoExporters_def)
  have cvalid: "\<forall>c\<in>set [awsEntry ''c1'' ''s1'', gcpEntry ''c2''].
      \<exists>v. validateCredValue demoLib (c_Name c) (c_Type c) (c_Value c) = Inr v"
    by (simp add: demo_entries_valid demo_entry_fields)
  have evalid: "\<forall>e\<in>set [exporterEntry ''e1'' ''cloudwatch'' (MapII []),
                         exporterEntry ''e2'' ''stackdriver'' (MapII [])].
      \<exists>g. encodedConfig demoLib e = Some g"
    by (simp add: demo_config_valid)
  note inst = absent_names_are_inserted
    [where r = demoRequest and tenant = "''t1''" and L = demoLib and now = "''now''"
       and cclient = "demoCredentials [] 5" and w = "(0, [])" and ?s1.0 = 0
       and cs = "[awsEntry ''c1'' ''s1'', gcpEntry ''c2'']"
       and eclient = "demoExporters [] 5" and w' = "(0, [])" and s1' = 0
       and es = "[exporterEntry ''e1'' ''cloudwatch'' (MapII []),
                  exporterEntry ''e2'' ''stackdriver'' (MapII [])]"]
  have c: "\<exists>inserts resp s'.
      writeCredentials demoLib (demoCredentials [] 5) ''now'' demoRequest
          (map Decoded [awsEntry ''c1'' ''s1'', gcpEntry ''c2'']) (0, []) =
        (resp, s', snd (0::nat, [] :: cred_call list) @ ListCall ''t1'' #
           (if [awsEntry ''c1'' ''s1'', gcpEntry ''c2''] = [] then []
            else [InsertCall ''t1'' inserts])) \<and>
      length inserts = length [awsEntry ''c1'' ''s1'', gcpEntry ''c2''] \<and>
      (\<forall>i\<in>set inserts. ci_CreatedAt i = Some ''now'' \<and> ci_UpdatedAt i = Some ''now'')"
    using inst [THEN conjunct1] demo_tenant clist cvalid by blast
  have e: "\<exists>inserts resp s'.
      writeExporters demoLib (demoExporters [] 5) ''now'' demoRequest
          (map Decoded [exporterEntry ''e1'' ''cloudwatch'' (MapII []),
                        exporterEntry ''e2'' ''stackdriver'' (MapII [])]) (0, []) =
        (resp, s', snd (0::nat, [] :: exp_call list) @ ListCall ''t1'' #
           (if [exporterEntry ''e1'' ''cloudwatch'' (MapII []),
                exporterEntry ''e2'' ''stackdriver'' (MapII [])] = [] then []
            else [InsertCall ''t1'' inserts])) \<and>
      length inserts = length [exporterEntry ''e1'' ''cloudwatch'' (MapII []),
                               exporterEntry ''e2'' ''stackdriver'' (MapII [])] \<and>
      (\<forall>i\<in>set inserts. ei_CreatedAt i = Some ''now'' \<and> ei_UpdatedAt i = Some ''now'')"
    using inst [THEN conjunct2, THEN conjunct2, THEN conjunct1] demo_tenant elist evalid by blast
  have cl: "\<exists>cs. [Decoded (awsEntry ''c1'' ''s1''), Decoded (gcpEntry ''c2'')] = map Decoded cs \<and>
         list_all2 (\<lambda>c i. \<exists>v. validateCredValue demoLib (c_Name c) (c_Type c) (c_Value c) = Inr v \<and>
                      i = \<lparr>ci_Name = Some (c_Name c), ci_Type = Some (c_Type c),
                           ci_Value = Some v, ci_CreatedAt = Some ''now'',
                           ci_UpdatedAt = Some ''now''\<rparr>)
           (filter (\<lambda>c. [''c1'' \<mapsto> ''aws-key''] (c_Name c) = None) cs)
           [\<lparr>ci_Name = Some ''c2'', ci_Type = Some ''gcp-service-account'',
              ci_Value = Some ''{}'', ci_CreatedAt = Some ''now'',
              ci_UpdatedAt = Some ''now''\<rparr>]"
    using absent_names_are_inserted [THEN conjunct2, THEN conjunct1, rule_format,
        OF demo_credential_loop] .
  have el: "\<exists>es. [Decoded (exporterEntry ''e1'' [] (MapII [])),
              Decoded (exporterEntry ''e2'' ''stackdriver'' (MapII []))] = map Decoded es \<and>
         list_all2 (\<lambda>e i. \<exists>g. encodedConfig demoLib e = Some g \<and>
                      i = \<lparr>ei_Name = Some (e_Name e), ei_Type = Some (e_Type e),
                           ei_Credential = credentialRef e, ei_Config = Some g,
                           ei_CreatedAt = Some ''now'', ei_UpdatedAt = Some ''now''\<rparr>)
           (filter (\<lambda>e. [''e1'' \<mapsto> ''cloudwatch''] (e_Name e) = None) es)
           [\<lparr>ei_Name = Some ''e2'', ei_Type = Some ''stackdriver'', ei_Credential = None,
              ei_Config = Some ''{}'', ei_CreatedAt = Some ''now'',
              ei_UpdatedAt = Some ''now''\<rparr>]"
    using absent_names_are_inserted [THEN conjunct2, THEN conjunct2, THEN conjunct2,
        THEN conjunct1, rule_format, OF demo_exporter_loop] .
  have ca: "(\<exists>ins upd.
        credentialLoop demoLib [''c1'' \<mapsto> ''aws-key''] ''now''
            (map Decoded [awsEntry ''c1'' ''s1'']) [] [] = Inr (ins, upd) \<and>
        credentialLoop demoLib [''c1'' \<mapsto> ''aws-key''] ''now''
            (map Decoded [awsEntry ''c1'' ''s1''] @ Decoded (gcpEntry ''c2'') # []) [] [] =
        credentialLoop demoLib [''c1'' \<mapsto> ''aws-key''] ''now'' []
          (ins @ [\<lparr>ci_Name = Some ''c2'', ci_Type = Some ''gcp-service-account'',
                    ci_Value = Some ''{}'', ci_CreatedAt = Some ''now'',
                    ci_UpdatedAt = Some ''now''\<rparr>]) upd)"
    using absent_names_are_inserted
      [where L = demoLib and now = "''now''" and existing = "[''c1'' \<mapsto> ''aws-key'']"
         and cpre = "[awsEntry ''c1'' ''s1'']" and c = "gcpEntry ''c2''" and v = "''{}''"
         and crest = "[]",
       THEN conjunct2, THEN conjunct2, THEN conjunct2, THEN conjunct2, THEN conjunct1]
    by (simp add: demo_facts)
  have ea: "(\<exists>ins upd.
        exporterLoop demoLib [''e1'' \<mapsto> ''cloudwatch''] ''now''
            (map Decoded [exporterEntry ''e1'' [] (MapII [])]) [] [] = Inr (ins, upd) \<and>
        exporterLoop demoLib [''e1'' \<mapsto> ''cloudwatch''] ''now''
            (map Decoded [exporterEntry ''e1'' [] (MapII [])] @
               Decoded (exporterEntry ''e2'' ''stackdriver'' (MapII [])) # []) [] [] =
        exporterLoop demoLib [''e1'' \<mapsto> ''cloudwatch''] ''now'' []
          (ins @ [\<lparr>ei_Name = Some ''e2'', ei_Type = Some ''stackdriver'',
                    ei_Credential = None, ei_Config = Some ''{}'',
                    ei_CreatedAt = Some ''now'', ei_UpdatedAt = Some ''now''\<rparr>]) upd)"
    using absent_names_are_inserted
      [where L = demoLib and now = "''now''" and existing = "[''e1'' \<mapsto> ''cloudwatch'']"
         and epre = "[exporterEntry ''e1'' [] (MapII [])]"
         and e = "exporterEntry ''e2'' ''stackdriver'' (MapII [])" and g = "''{}''"
         and erest = "[]",
       THEN conjunct2, THEN conjunct2, THEN conjunct2, THEN conjunct2, THEN conjunct2]
    by (simp add: demo_facts)
  from c e cl el ca ea show ?thesis
    by (simp add: numeral_2_eq_2)
qed


section \<open>Entries with existing names\<close>

lemma credential_type_change:
  assumes tenant: "getTenant r = Inr tenant"
    and listed: "cred_List client tenant (fst w) = (Inr rows, s1)"
    and pre: "\<forall>p\<in>set pre. \<not> credentialFails L (credentialTypes rows) (Decoded p)"
    and valid: "validateCredValue L (c_Name c) (c_Type c) (c_Value c) = Inr v"
    and known: "credentialTypes rows (c_Name c) = Some t"
    and change: "c_Type c \<noteq> []" "t \<noteq> c_Type c"
  shows "writeCredentials L client now r (map Decoded pre @ Decoded c # rest) w =
           (HttpError 400 (CredentialTypeChange (c_Name c) t (c_Type c)), s1,
            snd w @ [ListCall tenant])"
proof -
  have "credentialLoop L (credentialTypes rows) now (map Decoded pre @ Decoded c # rest) [] [] =
          Inl (HttpError 400 (CredentialTypeChange (c_Name c) t (c_Type c)))"
    using credentialLoop_passes [OF pre] valid known change by simp
  with tenant listed show ?thesis
    by (simp add: writeCredentials_def credentialList_def)
qed

lemma credential_update_appended:
  assumes pre: "\<forall>p\<in>set pre. \<not> credentialFails L existing (Decoded p)"
    and valid: "validateCredValue L (c_Name c) (c_Type c) (c_Value c) = Inr v"
    and known: "existing (c_Name c) = Some t"
    and same: "c_Type c = [] \<or> c_Type c = t"
  shows "\<exists>ins upd. credentialLoop L existing now (map Decoded pre) [] [] = Inr (ins, upd) \<and>
           credentialLoop L existing now (map Decoded pre @ Decoded c # rest) [] [] =
           credentialLoop L existing now rest ins
             (upd @ [\<lparr>cu_Name = c_Name c, cu_Value = v, cu_UpdatedAt = now\<rparr>])"
proof -
  have "credentialLoop L existing now (map Decoded pre) [] [] =
          Inr (plannedCredentialInserts L existing now pre, plannedCredentialUpdates L existing now pre)"
    using credentialLoop_passes [OF pre, of now "[]" "[]" "[]"] by simp
  moreover have "credentialLoop L existing now (map Decoded pre @ Decoded c # rest) [] [] =
           credentialLoop L existing now rest (plannedCredentialInserts L existing now pre)
             (plannedCredentialUpdates L existing now pre @
                [\<lparr>cu_Name = c_Name c, cu_Value = v, cu_UpdatedAt = now\<rparr>])"
    using credentialLoop_passes [OF pre] valid known same by auto
  ultimately show ?thesis
    by blast
qed

lemma credential_single_update:
  assumes tenant: "getTenant r = Inr tenant"
    and listed: "cred_List client tenant (fst w) = (Inr rows, s1)"
    and valid: "validateCredValue L (c_Name c) (c_Type c) (c_Value c) = Inr v"
    and known: "credentialTypes rows (c_Name c) = Some t"
    and same: "c_Type c = [] \<or> c_Type c = t"
  shows "\<exists>resp s'. writeCredentials L client now r [Decoded c] w =
           (resp, s', snd w @ [ListCall tenant,
              UpdateCall tenant \<lparr>cu_Name = c_Name c, cu_Value = v, cu_UpdatedAt = now\<rparr>])"
proof -
  let ?u = "\<lparr>cu_Name = c_Name c, cu_Value = v, cu_UpdatedAt = now\<rparr>"
  have loop: "credentialLoop L (credentialTypes rows) now [Decoded c] [] [] = Inr ([], [?u])"
    using valid known same by auto
  obtain err s2 where "cred_Update client tenant ?u s1 = (err, s2)"
    by (cases "cred_Update client tenant ?u s1")
  with tenant listed loop show ?thesis
    by (cases err) (simp_all add: writeCredentials_def credentialList_def credentialUpdate_def)
qed

lemma exporter_type_change:
  assumes tenant: "getTenant r = Inr tenant"
    and listed: "exp_List client tenant (fst w) = (Inr rows, s1)"
    and pre: "\<forall>p\<in>set pre. \<not> exporterFails L (exporterTypes rows) (Decoded p)"
    and valid: "encodedConfig L e = Some g"
    and known: "exporterTypes rows (e_Name e) = Some t"
    and change: "e_Type e \<noteq> []" "t \<noteq> e_Type e"
  shows "writeExporters L client now r (map Decoded pre @ Decoded e # rest) w =
           (HttpError 400 (ExporterTypeChange (e_Name e) t (e_Type e)), s1,
            snd w @ [ListCall tenant])"
proof -
  have "exporterLoop L (exporterTypes rows) now (map Decoded pre @ Decoded e # rest) [] [] =
          Inl (HttpError 400 (ExporterTypeChange (e_Name e) t (e_Type e)))"
    using exporterLoop_passes [OF pre] exporterLoop_accepted [OF valid] known change by simp
  with tenant listed show ?thesis
    by (simp add: writeExporters_def exporterList_def)
qed

lemma exporter_update_appended:
  assumes pre: "\<forall>p\<in>set pre. \<not> exporterFails L existing (Decoded p)"
    and valid: "encodedConfig L e = Some g"
    and known: "existing (e_Name e) = Some t"
    and same: "e_Type e = [] \<or> e_Type e = t"
  shows "\<exists>ins upd. exporterLoop L existing now (map Decoded pre) [] [] = Inr (ins, upd) \<and>
           exporterLoop L existing now (map Decoded pre @ Decoded e # rest) [] [] =
           exporterLoop L existing now rest ins
             (upd @ [\<lparr>eu_Name = e_Name e, eu_Credential = credentialRef e,
                       eu_Config = g, eu_UpdatedAt = now\<rparr>])"
proof -
  have "exporterLoop L existing now (map Decoded pre) [] [] =
          Inr (plannedExporterInserts L existing now pre, plannedExporterUpdates L existing now pre)"
    using exporterLoop_passes [OF pre, of now "[]" "[]" "[]"] by simp
  moreover have "exporterLoop L existing now (map Decoded pre @ Decoded e # rest) [] [] =
           exporterLoop L existing now rest (plannedExporterInserts L existing now pre)
             (plannedExporterUpdates L existing now pre @
                [\<lparr>eu_Name = e_Name e, eu_Credential = credentialRef e,
                   eu_Config = g, eu_UpdatedAt = now\<rparr>])"
    using exporterLoop_passes [OF pre] exporterLoop_accepted [OF valid] known same by auto
  ultimately show ?thesis
    by blast
qed

lemma exporter_single_update:
  assumes tenant: "getTenant r = Inr tenant"
    and listed: "exp_List client tenant (fst w) = (Inr rows, s1)"
    and valid: "encodedConfig L e = Some g"
    and known: "exporterTypes rows (e_Name e) = Some t"
    and same: "e_Type e = [] \<or> e_Type e = t"
  shows "\<exists>resp s'. writeExporters L client now r [Decoded e] w =
           (resp, s', snd w @ [ListCall tenant,
              UpdateCall tenant \<lparr>eu_Name = e_Name e, eu_Credential = credentialRef e,
                                  eu_Config = g, eu_UpdatedAt = now\<rparr>])"
proof -
  let ?u = "\<lparr>eu_Name = e_Name e, eu_Credential = credentialRef e, eu_Config = g, eu_UpdatedAt = now\<rparr>"
  have loop: "exporterLoop L (exporterTypes rows) now [Decoded e] [] [] = Inr ([], [?u])"
    using exporterLoop_accepted [OF valid] known same by auto
  obtain err s2 where "exp_Update client tenant ?u s1 = (err, s2)"
    by (cases "exp_Update client tenant ?u s1")
  with tenant listed loop show ?thesis
    by (cases err) (simp_all add: writeExporters_def exporterList_def exporterUpdate_def)
qed

text \<open>
  C3. An entry that the loop reaches (every entry before it passes), that is valid, and
  whose name is among the existing ones: with a non-empty type different from the
  stored one, the request ends in status 400 with the type-change message naming the
  resource, its current type and the submitted one, and only the listing has been
  called; with an empty type or the stored one, the loop goes on with exactly one more
  update, carrying the name, the new value or configuration and \<open>now\<close>, and a body of
  that single entry makes the handler submit that one update call. (A credential entry
  with an empty type is never valid, so for credentials only the stored type reaches the
  update.)
\<close>

theorem existing_names_update_or_refuse:
  "(getTenant r = Inr tenant \<longrightarrow>
      cred_List cclient tenant (fst w) = (Inr crows, s1) \<longrightarrow>
      (\<forall>p\<in>set cpre. \<not> credentialFails L (credentialTypes crows) (Decoded p)) \<longrightarrow>
      validateCredValue L (c_Name c) (c_Type c) (c_Value c) = Inr v \<longrightarrow>
      credentialTypes crows (c_Name c) = Some t \<longrightarrow>
      c_Type c \<noteq> [] \<longrightarrow>
      t \<noteq> c_Type c \<longrightarrow>
      writeCredentials L cclient now r (map Decoded cpre @ Decoded c # crest) w =
          (HttpError 400 (CredentialTypeChange (c_Name c) t (c_Type c)), s1,
           snd w @ [ListCall tenant]))
   \<and> ((\<forall>p\<in>set cpre. \<not> credentialFails L existing (Decoded p)) \<longrightarrow>
      validateCredValue L (c_Name c) (c_Type c) (c_Value c) = Inr v \<longrightarrow>
      existing (c_Name c) = Some t \<longrightarrow>
      (c_Type c = [] \<or> c_Type c = t) \<longrightarrow>
      (\<exists>ins upd. credentialLoop L existing now (map Decoded cpre) [] [] = Inr (ins, upd) \<and>
          credentialLoop L existing now (map Decoded cpre @ Decoded c # crest) [] [] =
          credentialLoop L existing now crest ins
            (upd @ [\<lparr>cu_Name = c_Name c, cu_Value = v, cu_UpdatedAt = now\<rparr>])))
   \<and> (getTenant r = Inr tenant \<longrightarrow>
      cred_List cclient tenant (fst w) = (Inr crows, s1) \<longrightarrow>
      validateCredValue L (c_Name c) (c_Type c) (c_Value c) = Inr v \<longrightarrow>
      credentialTypes crows (c_Name c) = Some t \<longrightarrow>
      (c_Type c = [] \<or> c_Type c = t) \<longrightarrow>
      (\<exists>resp s'. writeCredentials L cclient now r [Decoded c] w =
          (resp, s', snd w @ [ListCall tenant,
             UpdateCall tenant \<lparr>cu_Name = c_Name c, cu_Value = v, cu_UpdatedAt = now\<rparr>])))
   \<and> (getTenant r = Inr tenant \<longrightarrow>
      exp_List eclient tenant (fst w') = (Inr erows, s1') \<longrightarrow>
      (\<forall>p\<in>set epre. \<not> exporterFails L (exporterTypes erows) (Decoded p)) \<longrightarrow>
      encodedConfig L e = Some g \<longrightarrow>
      exporterTypes erows (e_Name e) = Some t \<longrightarrow>
      e_Type e \<noteq> [] \<longrightarrow>
      t \<noteq> e_Type e \<longrightarrow>
      writeExporters L eclient now r (map Decoded epre @ Decoded e # erest) w' =
          (HttpError 400 (ExporterTypeChange (e_Name e) t (e_Type e)), s1',
           snd w' @ [ListCall tenant]))
   \<and> ((\<forall>p\<in>set epre. \<not> exporterFails L existing (Decoded p)) \<longrightarrow>
      encodedConfig L e = Some g \<longrightarrow>
      existing (e_Name e) = Some t \<longrightarrow>
      (e_Type e = [] \<or> e_Type e = t) \<longrightarrow>
      (\<exists>ins upd. exporterLoop L existing now (map Decoded epre) [] [] = Inr (ins, upd) \<and>
          exporterLoop L existing now (map Decoded epre @ Decoded e # erest) [] [] =
          exporterLoop L existing now erest ins
            (upd @ [\<lparr>eu_Name = e_Name e, eu_Credential = credentialRef e,
                      eu_Config = g, eu_UpdatedAt = now\<rparr>])))
   \<and> (getTenant r = Inr tenant \<longrightarrow>
      exp_List eclient tenant (fst w') = (Inr erows, s1') \<longrightarrow>
      encodedConfig L e = Some g \<longrightarrow>
      exporterTypes erows (e_Name e) = Some t \<longrightarrow>
      (e_Type e = [] \<or> e_Type e = t) \<longrightarrow>
      (\<exists>resp s'. writeExporters L eclient now r [Decoded e] w' =
          (resp, s', snd w' @ [ListCall tenant,
             UpdateCall tenant \<lparr>eu_Name = e_Name e, eu_Credential = credentialRef e,
                                 eu_Config = g, eu_UpdatedAt = now\<rparr>])))"
proof (intro conjI impI)
  assume "getTenant r = Inr tenant"
    "cred_List cclient tenant (fst w) = (Inr crows, s1)"
    "\<forall>p\<in>set cpre. \<not> credentialFails L (credentialTypes crows) (Decoded p)"
    "validateCredValue L (c_Name c) (c_Type c) (c_Value c) = Inr v"
    "credentialTypes crows (c_Name c) = Some t"
    "c_Type c \<noteq> []"
    "t \<noteq> c_Type c"
  then show "writeCredentials L cclient now r (map Decoded cpre @ Decoded c # crest) w =
          (HttpError 400 (CredentialTypeChange (c_Name c) t (c_Type c)), s1,
           snd w @ [ListCall tenant])"
    by (rule credential_type_change)
next
  assume "\<forall>p\<in>set cpre. \<not> credentialFails L existing (Decoded p)"
    "validateCredValue L (c_Name c) (c_Type c) (c_Value c) = Inr v"
    "existing (c_Name c) = Some t"
    "c_Type c = [] \<or> c_Type c = t"
  then show "(\<exists>ins upd. credentialLoop L existing now (map Decoded cpre) [] [] = Inr (ins, upd) \<and>
          credentialLoop L existing now (map Decoded cpre @ Decoded c # crest) [] [] =
          credentialLoop L existing now crest ins
            (upd @ [\<lparr>cu_Name = c_Name c, cu_Value = v, cu_UpdatedAt = now\<rparr>]))"
    by (rule credential_update_appended)
next
  assume "getTenant r = Inr tenant"
    "cred_List cclient tenant (fst w) = (Inr crows, s1)"
    "validateCredValue L (c_Name c) (c_Type c) (c_Value c) = Inr v"
    "credentialTypes crows (c_Name c) = Some t"
    "c_Type c = [] \<or> c_Type c = t"
  then show "(\<exists>resp s'. writeCredentials L cclient now r [Decoded c] w =
          (resp, s', snd w @ [ListCall tenant,
             UpdateCall tenant \<lparr>cu_Name = c_Name c, cu_Value = v, cu_UpdatedAt = now\<rparr>]))"
    by (rule credential_single_update)
next
  assume "getTenant r = Inr tenant"
    "exp_List eclient tenant (fst w') = (Inr erows, s1')"
    "\<forall>p\<in>set epre. \<not> exporterFails L (exporterTypes erows) (Decoded p)"
    "encodedConfig L e = Some g"
    "exporterTypes erows (e_Name e) = Some t"
    "e_Type e \<noteq> []"
    "t \<noteq> e_Type e"
  then show "writeExporters L eclient now r (map Decoded epre @ Decoded e # erest) w' =
          (HttpError 400 (ExporterTypeChange (e_Name e) t (e_Type e)), s1',
           snd w' @ [ListCall tenant])"
    by (rule exporter_type_change)
next
  assume "\<forall>p\<in>set epre. \<not> exporterFails L existing (Decoded p)"
    "encodedConfig L e = Some g"
    "existing (e_Name e) = Some t"
    "e_Type e = [] \<or> e_Type e = t"
  then show "(\<exists>ins upd. exporterLoop L existing now (map Decoded epre) [] [] = Inr (ins, upd) \<and>
          exporterLoop L existing now (map Decoded epre @ Decoded e # erest) [] [] =
          exporterLoop L existing now erest ins
            (upd @ [\<lparr>eu_Name = e_Name e, eu_Credential = credentialRef e,
                      eu_Config = g, eu_UpdatedAt = now\<rparr>]))"
    by (rule exporter_update_appended)
next
  assume "getTenant r = Inr tenant"
    "exp_List eclient tenant (fst w') = (Inr erows, s1')"
    "encodedConfig L e = Some g"
    "exporterTypes erows (e_Name e) = Some t"
    "e_Type e = [] \<or> e_Type e = t"
  then show "(\<exists>resp s'. writeExporters L eclient now r [Decoded e] w' =
          (resp, s', snd w' @ [ListCall tenant,
             UpdateCall tenant \<lparr>eu_Name = e_Name e, eu_Credential = credentialRef e,
                                 eu_Config = g, eu_UpdatedAt = now\<rparr>]))"
    by (rule exporter_single_update)
qed

text \<open>
  With a credential \<open>c1\<close> of type \<open>aws-key\<close> and an exporter \<open>e1\<close> of type
  \<open>cloudwatch\<close> in the store: after a new entry, an entry for the existing name under
  another type ends the request; under the stored type (or, for the exporter, no type)
  it is one update.
\<close>

theorem existing_names_update_or_refuse_witness:
  \<open>writeCredentials demoLib (demoCredentials [credentialRowOf ''c1'' ''aws-key'' ''old''] 5)
      ''now'' demoRequest
      (map Decoded [gcpEntry ''c0''] @ Decoded (gcpEntry ''c1'') # [Decoded (gcpEntry ''c9'')])
      (0, [])
     = (HttpError 400 (CredentialTypeChange ''c1'' ''aws-key'' ''gcp-service-account''), 0,
        [ListCall ''t1''])
   \<and> (\<exists>ins upd.
        credentialLoop demoLib [''c1'' \<mapsto> ''aws-key''] ''now'' (map Decoded [gcpEntry ''c0'']) [] []
          = Inr (ins, upd) \<and>
        credentialLoop demoLib [''c1'' \<mapsto> ''aws-key''] ''now''
            (map Decoded [gcpEntry ''c0''] @ Decoded (awsEntry ''c1'' ''s1'') # []) [] []
          = credentialLoop demoLib [''c1'' \<mapsto> ''aws-key''] ''now'' [] ins
              (upd @ [\<lparr>cu_Name = ''c1'',
                        cu_Value = ''{"AWS_ACCESS_KEY_ID":"AKID","AWS_SECRET_ACCESS_KEY":"s1"}'',
                        cu_UpdatedAt = ''now''\<rparr>]))
   \<and> (\<exists>resp s'.
        writeCredentials demoLib (demoCredentials [credentialRowOf ''c1'' ''aws-key'' ''old''] 5)
            ''now'' demoRequest [Decoded (awsEntry ''c1'' ''s1'')] (0, [])
          = (resp, s',
             [ListCall ''t1'',
              UpdateCall ''t1''
                \<lparr>cu_Name = ''c1'',
                 cu_Value = ''{"AWS_ACCESS_KEY_ID":"AKID","AWS_SECRET_ACCESS_KEY":"s1"}'',
                 cu_UpdatedAt = ''now''\<rparr>]))
   \<and> writeExporters demoLib (demoExporters [exporterRowOf ''e1'' ''cloudwatch''] 5)
      ''now'' demoRequest
      (map Decoded [exporterEntry ''e0'' ''cloudwatch'' (MapII [])] @
         Decoded (exporterEntry ''e1'' ''stackdriver'' (MapII [])) # [])
      (0, [])
     = (HttpError 400 (ExporterTypeChange ''e1'' ''cloudwatch'' ''stackdriver''), 0,
        [ListCall ''t1''])
   \<and> (\<exists>ins upd.
        exporterLoop demoLib [''e1'' \<mapsto> ''cloudwatch''] ''now''
            (map Decoded [exporterEntry ''e0'' ''cloudwatch'' (MapII [])]) [] []
          = Inr (ins, upd) \<and>
        exporterLoop demoLib [''e1'' \<mapsto> ''cloudwatch''] ''now''
            (map Decoded [exporterEntry ''e0'' ''cloudwatch'' (MapII [])] @
               Decoded (exporterEntry ''e1'' [] (MapII [])) # []) [] []
          = exporterLoop demoLib [''e1'' \<mapsto> ''cloudwatch''] ''now'' [] ins
              (upd @ [\<lparr>eu_Name = ''e1'', eu_Credential = None, eu_Config = ''{}'',
                        eu_UpdatedAt = ''now''\<rparr>]))
   \<and> (\<exists>resp s'.
        writeExporters demoLib (demoExporters [exporterRowOf ''e1'' ''cloudwatch''] 5)
            ''now'' demoRequest [Decoded (exporterEntry ''e1'' [] (MapII []))] (0, [])
          = (resp, s',
             [ListCall ''t1'',
              UpdateCall ''t1''
                \<lparr>eu_Name = ''e1'', eu_Credential = None, eu_Config = ''{}'',
                 eu_UpdatedAt = ''now''\<rparr>]))\<close>
proof (intro conjI)
  show \<open>writeCredentials demoLib (demoCredentials [credentialRowOf ''c1'' ''aws-key'' ''old''] 5)
      ''now'' demoRequest
      (map Decoded [gcpEntry ''c0''] @ Decoded (gcpEntry ''c1'') # [Decoded (gcpEntry ''c9'')])
      (0, [])
     = (HttpError 400 (CredentialTypeChange ''c1'' ''aws-key'' ''gcp-service-account''), 0,
        [ListCall ''t1''])\<close>
    using existing_names_update_or_refuse
      [where r = demoRequest and tenant = "''t1''" and L = demoLib and now = "''now''"
         and cclient = "demoCredentials [credentialRowOf ''c1'' ''aws-key'' ''old''] 5"
         and w = "(0, [])" and ?s1.0 = 0
         and crows = "[credentialRowOf ''c1'' ''aws-key'' ''old'']"
         and existing = "[''c1'' \<mapsto> ''aws-key'']"
         and cpre = "[gcpEntry ''c0'']" and t = "''aws-key''"
         and c = "gcpEntry ''c1''" and v = "''{}''"
         and crest = "[Decoded (gcpEntry ''c9'')]", THEN conjunct1]
    by (simp add: demo_facts)
next
  show \<open>(\<exists>ins upd.
        credentialLoop demoLib [''c1'' \<mapsto> ''aws-key''] ''now'' (map Decoded [gcpEntry ''c0'']) [] []
          = Inr (ins, upd) \<and>
        credentialLoop demoLib [''c1'' \<mapsto> ''aws-key''] ''now''
            (map Decoded [gcpEntry ''c0''] @ Decoded (awsEntry ''c1'' ''s1'') # []) [] []
          = credentialLoop demoLib [''c1'' \<mapsto> ''aws-key''] ''now'' [] ins
              (upd @ [\<lparr>cu_Name = ''c1'',
                        cu_Value = ''{"AWS_ACCESS_KEY_ID":"AKID","AWS_SECRET_ACCESS_KEY":"s1"}'',
                        cu_UpdatedAt = ''now''\<rparr>]))\<close>
    using existing_names_update_or_refuse
      [where r = demoRequest and tenant = "''t1''" and L = demoLib and now = "''now''"
         and cclient = "demoCredentials [credentialRowOf ''c1'' ''aws-key'' ''old''] 5"
         and w = "(0, [])" and ?s1.0 = 0
         and crows = "[credentialRowOf ''c1'' ''aws-key'' ''old'']"
         and existing = "[''c1'' \<mapsto> ''aws-key'']"
         and cpre = "[gcpEntry ''c0'']" and t = "''aws-key''"
         and c = "awsEntry ''c1'' ''s1''" and v = \<open>''{"AWS_ACCESS_KEY_ID":"AKID","AWS_SECRET_ACCESS_KEY":"s1"}''\<close>
         and crest = "[]", THEN conjunct2, THEN conjunct1]
    by (simp add: demo_facts)
next
  show \<open>(\<exists>resp s'.
        writeCredentials demoLib (demoCredentials [credentialRowOf ''c1'' ''aws-key'' ''old''] 5)
            ''now'' demoRequest [Decoded (awsEntry ''c1'' ''s1'')] (0, [])
          = (resp, s',
             [ListCall ''t1'',
              UpdateCall ''t1''
                \<lparr>cu_Name = ''c1'',
                 cu_Value = ''{"AWS_ACCESS_KEY_ID":"AKID","AWS_SECRET_ACCESS_KEY":"s1"}'',
                 cu_UpdatedAt = ''now''\<rparr>]))\<close>
    using existing_names_update_or_refuse
      [where r = demoRequest and tenant = "''t1''" and L = demoLib and now = "''now''"
         and cclient = "demoCredentials [credentialRowOf ''c1'' ''aws-key'' ''old''] 5"
         and w = "(0, [])" and ?s1.0 = 0
         and crows = "[credentialRowOf ''c1'' ''aws-key'' ''old'']"
         and existing = "[''c1'' \<mapsto> ''aws-key'']"
         and cpre = "[gcpEntry ''c0'']" and t = "''aws-key''"
         and c = "awsEntry ''c1'' ''s1''" and v = \<open>''{"AWS_ACCESS_KEY_ID":"AKID","AWS_SECRET_ACCESS_KEY":"s1"}''\<close>,
       THEN conjunct2, THEN conjunct2, THEN conjunct1]
    by (simp add: demo_facts)
next
  show \<open>writeExporters demoLib (demoExporters [exporterRowOf ''e1'' ''cloudwatch''] 5)
      ''now'' demoRequest
      (map Decoded [exporterEntry ''e0'' ''cloudwatch'' (MapII [])] @
         Decoded (exporterEntry ''e1'' ''stackdriver'' (MapII [])) # [])
      (0, [])
     = (HttpError 400 (ExporterTypeChange ''e1'' ''cloudwatch'' ''stackdriver''), 0,
        [ListCall ''t1''])\<close>
    using existing_names_update_or_refuse
      [where r = demoRequest and tenant = "''t1''" and L = demoLib and now = "''now''"
         and eclient = "demoExporters [exporterRowOf ''e1'' ''cloudwatch''] 5"
         and w' = "(0, [])" and s1' = 0
         and erows = "[exporterRowOf ''e1'' ''cloudwatch'']"
         and existing = "[''e1'' \<mapsto> ''cloudwatch'']"
         and epre = "[exporterEntry ''e0'' ''cloudwatch'' (MapII [])]" and t = "''cloudwatch''"
         and g = "''{}''"
         and e = "exporterEntry ''e1'' ''stackdriver'' (MapII [])" and erest = "[]",
       THEN conjunct2, THEN conjunct2, THEN conjunct2, THEN conjunct1]
    by (simp add: demo_facts)
next
  show \<open>(\<exists>ins upd.
        exporterLoop demoLib [''e1'' \<mapsto> ''cloudwatch''] ''now''
            (map Decoded [exporterEntry ''e0'' ''cloudwatch'' (MapII [])]) [] []
          = Inr (ins, upd) \<and>
        exporterLoop demoLib [''e1'' \<mapsto> ''cloudwatch''] ''now''
            (map Decoded [exporterEntry ''e0'' ''cloudwatch'' (MapII [])] @
               Decoded (exporterEntry ''e1'' [] (MapII [])) # []) [] []
          = exporterLoop demoLib [''e1'' \<mapsto> ''cloudwatch''] ''now'' [] ins
              (upd @ [\<lparr>eu_Name = ''e1'', eu_Credential = None, eu_Config = ''{}'',
                        eu_UpdatedAt = ''now''\<rparr>]))\<close>
    using existing_names_update_or_refuse
      [where r = demoRequest and tenant = "''t1''" and L = demoLib and now = "''now''"
         and eclient = "demoExporters [exporterRowOf ''e1'' ''cloudwatch''] 5"
         and w' = "(0, [])" and s1' = 0
         and erows = "[exporterRowOf ''e1'' ''cloudwatch'']"
         and existing = "[''e1'' \<mapsto> ''cloudwatch'']"
         and epre = "[exporterEntry ''e0'' ''cloudwatch'' (MapII [])]" and t = "''cloudwatch''"
         and g = "''{}''"
         and e = "exporterEntry ''e1'' [] (MapII [])" and erest = "[]",
       THEN conjunct2, THEN conjunct2, THEN conjunct2, THEN conjunct2, THEN conjunct1]
    by (simp add: demo_facts)
next
  show \<open>(\<exists>resp s'.
        writeExporters demoLib (demoExporters [exporterRowOf ''e1'' ''cloudwatch''] 5)
            ''now'' demoRequest [Decoded (exporterEntry ''e1'' [] (MapII []))] (0, [])
          = (resp, s',
             [ListCall ''t1'',
              UpdateCall ''t1''
                \<lparr>eu_Name = ''e1'', eu_Credential = None, eu_Config = ''{}'',
                 eu_UpdatedAt = ''now''\<rparr>]))\<close>
    using existing_names_update_or_refuse
      [where r = demoRequest and tenant = "''t1''" and L = demoLib and now = "''now''"
         and eclient = "demoExporters [exporterRowOf ''e1'' ''cloudwatch''] 5"
         and w' = "(0, [])" and s1' = 0
         and erows = "[exporterRowOf ''e1'' ''cloudwatch'']"
         and existing = "[''e1'' \<mapsto> ''cloudwatch'']"
         and epre = "[exporterEntry ''e0'' ''cloudwatch'' (MapII [])]" and t = "''cloudwatch''"
         and g = "''{}''"
         and e = "exporterEntry ''e1'' [] (MapII [])",
       THEN conjunct2, THEN conjunct2, THEN conjunct2, THEN conjunct2, THEN conjunct2]
    by (simp add: demo_facts)
qed

section \<open>The commit phase\<close>

lemma worldAfter_simps:
  "worldAfter submit [] w = w"
  "worldAfter submit (op # ops) w = worldAfter submit ops (snd (submit op w))"
  by (simp_all add: worldAfter_def)

lemma submitInOrder_trace:
  "submitInOrder submit plan w = (res, w') \<Longrightarrow>
   (length (takeWhile (\<lambda>a. a = None) (answers submit plan w)) = length plan \<longrightarrow>
      res = None \<and> w' = worldAfter submit plan w) \<and>
   (length (takeWhile (\<lambda>a. a = None) (answers submit plan w)) < length plan \<longrightarrow>
      (\<exists>err. answers submit plan w ! length (takeWhile (\<lambda>a. a = None) (answers submit plan w)) = Some err \<and>
         res = Some (plan ! length (takeWhile (\<lambda>a. a = None) (answers submit plan w)), err)) \<and>
      w' = worldAfter submit
             (take (Suc (length (takeWhile (\<lambda>a. a = None) (answers submit plan w)))) plan) w)"
proof (induction plan arbitrary: w)
  case Nil
  then show ?case by (simp add: worldAfter_simps)
next
  case (Cons op ops)
  obtain a w1 where step: "submit op w = (a, w1)"
    by (cases "submit op w")
  show ?case
  proof (cases a)
    case None
    with Cons.prems step have "submitInOrder submit ops w1 = (res, w')"
      by simp
    from Cons.IH [OF this] None step show ?thesis
      by (simp add: worldAfter_simps)
  next
    case (Some err)
    with Cons.prems step show ?thesis
      by (auto simp: worldAfter_simps)
  qed
qed

lemma credentialUpdates_submit:
  "credentialUpdates client tenant updates w =
     (case submitInOrder (credentialSubmit client tenant) (map SingleUpdate updates) w of
        (None, w') \<Rightarrow> (None, w')
      | (Some (op, err), w') \<Rightarrow> (Some (HttpError 500 (credentialFailure op err)), w'))"
proof (induction updates arbitrary: w)
  case Nil
  then show ?case by simp
next
  case (Cons u us)
  obtain a w1 where "credentialUpdate client tenant u w = (a, w1)"
    by (cases "credentialUpdate client tenant u w")
  with Cons.IH [of w1] show ?case
    by (cases a) simp_all
qed

lemma exporterUpdates_submit:
  "exporterUpdates client tenant updates w =
     (case submitInOrder (exporterSubmit client tenant) (map SingleUpdate updates) w of
        (None, w') \<Rightarrow> (None, w')
      | (Some (op, err), w') \<Rightarrow> (Some (HttpError 500 (exporterFailure op err)), w'))"
proof (induction updates arbitrary: w)
  case Nil
  then show ?case by simp
next
  case (Cons u us)
  obtain a w1 where "exporterUpdate client tenant u w = (a, w1)"
    by (cases "exporterUpdate client tenant u w")
  with Cons.IH [of w1] show ?case
    by (cases a) simp_all
qed

lemma writeCredentials_commit:
  assumes tenant: "getTenant r = Inr tenant"
    and listed: "cred_List client tenant (fst w) = (Inr rows, s1)"
    and loop: "credentialLoop L (credentialTypes rows) now body [] [] = Inr (inserts, updates)"
    and some: "inserts \<noteq> [] \<or> updates \<noteq> []"
  shows "writeCredentials L client now r body w =
     (case submitInOrder (credentialSubmit client tenant) (commitPlan inserts updates)
             (s1, snd w @ [ListCall tenant]) of
        (None, w') \<Rightarrow> (HttpOK [], w')
      | (Some (op, err), w') \<Rightarrow> (HttpError 500 (credentialFailure op err), w'))"
proof (cases "inserts = []")
  case True
  with some tenant listed loop show ?thesis
    by (auto simp: writeCredentials_def credentialList_def commitPlan_def
        credentialUpdates_submit split: prod.splits option.splits)
next
  case False
  obtain a w1 where ins: "credentialInsert client tenant inserts (s1, snd w @ [ListCall tenant]) = (a, w1)"
    by (cases "credentialInsert client tenant inserts (s1, snd w @ [ListCall tenant])")
  with False tenant listed loop show ?thesis
    by (cases a)
       (auto simp: writeCredentials_def credentialList_def commitPlan_def
          credentialUpdates_submit split: prod.splits option.splits)
qed

lemma writeExporters_commit:
  assumes tenant: "getTenant r = Inr tenant"
    and listed: "exp_List client tenant (fst w) = (Inr rows, s1)"
    and loop: "exporterLoop L (exporterTypes rows) now body [] [] = Inr (inserts, updates)"
    and some: "inserts \<noteq> [] \<or> updates \<noteq> []"
  shows "writeExporters L client now r body w =
     (case submitInOrder (exporterSubmit client tenant) (commitPlan inserts updates)
             (s1, snd w @ [ListCall tenant]) of
        (None, w') \<Rightarrow> (HttpOK [], w')
      | (Some (op, err), w') \<Rightarrow> (HttpError 500 (exporterFailure op err), w'))"
proof (cases "inserts = []")
  case True
  with some tenant listed loop show ?thesis
    by (auto simp: writeExporters_def exporterList_def commitPlan_def
        exporterUpdates_submit split: prod.splits option.splits)
next
  case False
  obtain a w1 where ins: "exporterInsert client tenant inserts (s1, snd w @ [ListCall tenant]) = (a, w1)"
    by (cases "exporterInsert client tenant inserts (s1, snd w @ [ListCall tenant])")
  with False tenant listed loop show ?thesis
    by (cases a)
       (auto simp: writeExporters_def exporterList_def commitPlan_def
          exporterUpdates_submit split: prod.splits option.splits)
qed

lemma credential_log:
  "snd (worldAfter (credentialSubmit client tenant) ops w) = snd w @ map (callOf tenant) ops"
proof (induction ops arbitrary: w)
  case Nil
  then show ?case by (simp add: worldAfter_simps)
next
  case (Cons op ops)
  then show ?case
    by (cases op)
       (simp_all add: worldAfter_simps credentialInsert_def credentialUpdate_def
          split: prod.splits)
qed

lemma exporter_log:
  "snd (worldAfter (exporterSubmit client tenant) ops w) = snd w @ map (callOf tenant) ops"
proof (induction ops arbitrary: w)
  case Nil
  then show ?case by (simp add: worldAfter_simps)
next
  case (Cons op ops)
  then show ?case
    by (cases op)
       (simp_all add: worldAfter_simps exporterInsert_def exporterUpdate_def
          split: prod.splits)
qed

lemma credential_commit_outcome:
  assumes tenant: "getTenant r = Inr tenant"
    and listed: "cred_List client tenant (fst w) = (Inr rows, s1)"
    and loop: "credentialLoop L (credentialTypes rows) now body [] [] = Inr (inserts, updates)"
    and some: "inserts \<noteq> [] \<or> updates \<noteq> []"
  shows "(acceptedBefore (credentialSubmit client tenant) (commitPlan inserts updates)
            (s1, snd w @ [ListCall tenant]) = length (commitPlan inserts updates) \<longrightarrow>
          writeCredentials L client now r body w =
            (HttpOK [], worldAfter (credentialSubmit client tenant) (commitPlan inserts updates)
                          (s1, snd w @ [ListCall tenant])))
       \<and> (acceptedBefore (credentialSubmit client tenant) (commitPlan inserts updates)
            (s1, snd w @ [ListCall tenant]) < length (commitPlan inserts updates) \<longrightarrow>
          (\<exists>err. answers (credentialSubmit client tenant) (commitPlan inserts updates)
                    (s1, snd w @ [ListCall tenant]) !
                  acceptedBefore (credentialSubmit client tenant) (commitPlan inserts updates)
                    (s1, snd w @ [ListCall tenant]) = Some err \<and>
             writeCredentials L client now r body w =
               (HttpError 500
                  (credentialFailure
                     (commitPlan inserts updates !
                        acceptedBefore (credentialSubmit client tenant) (commitPlan inserts updates)
                          (s1, snd w @ [ListCall tenant])) err),
                worldAfter (credentialSubmit client tenant)
                  (take (Suc (acceptedBefore (credentialSubmit client tenant)
                                (commitPlan inserts updates) (s1, snd w @ [ListCall tenant])))
                     (commitPlan inserts updates))
                  (s1, snd w @ [ListCall tenant]))))"
proof -
  obtain res w' where run: "submitInOrder (credentialSubmit client tenant) (commitPlan inserts updates)
      (s1, snd w @ [ListCall tenant]) = (res, w')"
    by (cases "submitInOrder (credentialSubmit client tenant) (commitPlan inserts updates)
      (s1, snd w @ [ListCall tenant])")
  from submitInOrder_trace [OF run] writeCredentials_commit [OF tenant listed loop some] run
  show ?thesis
    unfolding acceptedBefore_def by auto
qed

lemma exporter_commit_outcome:
  assumes tenant: "getTenant r = Inr tenant"
    and listed: "exp_List client tenant (fst w) = (Inr rows, s1)"
    and loop: "exporterLoop L (exporterTypes rows) now body [] [] = Inr (inserts, updates)"
    and some: "inserts \<noteq> [] \<or> updates \<noteq> []"
  shows "(acceptedBefore (exporterSubmit client tenant) (commitPlan inserts updates)
            (s1, snd w @ [ListCall tenant]) = length (commitPlan inserts updates) \<longrightarrow>
          writeExporters L client now r body w =
            (HttpOK [], worldAfter (exporterSubmit client tenant) (commitPlan inserts updates)
                          (s1, snd w @ [ListCall tenant])))
       \<and> (acceptedBefore (exporterSubmit client tenant) (commitPlan inserts updates)
            (s1, snd w @ [ListCall tenant]) < length (commitPlan inserts updates) \<longrightarrow>
          (\<exists>err. answers (exporterSubmit client tenant) (commitPlan inserts updates)
                    (s1, snd w @ [ListCall tenant]) !
                  acceptedBefore (exporterSubmit client tenant) (commitPlan inserts updates)
                    (s1, snd w @ [ListCall tenant]) = Some err \<and>
             writeExporters L client now r body w =
               (HttpError 500
                  (exporterFailure
                     (commitPlan inserts updates !
                        acceptedBefore (exporterSubmit client tenant) (commitPlan inserts updates)
                          (s1, snd w @ [ListCall tenant])) err),
                worldAfter (exporterSubmit client tenant)
                  (take (Suc (acceptedBefore (exporterSubmit client tenant)
                                (commitPlan inserts updates) (s1, snd w @ [ListCall tenant])))
                     (commitPlan inserts updates))
                  (s1, snd w @ [ListCall tenant]))))"
proof -
  obtain res w' where run: "submitInOrder (exporterSubmit client tenant) (commitPlan inserts updates)
      (s1, snd w @ [ListCall tenant]) = (res, w')"
    by (cases "submitInOrder (exporterSubmit client tenant) (commitPlan inserts updates)
      (s1, snd w @ [ListCall tenant])")
  from submitInOrder_trace [OF run] writeExporters_commit [OF tenant listed loop some] run
  show ?thesis
    unfolding acceptedBefore_def by auto
qed

text \<open>
  C7. When the loop has accepted the body and there is something to write, the handler
  submits the plan in order: one bulk insert of all the inserts, when there are any,
  then the updates one at a time, which are those of the entries with existing names in
  the order of the body. The log holds exactly the calls submitted. When the store
  accepts every operation the answer is status 200 and the plan was submitted whole.
  When it first refuses the operation at position \<open>k\<close>, the answer is status 500 naming
  that operation, and the handler leaves the store and the log as they are after the
  first \<open>k + 1\<close> operations of the plan: nothing after the refused one is submitted, and
  nothing submitted before it is undone.
\<close>

theorem commit_in_order_until_refusal:
  "(getTenant r = Inr tenant \<longrightarrow>
      cred_List cclient tenant (fst w) = (Inr crows, s1) \<longrightarrow>
      credentialLoop L (credentialTypes crows) now cbody [] [] = Inr (cins, cupd) \<longrightarrow>
      (cins \<noteq> [] \<or> cupd \<noteq> []) \<longrightarrow>
      ((\<exists>cs. cbody = map Decoded cs \<and>
          map cu_Name cupd =
            map c_Name (filter (\<lambda>c. credentialTypes crows (c_Name c) \<noteq> None) cs))
       \<and> (\<forall>n. snd (worldAfter (credentialSubmit cclient tenant) (take n (commitPlan cins cupd))
                     (s1, snd w @ [ListCall tenant])) =
               snd w @ ListCall tenant # map (callOf tenant) (take n (commitPlan cins cupd)))
       \<and> (acceptedBefore (credentialSubmit cclient tenant) (commitPlan cins cupd)
             (s1, snd w @ [ListCall tenant]) = length (commitPlan cins cupd) \<longrightarrow>
           writeCredentials L cclient now r cbody w =
             (HttpOK [], worldAfter (credentialSubmit cclient tenant) (commitPlan cins cupd)
                           (s1, snd w @ [ListCall tenant])))
       \<and> (acceptedBefore (credentialSubmit cclient tenant) (commitPlan cins cupd)
             (s1, snd w @ [ListCall tenant]) < length (commitPlan cins cupd) \<longrightarrow>
           (\<exists>err. answers (credentialSubmit cclient tenant) (commitPlan cins cupd)
                     (s1, snd w @ [ListCall tenant]) !
                   acceptedBefore (credentialSubmit cclient tenant) (commitPlan cins cupd)
                     (s1, snd w @ [ListCall tenant]) = Some err \<and>
              writeCredentials L cclient now r cbody w =
                (HttpError 500
                   (credentialFailure
                      (commitPlan cins cupd !
                         acceptedBefore (credentialSubmit cclient tenant) (commitPlan cins cupd)
                           (s1, snd w @ [ListCall tenant])) err),
                 worldAfter (credentialSubmit cclient tenant)
                   (take (Suc (acceptedBefore (credentialSubmit cclient tenant)
                                 (commitPlan cins cupd) (s1, snd w @ [ListCall tenant])))
                      (commitPlan cins cupd))
                   (s1, snd w @ [ListCall tenant]))))))
   \<and> (getTenant r = Inr tenant \<longrightarrow>
      exp_List eclient tenant (fst w') = (Inr erows, s1') \<longrightarrow>
      exporterLoop L (exporterTypes erows) now ebody [] [] = Inr (eins, eupd) \<longrightarrow>
      (eins \<noteq> [] \<or> eupd \<noteq> []) \<longrightarrow>
      ((\<exists>es. ebody = map Decoded es \<and>
          map eu_Name eupd =
            map e_Name (filter (\<lambda>e. exporterTypes erows (e_Name e) \<noteq> None) es))
       \<and> (\<forall>n. snd (worldAfter (exporterSubmit eclient tenant) (take n (commitPlan eins eupd))
                     (s1', snd w' @ [ListCall tenant])) =
               snd w' @ ListCall tenant # map (callOf tenant) (take n (commitPlan eins eupd)))
       \<and> (acceptedBefore (exporterSubmit eclient tenant) (commitPlan eins eupd)
             (s1', snd w' @ [ListCall tenant]) = length (commitPlan eins eupd) \<longrightarrow>
           writeExporters L eclient now r ebody w' =
             (HttpOK [], worldAfter (exporterSubmit eclient tenant) (commitPlan eins eupd)
                           (s1', snd w' @ [ListCall tenant])))
       \<and> (acceptedBefore (exporterSubmit eclient tenant) (commitPlan eins eupd)
             (s1', snd w' @ [ListCall tenant]) < length (commitPlan eins eupd) \<longrightarrow>
           (\<exists>err. answers (exporterSubmit eclient tenant) (commitPlan eins eupd)
                     (s1', snd w' @ [ListCall tenant]) !
                   acceptedBefore (exporterSubmit eclient tenant) (commitPlan eins eupd)
                     (s1', snd w' @ [ListCall tenant]) = Some err \<and>
              writeExporters L eclient now r ebody w' =
                (HttpError 500
                   (exporterFailure
                      (commitPlan eins eupd !
                         acceptedBefore (exporterSubmit eclient tenant) (commitPlan eins eupd)
                           (s1', snd w' @ [ListCall tenant])) err),
                 worldAfter (exporterSubmit eclient tenant)
                   (take (Suc (acceptedBefore (exporterSubmit eclient tenant)
                                 (commitPlan eins eupd) (s1', snd w' @ [ListCall tenant])))
                      (commitPlan eins eupd))
                   (s1', snd w' @ [ListCall tenant]))))))"
proof (intro conjI impI allI)
  assume h: "getTenant r = Inr tenant" "cred_List cclient tenant (fst w) = (Inr crows, s1)"
    "credentialLoop L (credentialTypes crows) now cbody [] [] = Inr (cins, cupd)"
    "cins \<noteq> [] \<or> cupd \<noteq> []"
  from credentialLoop_names [OF h(3)]
  show "\<exists>cs. cbody = map Decoded cs \<and>
          map cu_Name cupd =
            map c_Name (filter (\<lambda>c. credentialTypes crows (c_Name c) \<noteq> None) cs)"
    by blast
  {
    assume "acceptedBefore (credentialSubmit cclient tenant) (commitPlan cins cupd)
             (s1, snd w @ [ListCall tenant]) = length (commitPlan cins cupd)"
    with credential_commit_outcome [OF h]
    show "writeCredentials L cclient now r cbody w =
             (HttpOK [], worldAfter (credentialSubmit cclient tenant) (commitPlan cins cupd)
                           (s1, snd w @ [ListCall tenant]))"
      by blast
  }
  {
    assume "acceptedBefore (credentialSubmit cclient tenant) (commitPlan cins cupd)
             (s1, snd w @ [ListCall tenant]) < length (commitPlan cins cupd)"
    with credential_commit_outcome [OF h]
    show "\<exists>err. answers (credentialSubmit cclient tenant) (commitPlan cins cupd)
                     (s1, snd w @ [ListCall tenant]) !
                   acceptedBefore (credentialSubmit cclient tenant) (commitPlan cins cupd)
                     (s1, snd w @ [ListCall tenant]) = Some err \<and>
              writeCredentials L cclient now r cbody w =
                (HttpError 500
                   (credentialFailure
                      (commitPlan cins cupd !
                         acceptedBefore (credentialSubmit cclient tenant) (commitPlan cins cupd)
                           (s1, snd w @ [ListCall tenant])) err),
                 worldAfter (credentialSubmit cclient tenant)
                   (take (Suc (acceptedBefore (credentialSubmit cclient tenant)
                                 (commitPlan cins cupd) (s1, snd w @ [ListCall tenant])))
                      (commitPlan cins cupd))
                   (s1, snd w @ [ListCall tenant]))"
      by blast
  }
next
  fix n
  show "snd (worldAfter (credentialSubmit cclient tenant) (take n (commitPlan cins cupd))
                     (s1, snd w @ [ListCall tenant])) =
               snd w @ ListCall tenant # map (callOf tenant) (take n (commitPlan cins cupd))"
    by (simp add: credential_log)
next
  assume h: "getTenant r = Inr tenant" "exp_List eclient tenant (fst w') = (Inr erows, s1')"
    "exporterLoop L (exporterTypes erows) now ebody [] [] = Inr (eins, eupd)"
    "eins \<noteq> [] \<or> eupd \<noteq> []"
  from exporterLoop_names [OF h(3)]
  show "\<exists>es. ebody = map Decoded es \<and>
          map eu_Name eupd =
            map e_Name (filter (\<lambda>e. exporterTypes erows (e_Name e) \<noteq> None) es)"
    by blast
  {
    assume "acceptedBefore (exporterSubmit eclient tenant) (commitPlan eins eupd)
             (s1', snd w' @ [ListCall tenant]) = length (commitPlan eins eupd)"
    with exporter_commit_outcome [OF h]
    show "writeExporters L eclient now r ebody w' =
             (HttpOK [], worldAfter (exporterSubmit eclient tenant) (commitPlan eins eupd)
                           (s1', snd w' @ [ListCall tenant]))"
      by blast
  }
  {
    assume "acceptedBefore (exporterSubmit eclient tenant) (commitPlan eins eupd)
             (s1', snd w' @ [ListCall tenant]) < length (commitPlan eins eupd)"
    with exporter_commit_outcome [OF h]
    show "\<exists>err. answers (exporterSubmit eclient tenant) (commitPlan eins eupd)
                     (s1', snd w' @ [ListCall tenant]) !
                   acceptedBefore (exporterSubmit eclient tenant) (commitPlan eins eupd)
                     (s1', snd w' @ [ListCall tenant]) = Some err \<and>
              writeExporters L eclient now r ebody w' =
                (HttpError 500
                   (exporterFailure
                      (commitPlan eins eupd !
                         acceptedBefore (exporterSubmit eclient tenant) (commitPlan eins eupd)
                           (s1', snd w' @ [ListCall tenant])) err),
                 worldAfter (exporterSubmit eclient tenant)
                   (take (Suc (acceptedBefore (exporterSubmit eclient tenant)
                                 (commitPlan eins eupd) (s1', snd w' @ [ListCall tenant])))
                      (commitPlan eins eupd))
                   (s1', snd w' @ [ListCall tenant]))"
      by blast
  }
next
  fix n
  show "snd (worldAfter (exporterSubmit eclient tenant) (take n (commitPlan eins eupd))
                     (s1', snd w' @ [ListCall tenant])) =
               snd w' @ ListCall tenant # map (callOf tenant) (take n (commitPlan eins eupd))"
    by (simp add: exporter_log)
qed

text \<open>
  A store that accepts one write and refuses the next: of an insert and two updates,
  the insert and the first update are submitted, the answer names the first update, and
  the accepted insert stays counted. A store that accepts everything gets the insert and
  then the update, and the answer is status 200.
\<close>

lemma demo_credential_batch:
  \<open>credentialLoop demoLib
      (credentialTypes [credentialRowOf ''c1'' ''aws-key'' ''old1'', credentialRowOf ''c2'' ''gcp-service-account'' ''old2''])
      ''now'' [Decoded (gcpEntry ''c0''), Decoded (awsEntry ''c1'' ''s1''), Decoded (gcpEntry ''c2'')] [] []
     = Inr ([\<lparr>ci_Name = Some ''c0'', ci_Type = Some ''gcp-service-account'', ci_Value = Some ''{}'',
            ci_CreatedAt = Some ''now'', ci_UpdatedAt = Some ''now''\<rparr>],
          [\<lparr>cu_Name = ''c1'',
            cu_Value = ''{"AWS_ACCESS_KEY_ID":"AKID","AWS_SECRET_ACCESS_KEY":"s1"}'',
            cu_UpdatedAt = ''now''\<rparr>,
           \<lparr>cu_Name = ''c2'', cu_Value = ''{}'', cu_UpdatedAt = ''now''\<rparr>])\<close>
  by (simp add: credentialTypes_def credentialRowOf_def demo_entry_fields demo_entries_valid)

lemma demo_exporter_batch:
  \<open>exporterLoop demoLib (exporterTypes [exporterRowOf ''e1'' ''cloudwatch'']) ''now''
      [Decoded (exporterEntry ''e0'' ''stackdriver'' (MapII [])), Decoded (exporterEntry ''e1'' [] (MapII []))] [] []
     = Inr ([\<lparr>ei_Name = Some ''e0'', ei_Type = Some ''stackdriver'', ei_Credential = None,
            ei_Config = Some ''{}'', ei_CreatedAt = Some ''now'', ei_UpdatedAt = Some ''now''\<rparr>],
          [\<lparr>eu_Name = ''e1'', eu_Credential = None, eu_Config = ''{}'', eu_UpdatedAt = ''now''\<rparr>])\<close>
  by (simp add: demo_existing demo_entry_fields exporterLoop_accepted [OF demo_config_valid])

theorem commit_in_order_until_refusal_witness:
  \<open>writeCredentials demoLib
        (demoCredentials [credentialRowOf ''c1'' ''aws-key'' ''old1'', credentialRowOf ''c2'' ''gcp-service-account'' ''old2''] 1)
        ''now'' demoRequest
        [Decoded (gcpEntry ''c0''), Decoded (awsEntry ''c1'' ''s1''), Decoded (gcpEntry ''c2'')]
        (0, [])
     = (HttpError 500 (UpdatingCredentialFailed ''c1'' ''store refused''), 1,
        [ListCall ''t1'',
         InsertCall ''t1''
           [\<lparr>ci_Name = Some ''c0'', ci_Type = Some ''gcp-service-account'', ci_Value = Some ''{}'',
            ci_CreatedAt = Some ''now'', ci_UpdatedAt = Some ''now''\<rparr>],
         UpdateCall ''t1''
           \<lparr>cu_Name = ''c1'',
            cu_Value = ''{"AWS_ACCESS_KEY_ID":"AKID","AWS_SECRET_ACCESS_KEY":"s1"}'',
            cu_UpdatedAt = ''now''\<rparr>])
   \<and> writeExporters demoLib (demoExporters [exporterRowOf ''e1'' ''cloudwatch''] 5) ''now'' demoRequest
        [Decoded (exporterEntry ''e0'' ''stackdriver'' (MapII [])), Decoded (exporterEntry ''e1'' [] (MapII []))]
        (0, [])
     = (HttpOK [], 2,
        [ListCall ''t1'',
         InsertCall ''t1''
           [\<lparr>ei_Name = Some ''e0'', ei_Type = Some ''stackdriver'', ei_Credential = None,
            ei_Config = Some ''{}'', ei_CreatedAt = Some ''now'', ei_UpdatedAt = Some ''now''\<rparr>],
         UpdateCall ''t1''
           \<lparr>eu_Name = ''e1'', eu_Credential = None, eu_Config = ''{}'', eu_UpdatedAt = ''now''\<rparr>])\<close>
proof
  show \<open>writeCredentials demoLib
        (demoCredentials [credentialRowOf ''c1'' ''aws-key'' ''old1'', credentialRowOf ''c2'' ''gcp-service-account'' ''old2''] 1)
        ''now'' demoRequest
        [Decoded (gcpEntry ''c0''), Decoded (awsEntry ''c1'' ''s1''), Decoded (gcpEntry ''c2'')]
        (0, [])
     = (HttpError 500 (UpdatingCredentialFailed ''c1'' ''store refused''), 1,
        [ListCall ''t1'',
         InsertCall ''t1''
           [\<lparr>ci_Name = Some ''c0'', ci_Type = Some ''gcp-service-account'', ci_Value = Some ''{}'',
            ci_CreatedAt = Some ''now'', ci_UpdatedAt = Some ''now''\<rparr>],
         UpdateCall ''t1''
           \<lparr>cu_Name = ''c1'',
            cu_Value = ''{"AWS_ACCESS_KEY_ID":"AKID","AWS_SECRET_ACCESS_KEY":"s1"}'',
            cu_UpdatedAt = ''now''\<rparr>])\<close>
    using commit_in_order_until_refusal
      [where r = demoRequest and tenant = "''t1''" and L = demoLib and now = "''now''"
         and cclient = "demoCredentials [credentialRowOf ''c1'' ''aws-key'' ''old1'', credentialRowOf ''c2'' ''gcp-service-account'' ''old2''] 1"
         and w = "(0, [])" and ?s1.0 = 0
         and crows = "[credentialRowOf ''c1'' ''aws-key'' ''old1'', credentialRowOf ''c2'' ''gcp-service-account'' ''old2'']"
         and cbody = "[Decoded (gcpEntry ''c0''), Decoded (awsEntry ''c1'' ''s1''), Decoded (gcpEntry ''c2'')]"
         and cins = \<open>[\<lparr>ci_Name = Some ''c0'', ci_Type = Some ''gcp-service-account'', ci_Value = Some ''{}'',
            ci_CreatedAt = Some ''now'', ci_UpdatedAt = Some ''now''\<rparr>]\<close>
         and cupd = \<open>[\<lparr>cu_Name = ''c1'',
            cu_Value = ''{"AWS_ACCESS_KEY_ID":"AKID","AWS_SECRET_ACCESS_KEY":"s1"}'',
            cu_UpdatedAt = ''now''\<rparr>,
           \<lparr>cu_Name = ''c2'', cu_Value = ''{}'', cu_UpdatedAt = ''now''\<rparr>]\<close>,
       THEN conjunct1, THEN mp, THEN mp, THEN mp, THEN mp, OF demo_tenant _ demo_credential_batch,
       THEN conjunct2, THEN conjunct2]
    by (simp add: demo_listing acceptedBefore_def commitPlan_def worldAfter_def
        credentialInsert_def credentialUpdate_def demoCredentials_def)
next
  show \<open>writeExporters demoLib (demoExporters [exporterRowOf ''e1'' ''cloudwatch''] 5) ''now'' demoRequest
        [Decoded (exporterEntry ''e0'' ''stackdriver'' (MapII [])), Decoded (exporterEntry ''e1'' [] (MapII []))]
        (0, [])
     = (HttpOK [], 2,
        [ListCall ''t1'',
         InsertCall ''t1''
           [\<lparr>ei_Name = Some ''e0'', ei_Type = Some ''stackdriver'', ei_Credential = None,
            ei_Config = Some ''{}'', ei_CreatedAt = Some ''now'', ei_UpdatedAt = Some ''now''\<rparr>],
         UpdateCall ''t1''
           \<lparr>eu_Name = ''e1'', eu_Credential = None, eu_Config = ''{}'', eu_UpdatedAt = ''now''\<rparr>])\<close>
    using commit_in_order_until_refusal
      [where r = demoRequest and tenant = "''t1''" and L = demoLib and now = "''now''"
         and eclient = "demoExporters [exporterRowOf ''e1'' ''cloudwatch''] 5"
         and w' = "(0, [])" and s1' = 0
         and erows = "[exporterRowOf ''e1'' ''cloudwatch'']"
         and ebody = "[Decoded (exporterEntry ''e0'' ''stackdriver'' (MapII [])), Decoded (exporterEntry ''e1'' [] (MapII []))]"
         and eins = \<open>[\<lparr>ei_Name = Some ''e0'', ei_Type = Some ''stackdriver'', ei_Credential = None,
            ei_Config = Some ''{}'', ei_CreatedAt = Some ''now'', ei_UpdatedAt = Some ''now''\<rparr>]\<close>
         and eupd = \<open>[\<lparr>eu_Name = ''e1'', eu_Credential = None, eu_Config = ''{}'', eu_UpdatedAt = ''now''\<rparr>]\<close>,
       THEN conjunct2, THEN mp, THEN mp, THEN mp, THEN mp, OF demo_tenant _ demo_exporter_batch,
       THEN conjunct2, THEN conjunct2]
    by (simp add: demo_listing acceptedBefore_def commitPlan_def worldAfter_def
        exporterInsert_def exporterUpdate_def demoExporters_def)
qed

section \<open>Classification of entries\<close>

lemma credentials_inserts_only:
  assumes tenant: "getTenant r = Inr tenant"
    and listed: "cred_List client tenant (fst w) = (Inr rows, s1)"
    and loop: "credentialLoop L (credentialTypes rows) now body [] [] = Inr (inserts, [])"
    and some: "inserts \<noteq> []"
  shows "\<exists>resp s'. writeCredentials L client now r body w =
           (resp, s', snd w @ [ListCall tenant, InsertCall tenant inserts])"
proof -
  obtain err s2 where "cred_Insert client tenant inserts s1 = (err, s2)"
    by (cases "cred_Insert client tenant inserts s1")
  with tenant listed loop some show ?thesis
    by (cases err)
       (simp_all add: writeCredentials_def credentialList_def credentialInsert_def)
qed

lemma exporters_inserts_only:
  assumes tenant: "getTenant r = Inr tenant"
    and listed: "exp_List client tenant (fst w) = (Inr rows, s1)"
    and loop: "exporterLoop L (exporterTypes rows) now body [] [] = Inr (inserts, [])"
    and some: "inserts \<noteq> []"
  shows "\<exists>resp s'. writeExporters L client now r body w =
           (resp, s', snd w @ [ListCall tenant, InsertCall tenant inserts])"
proof -
  obtain err s2 where "exp_Insert client tenant inserts s1 = (err, s2)"
    by (cases "exp_Insert client tenant inserts s1")
  with tenant listed loop some show ?thesis
    by (cases err)
       (simp_all add: writeExporters_def exporterList_def exporterInsert_def)
qed

text \<open>
  C10. Whether an entry becomes an insert or an update is decided by the existing types
  alone, which the handler fetches once, before the loop, and which the loop never
  extends: when the loop accepts a body, the names of its inserts are those of the
  entries whose name is not among the existing ones, and the names of its updates those
  of the entries whose name is, both in the order of the body. So two valid entries
  with the same new name are submitted as two inserts in one insert call, and two valid
  entries naming the same existing resource give two updates and no insert.
\<close>

theorem classification_by_fetched_names:
  "(credentialLoop L existing now cbody [] [] = Inr (cins, cupd) \<longrightarrow>
      (\<exists>cs. cbody = map Decoded cs \<and>
         map ci_Name cins =
           map (\<lambda>c. Some (c_Name c)) (filter (\<lambda>c. existing (c_Name c) = None) cs) \<and>
         map cu_Name cupd = map c_Name (filter (\<lambda>c. existing (c_Name c) \<noteq> None) cs)))
   \<and> (getTenant r = Inr tenant \<longrightarrow>
      cred_List cclient tenant (fst w) = (Inr crows, s1) \<longrightarrow>
      credentialTypes crows (c_Name c) = None \<longrightarrow>
      c_Name c' = c_Name c \<longrightarrow>
      validateCredValue L (c_Name c) (c_Type c) (c_Value c) = Inr v \<longrightarrow>
      validateCredValue L (c_Name c') (c_Type c') (c_Value c') = Inr v' \<longrightarrow>
      (\<exists>resp s'. writeCredentials L cclient now r [Decoded c, Decoded c'] w =
         (resp, s', snd w @
            [ListCall tenant,
             InsertCall tenant
               [\<lparr>ci_Name = Some (c_Name c), ci_Type = Some (c_Type c), ci_Value = Some v,
                  ci_CreatedAt = Some now, ci_UpdatedAt = Some now\<rparr>,
                \<lparr>ci_Name = Some (c_Name c), ci_Type = Some (c_Type c'), ci_Value = Some v',
                  ci_CreatedAt = Some now, ci_UpdatedAt = Some now\<rparr>]])))
   \<and> (existing (c_Name c) = Some t \<longrightarrow>
      c_Name c' = c_Name c \<longrightarrow>
      validateCredValue L (c_Name c) (c_Type c) (c_Value c) = Inr v \<longrightarrow>
      validateCredValue L (c_Name c') (c_Type c') (c_Value c') = Inr v' \<longrightarrow>
      (c_Type c = [] \<or> c_Type c = t) \<longrightarrow>
      (c_Type c' = [] \<or> c_Type c' = t) \<longrightarrow>
      credentialLoop L existing now [Decoded c, Decoded c'] [] [] =
        Inr ([], [\<lparr>cu_Name = c_Name c, cu_Value = v, cu_UpdatedAt = now\<rparr>,
                  \<lparr>cu_Name = c_Name c, cu_Value = v', cu_UpdatedAt = now\<rparr>]))
   \<and> (exporterLoop L existing now ebody [] [] = Inr (eins, eupd) \<longrightarrow>
      (\<exists>es. ebody = map Decoded es \<and>
         map ei_Name eins =
           map (\<lambda>e. Some (e_Name e)) (filter (\<lambda>e. existing (e_Name e) = None) es) \<and>
         map eu_Name eupd = map e_Name (filter (\<lambda>e. existing (e_Name e) \<noteq> None) es)))
   \<and> (getTenant r = Inr tenant \<longrightarrow>
      exp_List eclient tenant (fst w') = (Inr erows, s1') \<longrightarrow>
      exporterTypes erows (e_Name e) = None \<longrightarrow>
      e_Name e' = e_Name e \<longrightarrow>
      encodedConfig L e = Some g \<longrightarrow>
      encodedConfig L e' = Some g' \<longrightarrow>
      (\<exists>resp s'. writeExporters L eclient now r [Decoded e, Decoded e'] w' =
         (resp, s', snd w' @
            [ListCall tenant,
             InsertCall tenant
               [\<lparr>ei_Name = Some (e_Name e), ei_Type = Some (e_Type e),
                  ei_Credential = credentialRef e, ei_Config = Some g,
                  ei_CreatedAt = Some now, ei_UpdatedAt = Some now\<rparr>,
                \<lparr>ei_Name = Some (e_Name e), ei_Type = Some (e_Type e'),
                  ei_Credential = credentialRef e', ei_Config = Some g',
                  ei_CreatedAt = Some now, ei_UpdatedAt = Some now\<rparr>]])))
   \<and> (existing (e_Name e) = Some t \<longrightarrow>
      e_Name e' = e_Name e \<longrightarrow>
      encodedConfig L e = Some g \<longrightarrow>
      encodedConfig L e' = Some g' \<longrightarrow>
      (e_Type e = [] \<or> e_Type e = t) \<longrightarrow>
      (e_Type e' = [] \<or> e_Type e' = t) \<longrightarrow>
      exporterLoop L existing now [Decoded e, Decoded e'] [] [] =
        Inr ([], [\<lparr>eu_Name = e_Name e, eu_Credential = credentialRef e,
                    eu_Config = g, eu_UpdatedAt = now\<rparr>,
                  \<lparr>eu_Name = e_Name e, eu_Credential = credentialRef e',
                    eu_Config = g', eu_UpdatedAt = now\<rparr>]))"
proof (intro conjI impI)
  assume "credentialLoop L existing now cbody [] [] = Inr (cins, cupd)"
  then show "\<exists>cs. cbody = map Decoded cs \<and>
         map ci_Name cins =
           map (\<lambda>c. Some (c_Name c)) (filter (\<lambda>c. existing (c_Name c) = None) cs) \<and>
         map cu_Name cupd = map c_Name (filter (\<lambda>c. existing (c_Name c) \<noteq> None) cs)"
    by (rule credentialLoop_names)
next
  assume h: "getTenant r = Inr tenant" "cred_List cclient tenant (fst w) = (Inr crows, s1)"
    and absent: "credentialTypes crows (c_Name c) = None"
    and same: "c_Name c' = c_Name c"
    and valid: "validateCredValue L (c_Name c) (c_Type c) (c_Value c) = Inr v"
      "validateCredValue L (c_Name c') (c_Type c') (c_Value c') = Inr v'"
  have "credentialLoop L (credentialTypes crows) now [Decoded c, Decoded c'] [] [] =
      Inr ([\<lparr>ci_Name = Some (c_Name c), ci_Type = Some (c_Type c), ci_Value = Some v,
               ci_CreatedAt = Some now, ci_UpdatedAt = Some now\<rparr>,
             \<lparr>ci_Name = Some (c_Name c), ci_Type = Some (c_Type c'), ci_Value = Some v',
               ci_CreatedAt = Some now, ci_UpdatedAt = Some now\<rparr>], [])"
    using absent same valid by simp
  from credentials_inserts_only [OF h this]
  show "\<exists>resp s'. writeCredentials L cclient now r [Decoded c, Decoded c'] w =
         (resp, s', snd w @
            [ListCall tenant,
             InsertCall tenant
               [\<lparr>ci_Name = Some (c_Name c), ci_Type = Some (c_Type c), ci_Value = Some v,
                  ci_CreatedAt = Some now, ci_UpdatedAt = Some now\<rparr>,
                \<lparr>ci_Name = Some (c_Name c), ci_Type = Some (c_Type c'), ci_Value = Some v',
                  ci_CreatedAt = Some now, ci_UpdatedAt = Some now\<rparr>]])"
    by simp
next
  assume known: "existing (c_Name c) = Some t" and same: "c_Name c' = c_Name c"
    and valid: "validateCredValue L (c_Name c) (c_Type c) (c_Value c) = Inr v"
      "validateCredValue L (c_Name c') (c_Type c') (c_Value c') = Inr v'"
    and types: "c_Type c = [] \<or> c_Type c = t" "c_Type c' = [] \<or> c_Type c' = t"
  from types have keep: "\<not> (c_Type c \<noteq> [] \<and> t \<noteq> c_Type c)"
      "\<not> (c_Type c' \<noteq> [] \<and> t \<noteq> c_Type c')"
    by auto
  have first: "credentialLoop L existing now [Decoded c, Decoded c'] [] [] =
      credentialLoop L existing now [Decoded c'] []
        [\<lparr>cu_Name = c_Name c, cu_Value = v, cu_UpdatedAt = now\<rparr>]"
    using known valid(1) keep(1) by (simp only: credentialLoop.simps sum.case option.case if_False append_Nil)
  have second: "credentialLoop L existing now [Decoded c'] []
        [\<lparr>cu_Name = c_Name c, cu_Value = v, cu_UpdatedAt = now\<rparr>] =
      Inr ([], [\<lparr>cu_Name = c_Name c, cu_Value = v, cu_UpdatedAt = now\<rparr>,
                \<lparr>cu_Name = c_Name c', cu_Value = v', cu_UpdatedAt = now\<rparr>])"
    using known valid(2) keep(2) same
    by (simp only: credentialLoop.simps sum.case option.case if_False append_Cons append_Nil)
  from first second same
  show "credentialLoop L existing now [Decoded c, Decoded c'] [] [] =
        Inr ([], [\<lparr>cu_Name = c_Name c, cu_Value = v, cu_UpdatedAt = now\<rparr>,
                  \<lparr>cu_Name = c_Name c, cu_Value = v', cu_UpdatedAt = now\<rparr>])"
    by (simp only:)
next
  assume "exporterLoop L existing now ebody [] [] = Inr (eins, eupd)"
  then show "\<exists>es. ebody = map Decoded es \<and>
         map ei_Name eins =
           map (\<lambda>e. Some (e_Name e)) (filter (\<lambda>e. existing (e_Name e) = None) es) \<and>
         map eu_Name eupd = map e_Name (filter (\<lambda>e. existing (e_Name e) \<noteq> None) es)"
    by (rule exporterLoop_names)
next
  assume h: "getTenant r = Inr tenant" "exp_List eclient tenant (fst w') = (Inr erows, s1')"
    and absent: "exporterTypes erows (e_Name e) = None"
    and same: "e_Name e' = e_Name e"
    and valid: "encodedConfig L e = Some g" "encodedConfig L e' = Some g'"
  have "exporterLoop L (exporterTypes erows) now [Decoded e, Decoded e'] [] [] =
      Inr ([\<lparr>ei_Name = Some (e_Name e), ei_Type = Some (e_Type e),
               ei_Credential = credentialRef e, ei_Config = Some g,
               ei_CreatedAt = Some now, ei_UpdatedAt = Some now\<rparr>,
             \<lparr>ei_Name = Some (e_Name e), ei_Type = Some (e_Type e'),
               ei_Credential = credentialRef e', ei_Config = Some g',
               ei_CreatedAt = Some now, ei_UpdatedAt = Some now\<rparr>], [])"
    using absent same by (simp add: exporterLoop_accepted [OF valid(1)]
        exporterLoop_accepted [OF valid(2)])
  from exporters_inserts_only [OF h this]
  show "\<exists>resp s'. writeExporters L eclient now r [Decoded e, Decoded e'] w' =
         (resp, s', snd w' @
            [ListCall tenant,
             InsertCall tenant
               [\<lparr>ei_Name = Some (e_Name e), ei_Type = Some (e_Type e),
                  ei_Credential = credentialRef e, ei_Config = Some g,
                  ei_CreatedAt = Some now, ei_UpdatedAt = Some now\<rparr>,
                \<lparr>ei_Name = Some (e_Name e), ei_Type = Some (e_Type e'),
                  ei_Credential = credentialRef e', ei_Config = Some g',
                  ei_CreatedAt = Some now, ei_UpdatedAt = Some now\<rparr>]])"
    by simp
next
  assume known: "existing (e_Name e) = Some t" and same: "e_Name e' = e_Name e"
    and valid: "encodedConfig L e = Some g" "encodedConfig L e' = Some g'"
    and types: "e_Type e = [] \<or> e_Type e = t" "e_Type e' = [] \<or> e_Type e' = t"
  from types have keep: "\<not> (e_Type e \<noteq> [] \<and> t \<noteq> e_Type e)"
      "\<not> (e_Type e' \<noteq> [] \<and> t \<noteq> e_Type e')"
    by auto
  have first: "exporterLoop L existing now [Decoded e, Decoded e'] [] [] =
      exporterLoop L existing now [Decoded e'] []
        [\<lparr>eu_Name = e_Name e, eu_Credential = credentialRef e,
           eu_Config = g, eu_UpdatedAt = now\<rparr>]"
    using known keep(1)
    by (simp only: exporterLoop_accepted [OF valid(1)] option.case if_False append_Nil)
  have second: "exporterLoop L existing now [Decoded e'] []
        [\<lparr>eu_Name = e_Name e, eu_Credential = credentialRef e,
           eu_Config = g, eu_UpdatedAt = now\<rparr>] =
      Inr ([], [\<lparr>eu_Name = e_Name e, eu_Credential = credentialRef e,
                  eu_Config = g, eu_UpdatedAt = now\<rparr>,
                \<lparr>eu_Name = e_Name e', eu_Credential = credentialRef e',
                  eu_Config = g', eu_UpdatedAt = now\<rparr>])"
    using known keep(2) same
    by (simp only: exporterLoop_accepted [OF valid(2)] exporterLoop.simps(1) option.case
        if_False append_Cons append_Nil)
  from first second same
  show "exporterLoop L existing now [Decoded e, Decoded e'] [] [] =
        Inr ([], [\<lparr>eu_Name = e_Name e, eu_Credential = credentialRef e,
                    eu_Config = g, eu_UpdatedAt = now\<rparr>,
                  \<lparr>eu_Name = e_Name e, eu_Credential = credentialRef e',
                    eu_Config = g', eu_UpdatedAt = now\<rparr>])"
    by (simp only:)
qed

text \<open>
  Two entries under one new name are both inserted, by one call; two entries for one
  existing name are both updates.
\<close>

theorem classification_by_fetched_names_witness:
  \<open>(\<exists>cs. [Decoded (awsEntry ''c1'' ''s1''), Decoded (gcpEntry ''c2'')] = map Decoded cs \<and>
        map ci_Name
          [\<lparr>ci_Name = Some ''c2'', ci_Type = Some ''gcp-service-account'',
             ci_Value = Some ''{}'', ci_CreatedAt = Some ''now'',
             ci_UpdatedAt = Some ''now''\<rparr>] =
          map (\<lambda>c. Some (c_Name c))
            (filter (\<lambda>c. [''c1'' \<mapsto> ''aws-key''] (c_Name c) = None) cs) \<and>
        map cu_Name
          [\<lparr>cu_Name = ''c1'', cu_Value = ''{"AWS_ACCESS_KEY_ID":"AKID","AWS_SECRET_ACCESS_KEY":"s1"}'',
             cu_UpdatedAt = ''now''\<rparr>] =
          map c_Name (filter (\<lambda>c. [''c1'' \<mapsto> ''aws-key''] (c_Name c) \<noteq> None) cs))
   \<and> (\<exists>resp s'.
        writeCredentials demoLib (demoCredentials [] 5) ''now'' demoRequest
            [Decoded (gcpEntry ''dup''), Decoded (awsEntry ''dup'' ''s1'')] (0, [])
          = (resp, s',
             [ListCall ''t1'',
              InsertCall ''t1''
                [\<lparr>ci_Name = Some ''dup'', ci_Type = Some ''gcp-service-account'',
                   ci_Value = Some ''{}'', ci_CreatedAt = Some ''now'',
                   ci_UpdatedAt = Some ''now''\<rparr>,
                 \<lparr>ci_Name = Some ''dup'', ci_Type = Some ''aws-key'',
                   ci_Value = Some ''{"AWS_ACCESS_KEY_ID":"AKID","AWS_SECRET_ACCESS_KEY":"s1"}'',
                   ci_CreatedAt = Some ''now'', ci_UpdatedAt = Some ''now''\<rparr>]]))
   \<and> credentialLoop demoLib [''c1'' \<mapsto> ''aws-key''] ''now''
        [Decoded (awsEntry ''c1'' ''s1''), Decoded (awsEntry ''c1'' ''s2'')] [] []
      = Inr ([], [\<lparr>cu_Name = ''c1'', cu_Value = ''{"AWS_ACCESS_KEY_ID":"AKID","AWS_SECRET_ACCESS_KEY":"s1"}'',
             cu_UpdatedAt = ''now''\<rparr>,
                  \<lparr>cu_Name = ''c1'', cu_Value = ''{"AWS_ACCESS_KEY_ID":"AKID","AWS_SECRET_ACCESS_KEY":"s2"}'',
             cu_UpdatedAt = ''now''\<rparr>])
   \<and> (\<exists>es. [Decoded (exporterEntry ''e1'' [] (MapII [])),
              Decoded (exporterEntry ''e2'' ''stackdriver'' (MapII []))] = map Decoded es \<and>
        map ei_Name
          [\<lparr>ei_Name = Some ''e2'', ei_Type = Some ''stackdriver'', ei_Credential = None,
             ei_Config = Some ''{}'', ei_CreatedAt = Some ''now'',
             ei_UpdatedAt = Some ''now''\<rparr>] =
          map (\<lambda>e. Some (e_Name e))
            (filter (\<lambda>e. [''e1'' \<mapsto> ''cloudwatch''] (e_Name e) = None) es) \<and>
        map eu_Name
          [\<lparr>eu_Name = ''e1'', eu_Credential = None, eu_Config = ''{}'',
             eu_UpdatedAt = ''now''\<rparr>] =
          map e_Name (filter (\<lambda>e. [''e1'' \<mapsto> ''cloudwatch''] (e_Name e) \<noteq> None) es))
   \<and> (\<exists>resp s'.
        writeExporters demoLib (demoExporters [] 5) ''now'' demoRequest
            [Decoded (exporterEntry ''dup'' ''cloudwatch'' (MapII [])),
             Decoded (exporterEntry ''dup'' ''stackdriver'' (MapII []))] (0, [])
          = (resp, s',
             [ListCall ''t1'',
              InsertCall ''t1''
                [\<lparr>ei_Name = Some ''dup'', ei_Type = Some ''cloudwatch'', ei_Credential = None,
                   ei_Config = Some ''{}'', ei_CreatedAt = Some ''now'',
                   ei_UpdatedAt = Some ''now''\<rparr>,
                 \<lparr>ei_Name = Some ''dup'', ei_Type = Some ''stackdriver'', ei_Credential = None,
                   ei_Config = Some ''{}'', ei_CreatedAt = Some ''now'',
                   ei_UpdatedAt = Some ''now''\<rparr>]]))
   \<and> exporterLoop demoLib [''e1'' \<mapsto> ''cloudwatch''] ''now''
        [Decoded (exporterEntry ''e1'' [] (MapII [])),
         Decoded (exporterEntry ''e1'' ''cloudwatch'' (MapII []))] [] []
      = Inr ([], [\<lparr>eu_Name = ''e1'', eu_Credential = None, eu_Config = ''{}'',
                    eu_UpdatedAt = ''now''\<rparr>,
                  \<lparr>eu_Name = ''e1'', eu_Credential = None, eu_Config = ''{}'',
                    eu_UpdatedAt = ''now''\<rparr>])\<close>
proof (intro conjI)
  show \<open>(\<exists>cs. [Decoded (awsEntry ''c1'' ''s1''), Decoded (gcpEntry ''c2'')] = map Decoded cs \<and>
        map ci_Name
          [\<lparr>ci_Name = Some ''c2'', ci_Type = Some ''gcp-service-account'',
             ci_Value = Some ''{}'', ci_CreatedAt = Some ''now'',
             ci_UpdatedAt = Some ''now''\<rparr>] =
          map (\<lambda>c. Some (c_Name c))
            (filter (\<lambda>c. [''c1'' \<mapsto> ''aws-key''] (c_Name c) = None) cs) \<and>
        map cu_Name
          [\<lparr>cu_Name = ''c1'', cu_Value = ''{"AWS_ACCESS_KEY_ID":"AKID","AWS_SECRET_ACCESS_KEY":"s1"}'',
             cu_UpdatedAt = ''now''\<rparr>] =
          map c_Name (filter (\<lambda>c. [''c1'' \<mapsto> ''aws-key''] (c_Name c) \<noteq> None) cs))\<close>
    using classification_by_fetched_names [THEN conjunct1, THEN mp, OF demo_credential_loop]
    by simp
next
  show \<open>(\<exists>resp s'.
        writeCredentials demoLib (demoCredentials [] 5) ''now'' demoRequest
            [Decoded (gcpEntry ''dup''), Decoded (awsEntry ''dup'' ''s1'')] (0, [])
          = (resp, s',
             [ListCall ''t1'',
              InsertCall ''t1''
                [\<lparr>ci_Name = Some ''dup'', ci_Type = Some ''gcp-service-account'',
                   ci_Value = Some ''{}'', ci_CreatedAt = Some ''now'',
                   ci_UpdatedAt = Some ''now''\<rparr>,
                 \<lparr>ci_Name = Some ''dup'', ci_Type = Some ''aws-key'',
                   ci_Value = Some ''{"AWS_ACCESS_KEY_ID":"AKID","AWS_SECRET_ACCESS_KEY":"s1"}'',
                   ci_CreatedAt = Some ''now'', ci_UpdatedAt = Some ''now''\<rparr>]]))\<close>
    using classification_by_fetched_names
      [where r = demoRequest and tenant = "''t1''" and L = demoLib and now = "''now''"
         and cclient = "demoCredentials [] 5" and w = "(0, [])" and ?s1.0 = 0 and crows = "[]"
         and c = "gcpEntry ''dup''" and c' = "awsEntry ''dup'' ''s1''"
         and v = "''{}''" and v' = \<open>''{"AWS_ACCESS_KEY_ID":"AKID","AWS_SECRET_ACCESS_KEY":"s1"}''\<close>,
       THEN conjunct2, THEN conjunct1]
    by (simp add: demo_facts credentialTypes_Nil)
next
  show \<open>credentialLoop demoLib [''c1'' \<mapsto> ''aws-key''] ''now''
        [Decoded (awsEntry ''c1'' ''s1''), Decoded (awsEntry ''c1'' ''s2'')] [] []
      = Inr ([], [\<lparr>cu_Name = ''c1'', cu_Value = ''{"AWS_ACCESS_KEY_ID":"AKID","AWS_SECRET_ACCESS_KEY":"s1"}'',
             cu_UpdatedAt = ''now''\<rparr>,
                  \<lparr>cu_Name = ''c1'', cu_Value = ''{"AWS_ACCESS_KEY_ID":"AKID","AWS_SECRET_ACCESS_KEY":"s2"}'',
             cu_UpdatedAt = ''now''\<rparr>])\<close>
    using classification_by_fetched_names
      [where L = demoLib and now = "''now''" and existing = "[''c1'' \<mapsto> ''aws-key'']"
         and t = "''aws-key''"
         and c = "awsEntry ''c1'' ''s1''" and c' = "awsEntry ''c1'' ''s2''"
         and v = \<open>''{"AWS_ACCESS_KEY_ID":"AKID","AWS_SECRET_ACCESS_KEY":"s1"}''\<close> and v' = \<open>''{"AWS_ACCESS_KEY_ID":"AKID","AWS_SECRET_ACCESS_KEY":"s2"}''\<close>,
       THEN conjunct2, THEN conjunct2, THEN conjunct1]
    by (simp add: demo_facts)
next
  show \<open>(\<exists>es. [Decoded (exporterEntry ''e1'' [] (MapII [])),
              Decoded (exporterEntry ''e2'' ''stackdriver'' (MapII []))] = map Decoded es \<and>
        map ei_Name
          [\<lparr>ei_Name = Some ''e2'', ei_Type = Some ''stackdriver'', ei_Credential = None,
             ei_Config = Some ''{}'', ei_CreatedAt = Some ''now'',
             ei_UpdatedAt = Some ''now''\<rparr>] =
          map (\<lambda>e. Some (e_Name e))
            (filter (\<lambda>e. [''e1'' \<mapsto> ''cloudwatch''] (e_Name e) = None) es) \<and>
        map eu_Name
          [\<lparr>eu_Name = ''e1'', eu_Credential = None, eu_Config = ''{}'',
             eu_UpdatedAt = ''now''\<rparr>] =
          map e_Name (filter (\<lambda>e. [''e1'' \<mapsto> ''cloudwatch''] (e_Name e) \<noteq> None) es))\<close>
    using classification_by_fetched_names [THEN conjunct2, THEN conjunct2, THEN conjunct2, THEN conjunct1, THEN mp, OF demo_exporter_loop]
    by simp
next
  show \<open>(\<exists>resp s'.
        writeExporters demoLib (demoExporters [] 5) ''now'' demoRequest
            [Decoded (exporterEntry ''dup'' ''cloudwatch'' (MapII [])),
             Decoded (exporterEntry ''dup'' ''stackdriver'' (MapII []))] (0, [])
          = (resp, s',
             [ListCall ''t1'',
              InsertCall ''t1''
                [\<lparr>ei_Name = Some ''dup'', ei_Type = Some ''cloudwatch'', ei_Credential = None,
                   ei_Config = Some ''{}'', ei_CreatedAt = Some ''now'',
                   ei_UpdatedAt = Some ''now''\<rparr>,
                 \<lparr>ei_Name = Some ''dup'', ei_Type = Some ''stackdriver'', ei_Credential = None,
                   ei_Config = Some ''{}'', ei_CreatedAt = Some ''now'',
                   ei_UpdatedAt = Some ''now''\<rparr>]]))\<close>
    using classification_by_fetched_names
      [where r = demoRequest and tenant = "''t1''" and L = demoLib and now = "''now''"
         and eclient = "demoExporters [] 5" and w' = "(0, [])" and s1' = 0 and erows = "[]"
         and e = "exporterEntry ''dup'' ''cloudwatch'' (MapII [])"
         and e' = "exporterEntry ''dup'' ''stackdriver'' (MapII [])"
         and g = "''{}''" and g' = "''{}''",
       THEN conjunct2, THEN conjunct2, THEN conjunct2, THEN conjunct2, THEN conjunct1]
    by (simp add: demo_facts exporterTypes_Nil)
next
  show \<open>exporterLoop demoLib [''e1'' \<mapsto> ''cloudwatch''] ''now''
        [Decoded (exporterEntry ''e1'' [] (MapII [])),
         Decoded (exporterEntry ''e1'' ''cloudwatch'' (MapII []))] [] []
      = Inr ([], [\<lparr>eu_Name = ''e1'', eu_Credential = None, eu_Config = ''{}'',
                    eu_UpdatedAt = ''now''\<rparr>,
                  \<lparr>eu_Name = ''e1'', eu_Credential = None, eu_Config = ''{}'',
                    eu_UpdatedAt = ''now''\<rparr>])\<close>
    using classification_by_fetched_names
      [where L = demoLib and now = "''now''" and existing = "[''e1'' \<mapsto> ''cloudwatch'']"
         and t = "''cloudwatch''"
         and e = "exporterEntry ''e1'' [] (MapII [])"
         and e' = "exporterEntry ''e1'' ''cloudwatch'' (MapII [])"
         and g = "''{}''" and g' = "''{}''",
       THEN conjunct2, THEN conjunct2, THEN conjunct2, THEN conjunct2, THEN conjunct2]
    by (simp add: demo_facts)
qed

section \<open>Reading credentials\<close>

lemma withoutValue_fields:
  assumes "withoutValue a = withoutValue b"
  shows "cr_Name a = cr_Name b" "cr_Type a = cr_Type b"
    "cr_CreatedAt a = cr_CreatedAt b" "cr_UpdatedAt a = cr_UpdatedAt b"
proof -
  from assms have "cr_Name (withoutValue a) = cr_Name (withoutValue b)"
    "cr_Type (withoutValue a) = cr_Type (withoutValue b)"
    "cr_CreatedAt (withoutValue a) = cr_CreatedAt (withoutValue b)"
    "cr_UpdatedAt (withoutValue a) = cr_UpdatedAt (withoutValue b)"
    by simp_all
  then show "cr_Name a = cr_Name b" "cr_Type a = cr_Type b"
    "cr_CreatedAt a = cr_CreatedAt b" "cr_UpdatedAt a = cr_UpdatedAt b"
    by (simp_all add: withoutValue_def)
qed

lemma withoutValue_documents:
  "map withoutValue xs = map withoutValue ys \<Longrightarrow>
   map (\<lambda>row. \<lparr>info_Name = cr_Name row, info_Type = cr_Type row,
                 info_CreatedAt = cr_CreatedAt row, info_UpdatedAt = cr_UpdatedAt row\<rparr>) xs =
   map (\<lambda>row. \<lparr>info_Name = cr_Name row, info_Type = cr_Type row,
                 info_CreatedAt = cr_CreatedAt row, info_UpdatedAt = cr_UpdatedAt row\<rparr>) ys"
proof (induction xs arbitrary: ys)
  case Nil
  then show ?case by simp
next
  case (Cons x xs)
  then obtain y ys' where ys: "ys = y # ys'" "withoutValue x = withoutValue y"
    "map withoutValue xs = map withoutValue ys'"
    by (cases ys) auto
  with Cons.IH [of ys'] withoutValue_fields [OF ys(2)] show ?case
    by simp
qed

lemma listCredentialsLoop_written:
  "listCredentialsLoop Y encoder rows written =
     written @ documentsWritten Y encoder
       (map (\<lambda>row. \<lparr>info_Name = cr_Name row, info_Type = cr_Type row,
                 info_CreatedAt = cr_CreatedAt row, info_UpdatedAt = cr_UpdatedAt row\<rparr>) rows)"
proof (induction rows arbitrary: encoder written)
  case Nil
  then show ?case by simp
next
  case (Cons row rows)
  then show ?case
    by (simp split: prod.splits)
qed

lemma listCredentials_body:
  assumes "getTenant r = Inr tenant" "cred_List client tenant (fst w) = (Inr rows, s1)"
  shows "listCredentials Y client r w =
       (HttpOK (documentsWritten Y (yaml_NewEncoder Y)
                  (map (\<lambda>row. \<lparr>info_Name = cr_Name row, info_Type = cr_Type row,
                 info_CreatedAt = cr_CreatedAt row, info_UpdatedAt = cr_UpdatedAt row\<rparr>) rows)),
        s1, snd w @ [ListCall tenant])"
  using assms
  by (simp add: listCredentials_def credentialList_def listCredentialsLoop_written)

lemma list_response_hides_values:
  assumes "\<forall>tenant. getTenant r = Inr tenant \<longrightarrow>
      map_sum id (map withoutValue) (fst (cred_List client1 tenant (fst w1))) =
      map_sum id (map withoutValue) (fst (cred_List client2 tenant (fst w2)))"
  shows "fst (listCredentials Y client1 r w1) = fst (listCredentials Y client2 r w2)"
proof (cases "getTenant r")
  case (Inl err)
  then show ?thesis by (simp add: listCredentials_def)
next
  case (Inr tenant)
  obtain a1 s1 a2 s2 where run: "cred_List client1 tenant (fst w1) = (a1, s1)"
    "cred_List client2 tenant (fst w2) = (a2, s2)"
    by (cases "cred_List client1 tenant (fst w1)"; cases "cred_List client2 tenant (fst w2)") auto
  with assms Inr have agree: "map_sum id (map withoutValue) a1 = map_sum id (map withoutValue) a2"
    by simp
  show ?thesis
  proof (cases a1)
    case l1: (Inl e1)
    with agree have "a2 = Inl e1" by (cases a2) auto
    with l1 Inr run show ?thesis
      by (simp add: listCredentials_def credentialList_def)
  next
    case r1: (Inr rows1)
    with agree obtain rows2 where r2: "a2 = Inr rows2" "map withoutValue rows1 = map withoutValue rows2"
      by (cases a2) auto
    from r1 r2 run have "cred_List client1 tenant (fst w1) = (Inr rows1, s1)"
      "cred_List client2 tenant (fst w2) = (Inr rows2, s2)"
      by simp_all
    with Inr withoutValue_documents [OF r2(2)] show ?thesis
      by (simp add: listCredentials_body)
  qed
qed

lemma get_response_hides_values:
  assumes "\<forall>tenant. getTenant r = Inr tenant \<longrightarrow>
      map_sum id (map_option withoutValue) (fst (cred_Get client1 tenant name (fst w1))) =
      map_sum id (map_option withoutValue) (fst (cred_Get client2 tenant name (fst w2)))"
  shows "fst (getCredential Y client1 name r w1) = fst (getCredential Y client2 name r w2)"
proof (cases "getTenant r")
  case (Inl err)
  then show ?thesis by (simp add: getCredential_def)
next
  case (Inr tenant)
  obtain a1 s1 a2 s2 where run: "cred_Get client1 tenant name (fst w1) = (a1, s1)"
    "cred_Get client2 tenant name (fst w2) = (a2, s2)"
    by (cases "cred_Get client1 tenant name (fst w1)"; cases "cred_Get client2 tenant name (fst w2)") auto
  with assms Inr have agree:
    "map_sum id (map_option withoutValue) a1 = map_sum id (map_option withoutValue) a2"
    by simp
  show ?thesis
  proof (cases a1)
    case l1: (Inl e1)
    with agree have "a2 = Inl e1" by (cases a2) auto
    with l1 Inr run show ?thesis
      by (simp add: getCredential_def credentialGet_def)
  next
    case r1: (Inr found1)
    with agree obtain found2 where r2: "a2 = Inr found2"
      "map_option withoutValue found1 = map_option withoutValue found2"
      by (cases a2) auto
    show ?thesis
    proof (cases found1)
      case None
      with r2 have "found2 = None" by simp
      with None r1 r2 Inr run show ?thesis
        by (simp add: getCredential_def credentialGet_def)
    next
      case (Some row1)
      with r2 obtain row2 where row2: "found2 = Some row2" "withoutValue row1 = withoutValue row2"
        by (cases found2) auto
      with Some r1 r2 Inr run withoutValue_fields [OF row2(2)] show ?thesis
        by (simp add: getCredential_def credentialGet_def)
    qed
  qed
qed

text \<open>
  C8. A successful listing writes, on one encoder, one document per row in the order of
  the listing, and a successful get writes one document; a document is made of the
  row's name, type and two timestamps, and of nothing else, so the bytes of the response
  are those the encoder writes for these documents. So when two stores answer a
  listing, or a get, with the same error or with rows that agree once their secret
  values are blanked, the two responses are the same: the response does not depend on
  the secret.
\<close>

theorem credential_reads_hide_values:
  "((\<forall>tenant. getTenant r = Inr tenant \<longrightarrow>
       map_sum id (map withoutValue) (fst (cred_List client1 tenant (fst w1))) =
       map_sum id (map withoutValue) (fst (cred_List client2 tenant (fst w2)))) \<longrightarrow>
     fst (listCredentials Y client1 r w1) = fst (listCredentials Y client2 r w2))
   \<and> ((\<forall>tenant. getTenant r = Inr tenant \<longrightarrow>
       map_sum id (map_option withoutValue) (fst (cred_Get client1 tenant name (fst w1))) =
       map_sum id (map_option withoutValue) (fst (cred_Get client2 tenant name (fst w2)))) \<longrightarrow>
     fst (getCredential Y client1 name r w1) = fst (getCredential Y client2 name r w2))
   \<and> (getTenant r = Inr tenant \<longrightarrow> cred_List client1 tenant (fst w1) = (Inr rows, s1) \<longrightarrow>
     listCredentials Y client1 r w1 =
       (HttpOK (documentsWritten Y (yaml_NewEncoder Y)
                  (map (\<lambda>row. \<lparr>info_Name = cr_Name row, info_Type = cr_Type row,
                 info_CreatedAt = cr_CreatedAt row, info_UpdatedAt = cr_UpdatedAt row\<rparr>) rows)),
        s1, snd w1 @ [ListCall tenant]))
   \<and> (getTenant r = Inr tenant \<longrightarrow> cred_Get client1 tenant name (fst w1) = (Inr (Some row), s1) \<longrightarrow>
     getCredential Y client1 name r w1 =
       (HttpOK (documentsWritten Y (yaml_NewEncoder Y)
                  [\<lparr>info_Name = cr_Name row, info_Type = cr_Type row,
                 info_CreatedAt = cr_CreatedAt row, info_UpdatedAt = cr_UpdatedAt row\<rparr>]),
        s1, snd w1 @ [GetCall tenant name]))"
proof (intro conjI impI)
  assume "\<forall>tenant. getTenant r = Inr tenant \<longrightarrow>
       map_sum id (map withoutValue) (fst (cred_List client1 tenant (fst w1))) =
       map_sum id (map withoutValue) (fst (cred_List client2 tenant (fst w2)))"
  then show "fst (listCredentials Y client1 r w1) = fst (listCredentials Y client2 r w2)"
    by (rule list_response_hides_values)
next
  assume "\<forall>tenant. getTenant r = Inr tenant \<longrightarrow>
       map_sum id (map_option withoutValue) (fst (cred_Get client1 tenant name (fst w1))) =
       map_sum id (map_option withoutValue) (fst (cred_Get client2 tenant name (fst w2)))"
  then show "fst (getCredential Y client1 name r w1) = fst (getCredential Y client2 name r w2)"
    by (rule get_response_hides_values)
next
  assume "getTenant r = Inr tenant" "cred_List client1 tenant (fst w1) = (Inr rows, s1)"
  then show "listCredentials Y client1 r w1 =
       (HttpOK (documentsWritten Y (yaml_NewEncoder Y)
                  (map (\<lambda>row. \<lparr>info_Name = cr_Name row, info_Type = cr_Type row,
                 info_CreatedAt = cr_CreatedAt row, info_UpdatedAt = cr_UpdatedAt row\<rparr>) rows)),
        s1, snd w1 @ [ListCall tenant])"
    by (rule listCredentials_body)
next
  assume "getTenant r = Inr tenant" "cred_Get client1 tenant name (fst w1) = (Inr (Some row), s1)"
  then show "getCredential Y client1 name r w1 =
       (HttpOK (documentsWritten Y (yaml_NewEncoder Y)
                  [\<lparr>info_Name = cr_Name row, info_Type = cr_Type row,
                 info_CreatedAt = cr_CreatedAt row, info_UpdatedAt = cr_UpdatedAt row\<rparr>]),
        s1, snd w1 @ [GetCall tenant name])"
    by (simp add: getCredential_def credentialGet_def)
qed

text \<open>
  Two stores holding credentials \<open>c1\<close> and \<open>c2\<close> with different secrets answer a listing
  and a get alike; the listing shows the four fields of each credential, the second
  document after the separator.
\<close>

theorem credential_reads_hide_values_witness:
  "fst (listCredentials demoEncoder (demoCredentials [credentialRowOf ''c1'' ''aws-key'' ''secret A'',
             credentialRowOf ''c2'' ''gcp-service-account'' ''secret B''] 0) demoRequest (0, []))
     = fst (listCredentials demoEncoder (demoCredentials [credentialRowOf ''c1'' ''aws-key'' ''secret C'',
             credentialRowOf ''c2'' ''gcp-service-account'' ''secret D''] 0) demoRequest (0, []))
   \<and> fst (getCredential demoEncoder (demoCredentials [credentialRowOf ''c1'' ''aws-key'' ''secret A'',
             credentialRowOf ''c2'' ''gcp-service-account'' ''secret B''] 0) ''c2'' demoRequest (0, []))
     = fst (getCredential demoEncoder (demoCredentials [credentialRowOf ''c1'' ''aws-key'' ''secret C'',
             credentialRowOf ''c2'' ''gcp-service-account'' ''secret D''] 0) ''c2'' demoRequest (0, []))
   \<and> listCredentials demoEncoder (demoCredentials [credentialRowOf ''c1'' ''aws-key'' ''secret A'',
             credentialRowOf ''c2'' ''gcp-service-account'' ''secret B''] 0) demoRequest (0, [])
     = (HttpOK (''name: c1'' @ [CHR 0x0A] @ ''type: aws-key'' @ [CHR 0x0A] @
                ''created_at: 2021-01-01T00:00:00Z'' @ [CHR 0x0A] @
                ''updated_at: 2021-01-02T00:00:00Z'' @ [CHR 0x0A] @
                ''---'' @ [CHR 0x0A] @
                ''name: c2'' @ [CHR 0x0A] @ ''type: gcp-service-account'' @ [CHR 0x0A] @
                ''created_at: 2021-01-01T00:00:00Z'' @ [CHR 0x0A] @
                ''updated_at: 2021-01-02T00:00:00Z'' @ [CHR 0x0A]),
        0, [ListCall ''t1''])
   \<and> getCredential demoEncoder (demoCredentials [credentialRowOf ''c1'' ''aws-key'' ''secret A'',
             credentialRowOf ''c2'' ''gcp-service-account'' ''secret B''] 0) ''c2'' demoRequest (0, [])
     = (HttpOK (''name: c2'' @ [CHR 0x0A] @ ''type: gcp-service-account'' @ [CHR 0x0A] @
                ''created_at: 2021-01-01T00:00:00Z'' @ [CHR 0x0A] @
                ''updated_at: 2021-01-02T00:00:00Z'' @ [CHR 0x0A]),
        0, [GetCall ''t1'' ''c2''])"
proof (intro conjI)
  note inst = credential_reads_hide_values
    [where r = demoRequest and tenant = "''t1''" and Y = demoEncoder and name = "''c2''"
       and ?client1.0 = "demoCredentials [credentialRowOf ''c1'' ''aws-key'' ''secret A'',
             credentialRowOf ''c2'' ''gcp-service-account'' ''secret B''] 0"
       and ?client2.0 = "demoCredentials [credentialRowOf ''c1'' ''aws-key'' ''secret C'',
             credentialRowOf ''c2'' ''gcp-service-account'' ''secret D''] 0"
       and ?w1.0 = "(0, [])" and ?w2.0 = "(0, [])" and ?s1.0 = 0
       and rows = "[credentialRowOf ''c1'' ''aws-key'' ''secret A'',
             credentialRowOf ''c2'' ''gcp-service-account'' ''secret B'']"
       and row = "credentialRowOf ''c2'' ''gcp-service-account'' ''secret B''"]
  show "fst (listCredentials demoEncoder (demoCredentials [credentialRowOf ''c1'' ''aws-key'' ''secret A'',
             credentialRowOf ''c2'' ''gcp-service-account'' ''secret B''] 0) demoRequest (0, []))
     = fst (listCredentials demoEncoder (demoCredentials [credentialRowOf ''c1'' ''aws-key'' ''secret C'',
             credentialRowOf ''c2'' ''gcp-service-account'' ''secret D''] 0) demoRequest (0, []))"
    using inst [THEN conjunct1]
    by (simp add: demo_tenant demoCredentials_def withoutValue_def credentialRowOf_def)
  show "fst (getCredential demoEncoder (demoCredentials [credentialRowOf ''c1'' ''aws-key'' ''secret A'',
             credentialRowOf ''c2'' ''gcp-service-account'' ''secret B''] 0) ''c2'' demoRequest (0, []))
     = fst (getCredential demoEncoder (demoCredentials [credentialRowOf ''c1'' ''aws-key'' ''secret C'',
             credentialRowOf ''c2'' ''gcp-service-account'' ''secret D''] 0) ''c2'' demoRequest (0, []))"
    using inst [THEN conjunct2, THEN conjunct1]
    by (simp add: demo_tenant demoCredentials_def withoutValue_def credentialRowOf_def)
  show "listCredentials demoEncoder (demoCredentials [credentialRowOf ''c1'' ''aws-key'' ''secret A'',
             credentialRowOf ''c2'' ''gcp-service-account'' ''secret B''] 0) demoRequest (0, [])
     = (HttpOK (''name: c1'' @ [CHR 0x0A] @ ''type: aws-key'' @ [CHR 0x0A] @
                ''created_at: 2021-01-01T00:00:00Z'' @ [CHR 0x0A] @
                ''updated_at: 2021-01-02T00:00:00Z'' @ [CHR 0x0A] @
                ''---'' @ [CHR 0x0A] @
                ''name: c2'' @ [CHR 0x0A] @ ''type: gcp-service-account'' @ [CHR 0x0A] @
                ''created_at: 2021-01-01T00:00:00Z'' @ [CHR 0x0A] @
                ''updated_at: 2021-01-02T00:00:00Z'' @ [CHR 0x0A]),
        0, [ListCall ''t1''])"
    using inst [THEN conjunct2, THEN conjunct2, THEN conjunct1]
    by (simp add: demo_tenant demoCredentials_def demoEncoder_def demoDocument_def
        credentialRowOf_def)
  show "getCredential demoEncoder (demoCredentials [credentialRowOf ''c1'' ''aws-key'' ''secret A'',
             credentialRowOf ''c2'' ''gcp-service-account'' ''secret B''] 0) ''c2'' demoRequest (0, [])
     = (HttpOK (''name: c2'' @ [CHR 0x0A] @ ''type: gcp-service-account'' @ [CHR 0x0A] @
                ''created_at: 2021-01-01T00:00:00Z'' @ [CHR 0x0A] @
                ''updated_at: 2021-01-02T00:00:00Z'' @ [CHR 0x0A]),
        0, [GetCall ''t1'' ''c2''])"
    using inst [THEN conjunct2, THEN conjunct2, THEN conjunct2]
    by (simp add: demo_tenant demoCredentials_def demoEncoder_def demoDocument_def
        credentialRowOf_def)
qed

section \<open>The type of a new exporter\<close>

text \<open>
  C9, as stated, does not hold: an exporter entry with a new name, no type and a map as
  configuration is accepted and inserted, its type being the empty string.
\<close>

theorem untyped_exporter_is_inserted:
  "writeExporters demoLib (demoExporters [] 5) ''now'' demoRequest
      [Decoded \<lparr>e_Name = ''e1'', e_Type = [], e_Credential = [], e_Config = MapII []\<rparr>] (0, [])
     = (HttpOK [], 1,
        [ListCall ''t1'',
         InsertCall ''t1''
           [\<lparr>ei_Name = Some ''e1'', ei_Type = Some [], ei_Credential = None,
              ei_Config = Some ''{}'', ei_CreatedAt = Some ''now'',
              ei_UpdatedAt = Some ''now''\<rparr>]])"
  by (simp add: writeExporters_def getTenant_def demoRequest_def exporterList_def
      demoExporters_def exporterTypes_def exporterLoop.simps(3) demoLib_def exporterInsert_def)

text \<open>
  C9, amended. \<open>writeExporters\<close> does not look at the type of an entry whose name is
  new: when the configuration of such an entry is valid, a request of that one entry
  submits one insert carrying the type as submitted, whatever it is, the empty string
  included.
\<close>

theorem new_exporter_type_unchecked:
  "getTenant r = Inr tenant \<longrightarrow>
   exp_List client tenant (fst w) = (Inr rows, s1) \<longrightarrow>
   exporterTypes rows (e_Name e) = None \<longrightarrow>
   encodedConfig L e = Some g \<longrightarrow>
   (\<exists>resp s'. writeExporters L client now r [Decoded e] w =
      (resp, s', snd w @
         [ListCall tenant,
          InsertCall tenant
            [\<lparr>ei_Name = Some (e_Name e), ei_Type = Some (e_Type e),
               ei_Credential = credentialRef e, ei_Config = Some g,
               ei_CreatedAt = Some now, ei_UpdatedAt = Some now\<rparr>]]))"
proof (intro impI)
  assume h: "getTenant r = Inr tenant" "exp_List client tenant (fst w) = (Inr rows, s1)"
    and absent: "exporterTypes rows (e_Name e) = None"
    and valid: "encodedConfig L e = Some g"
  have "exporterLoop L (exporterTypes rows) now [Decoded e] [] [] =
      Inr ([\<lparr>ei_Name = Some (e_Name e), ei_Type = Some (e_Type e),
               ei_Credential = credentialRef e, ei_Config = Some g,
               ei_CreatedAt = Some now, ei_UpdatedAt = Some now\<rparr>], [])"
    using absent by (simp add: exporterLoop_accepted [OF valid])
  from exporters_inserts_only [OF h this]
  show "\<exists>resp s'. writeExporters L client now r [Decoded e] w =
      (resp, s', snd w @
         [ListCall tenant,
          InsertCall tenant
            [\<lparr>ei_Name = Some (e_Name e), ei_Type = Some (e_Type e),
               ei_Credential = credentialRef e, ei_Config = Some g,
               ei_CreatedAt = Some now, ei_UpdatedAt = Some now\<rparr>]])"
    by simp
qed

text \<open>The entry without a type, against an empty tenant: the insert carries the empty type.\<close>

theorem new_exporter_type_unchecked_witness:
  "\<exists>resp s'. writeExporters demoLib (demoExporters [] 5) ''now'' demoRequest
      [Decoded (exporterEntry ''e1'' [] (MapII []))] (0, [])
     = (resp, s',
        [ListCall ''t1'',
         InsertCall ''t1''
           [\<lparr>ei_Name = Some ''e1'', ei_Type = Some [], ei_Credential = None,
              ei_Config = Some ''{}'', ei_CreatedAt = Some ''now'',
              ei_UpdatedAt = Some ''now''\<rparr>]])"
  using new_exporter_type_unchecked
    [where r = demoRequest and tenant = "''t1''" and L = demoLib and now = "''now''"
       and client = "demoExporters [] 5" and w = "(0, [])" and ?s1.0 = 0 and rows = "[]"
       and e = "exporterEntry ''e1'' [] (MapII [])" and g = "''{}''"]
  by (simp add: demo_facts exporterTypes_Nil)

end
